theory Spec2Isabelle
  imports Main "HOL-Library.Sublist" "HOL-Library.AList"
begin

section \<open>Python strings\<close>

text \<open>
  A Python \<^verbatim>\<open>str\<close> is a sequence of Unicode code points; it is modelled as a list of
  natural numbers, one per code point, so that \<^verbatim>\<open>len\<close> is \<open>length\<close>. ASCII literals of the
  source are written with \<open>str\<close>.

  White space is the set recognised by \<^verbatim>\<open>str.isspace\<close>, \<^verbatim>\<open>str.split()\<close>,
  \<^verbatim>\<open>str.strip()\<close> and the pattern \<^verbatim>\<open>\s\<close> on \<^verbatim>\<open>str\<close>.
\<close>

type_synonym pystr = "nat list"

definition str :: "string \<Rightarrow> pystr" where
  "str s = map of_char s"

datatype pyerr = IndexError | ValueError

definition py_isspace :: "nat \<Rightarrow> bool" where
  "py_isspace c =
     ((9 \<le> c \<and> c \<le> 13) \<or> (28 \<le> c \<and> c \<le> 32) \<or> c = 133 \<or> c = 160 \<or> c = 5760
      \<or> (8192 \<le> c \<and> c \<le> 8202) \<or> c = 8232 \<or> c = 8233 \<or> c = 8239 \<or> c = 8287
      \<or> c = 12288)"

definition ascii_digit :: "nat \<Rightarrow> bool" where
  "ascii_digit c = (48 \<le> c \<and> c \<le> 57)"

text \<open>\<^verbatim>\<open>sub in s\<close> on strings: \<open>sub\<close> occurs in \<open>s\<close> as a contiguous run.\<close>

fun contains :: "pystr \<Rightarrow> pystr \<Rightarrow> bool" where
  "contains sub [] = (sub = [])"
| "contains sub (c # cs) = (prefix sub (c # cs) \<or> contains sub cs)"

text \<open>
  \<^verbatim>\<open>int(s)\<close> on a string of ASCII decimal digits; anything else is reported as
  \<^verbatim>\<open>ValueError\<close>.
\<close>

fun py_int_acc :: "int \<Rightarrow> pystr \<Rightarrow> pyerr + int" where
  "py_int_acc acc [] = Inr acc"
| "py_int_acc acc (c # cs) =
     (if ascii_digit c then py_int_acc (10 * acc + (int c - 48)) cs else Inl ValueError)"

definition py_int :: "pystr \<Rightarrow> pyerr + int" where
  "py_int s = (if s = [] then Inl ValueError else py_int_acc 0 s)"


definition py_strip :: "pystr \<Rightarrow> pystr" where
  "py_strip s = rev (dropWhile py_isspace (rev (dropWhile py_isspace s)))"

fun split_aux :: "pystr \<Rightarrow> pystr \<Rightarrow> pystr list" where
  "split_aux cur [] = (if cur = [] then [] else [cur])"
| "split_aux cur (c # cs) =
     (if py_isspace c then (if cur = [] then split_aux [] cs else cur # split_aux [] cs)
      else split_aux (cur @ [c]) cs)"

definition py_split :: "pystr \<Rightarrow> pystr list" where
  "py_split s = split_aux [] s"


subsection \<open>Case and digits\<close>

text \<open>
  \<^verbatim>\<open>str.lower\<close>, \<^verbatim>\<open>str.title\<close>, \<^verbatim>\<open>str.isupper\<close> and \<^verbatim>\<open>str.isdigit\<close> read the
  Unicode character database that is compiled into the interpreter. The tables below are
  those of Unicode 14.0, the version of CPython 3.11, for the code points from 128 on; the
  ASCII range is written out in the definitions that use them. A set of code points is a
  list of runs \<open>(lo, hi, step)\<close>: the code points from \<open>lo\<close> to \<open>hi\<close> in steps of
  \<open>step\<close>. A mapping is a list of runs \<open>(lo, hi, step, target)\<close>, where \<open>target\<close> is
  the image of \<open>lo\<close> and the code point \<open>lo + k\<close> of the run has the image
  \<open>target + k\<close>.
\<close>

fun in_runs :: "(nat \<times> nat \<times> nat) list \<Rightarrow> nat \<Rightarrow> bool" where
  "in_runs [] c = False"
| "in_runs ((lo, hi, step) # runs) c =
     ((lo \<le> c \<and> c \<le> hi \<and> (c - lo) mod step = 0) \<or> in_runs runs c)"

fun map_runs :: "(nat \<times> nat \<times> nat \<times> nat) list \<Rightarrow> nat \<Rightarrow> nat option" where
  "map_runs [] c = None"
| "map_runs ((lo, hi, step, target) # runs) c =
     (if lo \<le> c \<and> c \<le> hi \<and> (c - lo) mod step = 0 then Some (target + (c - lo))
      else map_runs runs c)"

text \<open>The property \<^verbatim>\<open>Uppercase\<close>.\<close>

definition Uppercase_runs :: "(nat \<times> nat \<times> nat) list" where
  "Uppercase_runs =
    [(192, 214, 1), (216, 222, 1), (256, 310, 2), (313, 327, 2), (330, 374, 2), (376, 377, 1),
     (379, 381, 2), (385, 386, 1), (388, 388, 1), (390, 391, 1), (393, 395, 1), (398, 401, 1),
     (403, 404, 1), (406, 408, 1), (412, 413, 1), (415, 416, 1), (418, 420, 2), (422, 423, 1),
     (425, 425, 1), (428, 428, 1), (430, 431, 1), (433, 435, 1), (437, 437, 1), (439, 440, 1),
     (444, 444, 1), (452, 452, 1), (455, 455, 1), (458, 458, 1), (461, 475, 2), (478, 494, 2),
     (497, 497, 1), (500, 500, 1), (502, 504, 1), (506, 562, 2), (570, 571, 1), (573, 574, 1),
     (577, 577, 1), (579, 582, 1), (584, 590, 2), (880, 882, 2), (886, 886, 1), (895, 895, 1),
     (902, 902, 1), (904, 906, 1), (908, 908, 1), (910, 911, 1), (913, 929, 1), (931, 939, 1),
     (975, 975, 1), (978, 980, 1), (984, 1006, 2), (1012, 1012, 1), (1015, 1015, 1),
     (1017, 1018, 1), (1021, 1071, 1), (1120, 1152, 2), (1162, 1214, 2), (1216, 1217, 1),
     (1219, 1229, 2), (1232, 1326, 2), (1329, 1366, 1), (4256, 4293, 1), (4295, 4295, 1),
     (4301, 4301, 1), (5024, 5109, 1), (7312, 7354, 1), (7357, 7359, 1), (7680, 7828, 2),
     (7838, 7934, 2), (7944, 7951, 1), (7960, 7965, 1), (7976, 7983, 1), (7992, 7999, 1),
     (8008, 8013, 1), (8025, 8031, 2), (8040, 8047, 1), (8120, 8123, 1), (8136, 8139, 1),
     (8152, 8155, 1), (8168, 8172, 1), (8184, 8187, 1), (8450, 8450, 1), (8455, 8455, 1),
     (8459, 8461, 1), (8464, 8466, 1), (8469, 8469, 1), (8473, 8477, 1), (8484, 8488, 2),
     (8490, 8493, 1), (8496, 8499, 1), (8510, 8511, 1), (8517, 8517, 1), (8544, 8559, 1),
     (8579, 8579, 1), (9398, 9423, 1), (11264, 11311, 1), (11360, 11360, 1), (11362, 11364, 1),
     (11367, 11371, 2), (11373, 11376, 1), (11378, 11378, 1), (11381, 11381, 1),
     (11390, 11392, 1), (11394, 11490, 2), (11499, 11501, 2), (11506, 11506, 1),
     (42560, 42604, 2), (42624, 42650, 2), (42786, 42798, 2), (42802, 42862, 2),
     (42873, 42875, 2), (42877, 42878, 1), (42880, 42886, 2), (42891, 42893, 2),
     (42896, 42898, 2), (42902, 42920, 2), (42922, 42926, 1), (42928, 42932, 1),
     (42934, 42946, 2), (42948, 42951, 1), (42953, 42953, 1), (42960, 42960, 1),
     (42966, 42968, 2), (42997, 42997, 1), (65313, 65338, 1), (66560, 66599, 1),
     (66736, 66771, 1), (66928, 66938, 1), (66940, 66954, 1), (66956, 66962, 1),
     (66964, 66965, 1), (68736, 68786, 1), (71840, 71871, 1), (93760, 93791, 1),
     (119808, 119833, 1), (119860, 119885, 1), (119912, 119937, 1), (119964, 119964, 1),
     (119966, 119967, 1), (119970, 119970, 1), (119973, 119974, 1), (119977, 119980, 1),
     (119982, 119989, 1), (120016, 120041, 1), (120068, 120069, 1), (120071, 120074, 1),
     (120077, 120084, 1), (120086, 120092, 1), (120120, 120121, 1), (120123, 120126, 1),
     (120128, 120132, 1), (120134, 120134, 1), (120138, 120144, 1), (120172, 120197, 1),
     (120224, 120249, 1), (120276, 120301, 1), (120328, 120353, 1), (120380, 120405, 1),
     (120432, 120457, 1), (120488, 120512, 1), (120546, 120570, 1), (120604, 120628, 1),
     (120662, 120686, 1), (120720, 120744, 1), (120778, 120778, 1), (125184, 125217, 1),
     (127280, 127305, 1), (127312, 127337, 1), (127344, 127369, 1)]"

text \<open>The property \<^verbatim>\<open>Lowercase\<close>.\<close>

definition Lowercase_runs :: "(nat \<times> nat \<times> nat) list" where
  "Lowercase_runs =
    [(170, 170, 1), (181, 181, 1), (186, 186, 1), (223, 246, 1), (248, 255, 1), (257, 309, 2),
     (311, 312, 1), (314, 326, 2), (328, 329, 1), (331, 375, 2), (378, 380, 2), (382, 384, 1),
     (387, 389, 2), (392, 392, 1), (396, 397, 1), (402, 402, 1), (405, 405, 1), (409, 411, 1),
     (414, 414, 1), (417, 421, 2), (424, 424, 1), (426, 427, 1), (429, 429, 1), (432, 432, 1),
     (436, 438, 2), (441, 442, 1), (445, 447, 1), (454, 454, 1), (457, 457, 1), (460, 474, 2),
     (476, 477, 1), (479, 493, 2), (495, 496, 1), (499, 501, 2), (505, 561, 2), (563, 569, 1),
     (572, 572, 1), (575, 576, 1), (578, 578, 1), (583, 589, 2), (591, 659, 1), (661, 696, 1),
     (704, 705, 1), (736, 740, 1), (837, 837, 1), (881, 883, 2), (887, 887, 1), (890, 893, 1),
     (912, 912, 1), (940, 974, 1), (976, 977, 1), (981, 983, 1), (985, 1005, 2),
     (1007, 1011, 1), (1013, 1013, 1), (1016, 1016, 1), (1019, 1020, 1), (1072, 1119, 1),
     (1121, 1153, 2), (1163, 1215, 2), (1218, 1228, 2), (1230, 1231, 1), (1233, 1327, 2),
     (1376, 1416, 1), (4304, 4346, 1), (4349, 4351, 1), (5112, 5117, 1), (7296, 7304, 1),
     (7424, 7615, 1), (7681, 7827, 2), (7829, 7837, 1), (7839, 7933, 2), (7935, 7943, 1),
     (7952, 7957, 1), (7968, 7975, 1), (7984, 7991, 1), (8000, 8005, 1), (8016, 8023, 1),
     (8032, 8039, 1), (8048, 8061, 1), (8064, 8071, 1), (8080, 8087, 1), (8096, 8103, 1),
     (8112, 8116, 1), (8118, 8119, 1), (8126, 8126, 1), (8130, 8132, 1), (8134, 8135, 1),
     (8144, 8147, 1), (8150, 8151, 1), (8160, 8167, 1), (8178, 8180, 1), (8182, 8183, 1),
     (8305, 8305, 1), (8319, 8319, 1), (8336, 8348, 1), (8458, 8458, 1), (8462, 8463, 1),
     (8467, 8467, 1), (8495, 8495, 1), (8500, 8500, 1), (8505, 8505, 1), (8508, 8509, 1),
     (8518, 8521, 1), (8526, 8526, 1), (8560, 8575, 1), (8580, 8580, 1), (9424, 9449, 1),
     (11312, 11359, 1), (11361, 11361, 1), (11365, 11366, 1), (11368, 11372, 2),
     (11377, 11377, 1), (11379, 11380, 1), (11382, 11389, 1), (11393, 11489, 2),
     (11491, 11492, 1), (11500, 11502, 2), (11507, 11507, 1), (11520, 11557, 1),
     (11559, 11559, 1), (11565, 11565, 1), (42561, 42605, 2), (42625, 42649, 2),
     (42651, 42653, 1), (42787, 42797, 2), (42799, 42801, 1), (42803, 42861, 2),
     (42863, 42872, 1), (42874, 42876, 2), (42879, 42887, 2), (42892, 42894, 2),
     (42897, 42897, 1), (42899, 42901, 1), (42903, 42921, 2), (42927, 42927, 1),
     (42933, 42947, 2), (42952, 42954, 2), (42961, 42969, 2), (42998, 42998, 1),
     (43000, 43002, 1), (43824, 43866, 1), (43868, 43880, 1), (43888, 43967, 1),
     (64256, 64262, 1), (64275, 64279, 1), (65345, 65370, 1), (66600, 66639, 1),
     (66776, 66811, 1), (66967, 66977, 1), (66979, 66993, 1), (66995, 67001, 1),
     (67003, 67004, 1), (67456, 67456, 1), (67459, 67461, 1), (67463, 67504, 1),
     (67506, 67514, 1), (68800, 68850, 1), (71872, 71903, 1), (93792, 93823, 1),
     (119834, 119859, 1), (119886, 119892, 1), (119894, 119911, 1), (119938, 119963, 1),
     (119990, 119993, 1), (119995, 119995, 1), (119997, 120003, 1), (120005, 120015, 1),
     (120042, 120067, 1), (120094, 120119, 1), (120146, 120171, 1), (120198, 120223, 1),
     (120250, 120275, 1), (120302, 120327, 1), (120354, 120379, 1), (120406, 120431, 1),
     (120458, 120485, 1), (120514, 120538, 1), (120540, 120545, 1), (120572, 120596, 1),
     (120598, 120603, 1), (120630, 120654, 1), (120656, 120661, 1), (120688, 120712, 1),
     (120714, 120719, 1), (120746, 120770, 1), (120772, 120777, 1), (120779, 120779, 1),
     (122624, 122633, 1), (122635, 122654, 1), (125218, 125251, 1)]"

text \<open>The general category \<^verbatim>\<open>Lt\<close>, the title-case letters.\<close>

definition Titlecase_runs :: "(nat \<times> nat \<times> nat) list" where
  "Titlecase_runs =
    [(453, 453, 1), (456, 456, 1), (459, 459, 1), (498, 498, 1), (8072, 8079, 1),
     (8088, 8095, 1), (8104, 8111, 1), (8124, 8124, 1), (8140, 8140, 1), (8188, 8188, 1)]"

text \<open>The property \<^verbatim>\<open>Case_Ignorable\<close>.\<close>

definition Case_Ignorable_runs :: "(nat \<times> nat \<times> nat) list" where
  "Case_Ignorable_runs =
    [(168, 168, 1), (173, 175, 2), (180, 180, 1), (183, 184, 1), (688, 879, 1), (884, 885, 1),
     (890, 890, 1), (900, 901, 1), (903, 903, 1), (1155, 1161, 1), (1369, 1369, 1),
     (1375, 1375, 1), (1425, 1469, 1), (1471, 1471, 1), (1473, 1474, 1), (1476, 1477, 1),
     (1479, 1479, 1), (1524, 1524, 1), (1536, 1541, 1), (1552, 1562, 1), (1564, 1564, 1),
     (1600, 1600, 1), (1611, 1631, 1), (1648, 1648, 1), (1750, 1757, 1), (1759, 1768, 1),
     (1770, 1773, 1), (1807, 1809, 2), (1840, 1866, 1), (1958, 1968, 1), (2027, 2037, 1),
     (2042, 2042, 1), (2045, 2045, 1), (2070, 2093, 1), (2137, 2139, 1), (2184, 2184, 1),
     (2192, 2193, 1), (2200, 2207, 1), (2249, 2306, 1), (2362, 2364, 2), (2369, 2376, 1),
     (2381, 2381, 1), (2385, 2391, 1), (2402, 2403, 1), (2417, 2417, 1), (2433, 2433, 1),
     (2492, 2492, 1), (2497, 2500, 1), (2509, 2509, 1), (2530, 2531, 1), (2558, 2558, 1),
     (2561, 2562, 1), (2620, 2620, 1), (2625, 2626, 1), (2631, 2632, 1), (2635, 2637, 1),
     (2641, 2641, 1), (2672, 2673, 1), (2677, 2677, 1), (2689, 2690, 1), (2748, 2748, 1),
     (2753, 2757, 1), (2759, 2760, 1), (2765, 2765, 1), (2786, 2787, 1), (2810, 2815, 1),
     (2817, 2817, 1), (2876, 2876, 1), (2879, 2879, 1), (2881, 2884, 1), (2893, 2893, 1),
     (2901, 2902, 1), (2914, 2915, 1), (2946, 2946, 1), (3008, 3008, 1), (3021, 3021, 1),
     (3072, 3072, 1), (3076, 3076, 1), (3132, 3132, 1), (3134, 3136, 1), (3142, 3144, 1),
     (3146, 3149, 1), (3157, 3158, 1), (3170, 3171, 1), (3201, 3201, 1), (3260, 3260, 1),
     (3263, 3263, 1), (3270, 3270, 1), (3276, 3277, 1), (3298, 3299, 1), (3328, 3329, 1),
     (3387, 3388, 1), (3393, 3396, 1), (3405, 3405, 1), (3426, 3427, 1), (3457, 3457, 1),
     (3530, 3530, 1), (3538, 3540, 1), (3542, 3542, 1), (3633, 3633, 1), (3636, 3642, 1),
     (3654, 3662, 1), (3761, 3761, 1), (3764, 3772, 1), (3782, 3782, 1), (3784, 3789, 1),
     (3864, 3865, 1), (3893, 3897, 2), (3953, 3966, 1), (3968, 3972, 1), (3974, 3975, 1),
     (3981, 3991, 1), (3993, 4028, 1), (4038, 4038, 1), (4141, 4144, 1), (4146, 4151, 1),
     (4153, 4154, 1), (4157, 4158, 1), (4184, 4185, 1), (4190, 4192, 1), (4209, 4212, 1),
     (4226, 4226, 1), (4229, 4230, 1), (4237, 4237, 1), (4253, 4253, 1), (4348, 4348, 1),
     (4957, 4959, 1), (5906, 5908, 1), (5938, 5939, 1), (5970, 5971, 1), (6002, 6003, 1),
     (6068, 6069, 1), (6071, 6077, 1), (6086, 6086, 1), (6089, 6099, 1), (6103, 6103, 1),
     (6109, 6109, 1), (6155, 6159, 1), (6211, 6211, 1), (6277, 6278, 1), (6313, 6313, 1),
     (6432, 6434, 1), (6439, 6440, 1), (6450, 6450, 1), (6457, 6459, 1), (6679, 6680, 1),
     (6683, 6683, 1), (6742, 6742, 1), (6744, 6750, 1), (6752, 6754, 2), (6757, 6764, 1),
     (6771, 6780, 1), (6783, 6783, 1), (6823, 6823, 1), (6832, 6862, 1), (6912, 6915, 1),
     (6964, 6964, 1), (6966, 6970, 1), (6972, 6972, 1), (6978, 6978, 1), (7019, 7027, 1),
     (7040, 7041, 1), (7074, 7077, 1), (7080, 7081, 1), (7083, 7085, 1), (7142, 7142, 1),
     (7144, 7145, 1), (7149, 7149, 1), (7151, 7153, 1), (7212, 7219, 1), (7222, 7223, 1),
     (7288, 7293, 1), (7376, 7378, 1), (7380, 7392, 1), (7394, 7400, 1), (7405, 7405, 1),
     (7412, 7412, 1), (7416, 7417, 1), (7468, 7530, 1), (7544, 7544, 1), (7579, 7679, 1),
     (8125, 8125, 1), (8127, 8129, 1), (8141, 8143, 1), (8157, 8159, 1), (8173, 8175, 1),
     (8189, 8190, 1), (8203, 8207, 1), (8216, 8217, 1), (8228, 8228, 1), (8231, 8231, 1),
     (8234, 8238, 1), (8288, 8292, 1), (8294, 8303, 1), (8305, 8305, 1), (8319, 8319, 1),
     (8336, 8348, 1), (8400, 8432, 1), (11388, 11389, 1), (11503, 11505, 1), (11631, 11631, 1),
     (11647, 11647, 1), (11744, 11775, 1), (11823, 11823, 1), (12293, 12293, 1),
     (12330, 12333, 1), (12337, 12341, 1), (12347, 12347, 1), (12441, 12446, 1),
     (12540, 12542, 1), (40981, 40981, 1), (42232, 42237, 1), (42508, 42508, 1),
     (42607, 42610, 1), (42612, 42621, 1), (42623, 42623, 1), (42652, 42655, 1),
     (42736, 42737, 1), (42752, 42785, 1), (42864, 42864, 1), (42888, 42890, 1),
     (42994, 42996, 1), (43000, 43001, 1), (43010, 43010, 1), (43014, 43014, 1),
     (43019, 43019, 1), (43045, 43046, 1), (43052, 43052, 1), (43204, 43205, 1),
     (43232, 43249, 1), (43263, 43263, 1), (43302, 43309, 1), (43335, 43345, 1),
     (43392, 43394, 1), (43443, 43443, 1), (43446, 43449, 1), (43452, 43453, 1),
     (43471, 43471, 1), (43493, 43494, 1), (43561, 43566, 1), (43569, 43570, 1),
     (43573, 43574, 1), (43587, 43587, 1), (43596, 43596, 1), (43632, 43632, 1),
     (43644, 43644, 1), (43696, 43696, 1), (43698, 43700, 1), (43703, 43704, 1),
     (43710, 43711, 1), (43713, 43713, 1), (43741, 43741, 1), (43756, 43757, 1),
     (43763, 43764, 1), (43766, 43766, 1), (43867, 43871, 1), (43881, 43883, 1),
     (44005, 44005, 1), (44008, 44008, 1), (44013, 44013, 1), (64286, 64286, 1),
     (64434, 64450, 1), (65024, 65039, 1), (65043, 65043, 1), (65056, 65071, 1),
     (65106, 65106, 1), (65109, 65109, 1), (65279, 65279, 1), (65287, 65287, 1),
     (65294, 65294, 1), (65306, 65306, 1), (65342, 65344, 2), (65392, 65392, 1),
     (65438, 65439, 1), (65507, 65507, 1), (65529, 65531, 1), (66045, 66045, 1),
     (66272, 66272, 1), (66422, 66426, 1), (67456, 67461, 1), (67463, 67504, 1),
     (67506, 67514, 1), (68097, 68099, 1), (68101, 68102, 1), (68108, 68111, 1),
     (68152, 68154, 1), (68159, 68159, 1), (68325, 68326, 1), (68900, 68903, 1),
     (69291, 69292, 1), (69446, 69456, 1), (69506, 69509, 1), (69633, 69633, 1),
     (69688, 69702, 1), (69744, 69744, 1), (69747, 69748, 1), (69759, 69761, 1),
     (69811, 69814, 1), (69817, 69818, 1), (69821, 69821, 1), (69826, 69826, 1),
     (69837, 69837, 1), (69888, 69890, 1), (69927, 69931, 1), (69933, 69940, 1),
     (70003, 70003, 1), (70016, 70017, 1), (70070, 70078, 1), (70089, 70092, 1),
     (70095, 70095, 1), (70191, 70193, 1), (70196, 70196, 1), (70198, 70199, 1),
     (70206, 70206, 1), (70367, 70367, 1), (70371, 70378, 1), (70400, 70401, 1),
     (70459, 70460, 1), (70464, 70464, 1), (70502, 70508, 1), (70512, 70516, 1),
     (70712, 70719, 1), (70722, 70724, 1), (70726, 70726, 1), (70750, 70750, 1),
     (70835, 70840, 1), (70842, 70842, 1), (70847, 70848, 1), (70850, 70851, 1),
     (71090, 71093, 1), (71100, 71101, 1), (71103, 71104, 1), (71132, 71133, 1),
     (71219, 71226, 1), (71229, 71229, 1), (71231, 71232, 1), (71339, 71341, 2),
     (71344, 71349, 1), (71351, 71351, 1), (71453, 71455, 1), (71458, 71461, 1),
     (71463, 71467, 1), (71727, 71735, 1), (71737, 71738, 1), (71995, 71996, 1),
     (71998, 71998, 1), (72003, 72003, 1), (72148, 72151, 1), (72154, 72155, 1),
     (72160, 72160, 1), (72193, 72202, 1), (72243, 72248, 1), (72251, 72254, 1),
     (72263, 72263, 1), (72273, 72278, 1), (72281, 72283, 1), (72330, 72342, 1),
     (72344, 72345, 1), (72752, 72758, 1), (72760, 72765, 1), (72767, 72767, 1),
     (72850, 72871, 1), (72874, 72880, 1), (72882, 72883, 1), (72885, 72886, 1),
     (73009, 73014, 1), (73018, 73018, 1), (73020, 73021, 1), (73023, 73029, 1),
     (73031, 73031, 1), (73104, 73105, 1), (73109, 73111, 2), (73459, 73460, 1),
     (78896, 78904, 1), (92912, 92916, 1), (92976, 92982, 1), (92992, 92995, 1),
     (94031, 94031, 1), (94095, 94111, 1), (94176, 94177, 1), (94179, 94180, 1),
     (110576, 110579, 1), (110581, 110587, 1), (110589, 110590, 1), (113821, 113822, 1),
     (113824, 113827, 1), (118528, 118573, 1), (118576, 118598, 1), (119143, 119145, 1),
     (119155, 119170, 1), (119173, 119179, 1), (119210, 119213, 1), (119362, 119364, 1),
     (121344, 121398, 1), (121403, 121452, 1), (121461, 121461, 1), (121476, 121476, 1),
     (121499, 121503, 1), (121505, 121519, 1), (122880, 122886, 1), (122888, 122904, 1),
     (122907, 122913, 1), (122915, 122916, 1), (122918, 122922, 1), (123184, 123197, 1),
     (123566, 123566, 1), (123628, 123631, 1), (125136, 125142, 1), (125252, 125259, 1),
     (127995, 127999, 1), (917505, 917505, 1), (917536, 917631, 1), (917760, 917999, 1)]"

text \<open>The characters with a digit value, those for which \<^verbatim>\<open>str.isdigit\<close> holds.\<close>

definition Digit_runs :: "(nat \<times> nat \<times> nat) list" where
  "Digit_runs =
    [(178, 179, 1), (185, 185, 1), (1632, 1641, 1), (1776, 1785, 1), (1984, 1993, 1),
     (2406, 2415, 1), (2534, 2543, 1), (2662, 2671, 1), (2790, 2799, 1), (2918, 2927, 1),
     (3046, 3055, 1), (3174, 3183, 1), (3302, 3311, 1), (3430, 3439, 1), (3558, 3567, 1),
     (3664, 3673, 1), (3792, 3801, 1), (3872, 3881, 1), (4160, 4169, 1), (4240, 4249, 1),
     (4969, 4977, 1), (6112, 6121, 1), (6160, 6169, 1), (6470, 6479, 1), (6608, 6618, 1),
     (6784, 6793, 1), (6800, 6809, 1), (6992, 7001, 1), (7088, 7097, 1), (7232, 7241, 1),
     (7248, 7257, 1), (8304, 8304, 1), (8308, 8313, 1), (8320, 8329, 1), (9312, 9320, 1),
     (9332, 9340, 1), (9352, 9360, 1), (9450, 9450, 1), (9461, 9469, 1), (9471, 9471, 1),
     (10102, 10110, 1), (10112, 10120, 1), (10122, 10130, 1), (42528, 42537, 1),
     (43216, 43225, 1), (43264, 43273, 1), (43472, 43481, 1), (43504, 43513, 1),
     (43600, 43609, 1), (44016, 44025, 1), (65296, 65305, 1), (66720, 66729, 1),
     (68160, 68163, 1), (68912, 68921, 1), (69216, 69224, 1), (69714, 69722, 1),
     (69734, 69743, 1), (69872, 69881, 1), (69942, 69951, 1), (70096, 70105, 1),
     (70384, 70393, 1), (70736, 70745, 1), (70864, 70873, 1), (71248, 71257, 1),
     (71360, 71369, 1), (71472, 71481, 1), (71904, 71913, 1), (72016, 72025, 1),
     (72784, 72793, 1), (73040, 73049, 1), (73120, 73129, 1), (92768, 92777, 1),
     (92864, 92873, 1), (93008, 93017, 1), (120782, 120831, 1), (123200, 123209, 1),
     (123632, 123641, 1), (125264, 125273, 1), (127232, 127242, 1), (130032, 130041, 1)]"

text \<open>
  The lower-case mapping to one code point. One character has a longer image: U+0130, the
  capital I with a dot above, becomes \<^verbatim>\<open>i\<close> followed by the combining dot U+0307.
\<close>

definition Lower_runs :: "(nat \<times> nat \<times> nat \<times> nat) list" where
  "Lower_runs =
    [(192, 214, 1, 224), (216, 222, 1, 248), (256, 302, 2, 257), (306, 310, 2, 307),
     (313, 327, 2, 314), (330, 374, 2, 331), (376, 376, 1, 255), (377, 381, 2, 378),
     (385, 385, 1, 595), (386, 388, 2, 387), (390, 390, 1, 596), (391, 391, 1, 392),
     (393, 394, 1, 598), (395, 395, 1, 396), (398, 398, 1, 477), (399, 399, 1, 601),
     (400, 400, 1, 603), (401, 401, 1, 402), (403, 403, 1, 608), (404, 404, 1, 611),
     (406, 406, 1, 617), (407, 407, 1, 616), (408, 408, 1, 409), (412, 412, 1, 623),
     (413, 413, 1, 626), (415, 415, 1, 629), (416, 420, 2, 417), (422, 422, 1, 640),
     (423, 423, 1, 424), (425, 425, 1, 643), (428, 428, 1, 429), (430, 430, 1, 648),
     (431, 431, 1, 432), (433, 434, 1, 650), (435, 437, 2, 436), (439, 439, 1, 658),
     (440, 440, 1, 441), (444, 444, 1, 445), (452, 452, 1, 454), (453, 453, 1, 454),
     (455, 455, 1, 457), (456, 456, 1, 457), (458, 458, 1, 460), (459, 475, 2, 460),
     (478, 494, 2, 479), (497, 497, 1, 499), (498, 500, 2, 499), (502, 502, 1, 405),
     (503, 503, 1, 447), (504, 542, 2, 505), (544, 544, 1, 414), (546, 562, 2, 547),
     (570, 570, 1, 11365), (571, 571, 1, 572), (573, 573, 1, 410), (574, 574, 1, 11366),
     (577, 577, 1, 578), (579, 579, 1, 384), (580, 580, 1, 649), (581, 581, 1, 652),
     (582, 590, 2, 583), (880, 882, 2, 881), (886, 886, 1, 887), (895, 895, 1, 1011),
     (902, 902, 1, 940), (904, 906, 1, 941), (908, 908, 1, 972), (910, 911, 1, 973),
     (913, 929, 1, 945), (931, 939, 1, 963), (975, 975, 1, 983), (984, 1006, 2, 985),
     (1012, 1012, 1, 952), (1015, 1015, 1, 1016), (1017, 1017, 1, 1010), (1018, 1018, 1, 1019),
     (1021, 1023, 1, 891), (1024, 1039, 1, 1104), (1040, 1071, 1, 1072), (1120, 1152, 2, 1121),
     (1162, 1214, 2, 1163), (1216, 1216, 1, 1231), (1217, 1229, 2, 1218), (1232, 1326, 2, 1233),
     (1329, 1366, 1, 1377), (4256, 4293, 1, 11520), (4295, 4295, 1, 11559),
     (4301, 4301, 1, 11565), (5024, 5103, 1, 43888), (5104, 5109, 1, 5112),
     (7312, 7354, 1, 4304), (7357, 7359, 1, 4349), (7680, 7828, 2, 7681), (7838, 7838, 1, 223),
     (7840, 7934, 2, 7841), (7944, 7951, 1, 7936), (7960, 7965, 1, 7952), (7976, 7983, 1, 7968),
     (7992, 7999, 1, 7984), (8008, 8013, 1, 8000), (8025, 8031, 2, 8017), (8040, 8047, 1, 8032),
     (8072, 8079, 1, 8064), (8088, 8095, 1, 8080), (8104, 8111, 1, 8096), (8120, 8121, 1, 8112),
     (8122, 8123, 1, 8048), (8124, 8124, 1, 8115), (8136, 8139, 1, 8050), (8140, 8140, 1, 8131),
     (8152, 8153, 1, 8144), (8154, 8155, 1, 8054), (8168, 8169, 1, 8160), (8170, 8171, 1, 8058),
     (8172, 8172, 1, 8165), (8184, 8185, 1, 8056), (8186, 8187, 1, 8060), (8188, 8188, 1, 8179),
     (8486, 8486, 1, 969), (8490, 8490, 1, 107), (8491, 8491, 1, 229), (8498, 8498, 1, 8526),
     (8544, 8559, 1, 8560), (8579, 8579, 1, 8580), (9398, 9423, 1, 9424),
     (11264, 11311, 1, 11312), (11360, 11360, 1, 11361), (11362, 11362, 1, 619),
     (11363, 11363, 1, 7549), (11364, 11364, 1, 637), (11367, 11371, 2, 11368),
     (11373, 11373, 1, 593), (11374, 11374, 1, 625), (11375, 11375, 1, 592),
     (11376, 11376, 1, 594), (11378, 11378, 1, 11379), (11381, 11381, 1, 11382),
     (11390, 11391, 1, 575), (11392, 11490, 2, 11393), (11499, 11501, 2, 11500),
     (11506, 11506, 1, 11507), (42560, 42604, 2, 42561), (42624, 42650, 2, 42625),
     (42786, 42798, 2, 42787), (42802, 42862, 2, 42803), (42873, 42875, 2, 42874),
     (42877, 42877, 1, 7545), (42878, 42886, 2, 42879), (42891, 42891, 1, 42892),
     (42893, 42893, 1, 613), (42896, 42898, 2, 42897), (42902, 42920, 2, 42903),
     (42922, 42922, 1, 614), (42923, 42923, 1, 604), (42924, 42924, 1, 609),
     (42925, 42925, 1, 620), (42926, 42926, 1, 618), (42928, 42928, 1, 670),
     (42929, 42929, 1, 647), (42930, 42930, 1, 669), (42931, 42931, 1, 43859),
     (42932, 42946, 2, 42933), (42948, 42948, 1, 42900), (42949, 42949, 1, 642),
     (42950, 42950, 1, 7566), (42951, 42953, 2, 42952), (42960, 42960, 1, 42961),
     (42966, 42968, 2, 42967), (42997, 42997, 1, 42998), (65313, 65338, 1, 65345),
     (66560, 66599, 1, 66600), (66736, 66771, 1, 66776), (66928, 66938, 1, 66967),
     (66940, 66954, 1, 66979), (66956, 66962, 1, 66995), (66964, 66965, 1, 67003),
     (68736, 68786, 1, 68800), (71840, 71871, 1, 71872), (93760, 93791, 1, 93792),
     (125184, 125217, 1, 125218)]"

text \<open>The title-case mapping: to one code point, and the longer images.\<close>

definition Title_runs :: "(nat \<times> nat \<times> nat \<times> nat) list" where
  "Title_runs =
    [(181, 181, 1, 924), (224, 246, 1, 192), (248, 254, 1, 216), (255, 255, 1, 376),
     (257, 303, 2, 256), (305, 305, 1, 73), (307, 311, 2, 306), (314, 328, 2, 313),
     (331, 375, 2, 330), (378, 382, 2, 377), (383, 383, 1, 83), (384, 384, 1, 579),
     (387, 389, 2, 386), (392, 392, 1, 391), (396, 396, 1, 395), (402, 402, 1, 401),
     (405, 405, 1, 502), (409, 409, 1, 408), (410, 410, 1, 573), (414, 414, 1, 544),
     (417, 421, 2, 416), (424, 424, 1, 423), (429, 429, 1, 428), (432, 432, 1, 431),
     (436, 438, 2, 435), (441, 441, 1, 440), (445, 445, 1, 444), (447, 447, 1, 503),
     (452, 452, 1, 453), (454, 454, 1, 453), (455, 455, 1, 456), (457, 457, 1, 456),
     (458, 458, 1, 459), (460, 476, 2, 459), (477, 477, 1, 398), (479, 495, 2, 478),
     (497, 497, 1, 498), (499, 501, 2, 498), (505, 543, 2, 504), (547, 563, 2, 546),
     (572, 572, 1, 571), (575, 576, 1, 11390), (578, 578, 1, 577), (583, 591, 2, 582),
     (592, 592, 1, 11375), (593, 593, 1, 11373), (594, 594, 1, 11376), (595, 595, 1, 385),
     (596, 596, 1, 390), (598, 599, 1, 393), (601, 601, 1, 399), (603, 603, 1, 400),
     (604, 604, 1, 42923), (608, 608, 1, 403), (609, 609, 1, 42924), (611, 611, 1, 404),
     (613, 613, 1, 42893), (614, 614, 1, 42922), (616, 616, 1, 407), (617, 617, 1, 406),
     (618, 618, 1, 42926), (619, 619, 1, 11362), (620, 620, 1, 42925), (623, 623, 1, 412),
     (625, 625, 1, 11374), (626, 626, 1, 413), (629, 629, 1, 415), (637, 637, 1, 11364),
     (640, 640, 1, 422), (642, 642, 1, 42949), (643, 643, 1, 425), (647, 647, 1, 42929),
     (648, 648, 1, 430), (649, 649, 1, 580), (650, 651, 1, 433), (652, 652, 1, 581),
     (658, 658, 1, 439), (669, 669, 1, 42930), (670, 670, 1, 42928), (837, 837, 1, 921),
     (881, 883, 2, 880), (887, 887, 1, 886), (891, 893, 1, 1021), (940, 940, 1, 902),
     (941, 943, 1, 904), (945, 961, 1, 913), (962, 962, 1, 931), (963, 971, 1, 931),
     (972, 972, 1, 908), (973, 974, 1, 910), (976, 976, 1, 914), (977, 977, 1, 920),
     (981, 981, 1, 934), (982, 982, 1, 928), (983, 983, 1, 975), (985, 1007, 2, 984),
     (1008, 1008, 1, 922), (1009, 1009, 1, 929), (1010, 1010, 1, 1017), (1011, 1011, 1, 895),
     (1013, 1013, 1, 917), (1016, 1016, 1, 1015), (1019, 1019, 1, 1018), (1072, 1103, 1, 1040),
     (1104, 1119, 1, 1024), (1121, 1153, 2, 1120), (1163, 1215, 2, 1162), (1218, 1230, 2, 1217),
     (1231, 1231, 1, 1216), (1233, 1327, 2, 1232), (1377, 1414, 1, 1329), (5112, 5117, 1, 5104),
     (7296, 7296, 1, 1042), (7297, 7297, 1, 1044), (7298, 7298, 1, 1054), (7299, 7300, 1, 1057),
     (7301, 7301, 1, 1058), (7302, 7302, 1, 1066), (7303, 7303, 1, 1122),
     (7304, 7304, 1, 42570), (7545, 7545, 1, 42877), (7549, 7549, 1, 11363),
     (7566, 7566, 1, 42950), (7681, 7829, 2, 7680), (7835, 7835, 1, 7776),
     (7841, 7935, 2, 7840), (7936, 7943, 1, 7944), (7952, 7957, 1, 7960), (7968, 7975, 1, 7976),
     (7984, 7991, 1, 7992), (8000, 8005, 1, 8008), (8017, 8023, 2, 8025), (8032, 8039, 1, 8040),
     (8048, 8049, 1, 8122), (8050, 8053, 1, 8136), (8054, 8055, 1, 8154), (8056, 8057, 1, 8184),
     (8058, 8059, 1, 8170), (8060, 8061, 1, 8186), (8064, 8071, 1, 8072), (8080, 8087, 1, 8088),
     (8096, 8103, 1, 8104), (8112, 8113, 1, 8120), (8115, 8115, 1, 8124), (8126, 8126, 1, 921),
     (8131, 8131, 1, 8140), (8144, 8145, 1, 8152), (8160, 8161, 1, 8168), (8165, 8165, 1, 8172),
     (8179, 8179, 1, 8188), (8526, 8526, 1, 8498), (8560, 8575, 1, 8544), (8580, 8580, 1, 8579),
     (9424, 9449, 1, 9398), (11312, 11359, 1, 11264), (11361, 11361, 1, 11360),
     (11365, 11365, 1, 570), (11366, 11366, 1, 574), (11368, 11372, 2, 11367),
     (11379, 11379, 1, 11378), (11382, 11382, 1, 11381), (11393, 11491, 2, 11392),
     (11500, 11502, 2, 11499), (11507, 11507, 1, 11506), (11520, 11557, 1, 4256),
     (11559, 11559, 1, 4295), (11565, 11565, 1, 4301), (42561, 42605, 2, 42560),
     (42625, 42651, 2, 42624), (42787, 42799, 2, 42786), (42803, 42863, 2, 42802),
     (42874, 42876, 2, 42873), (42879, 42887, 2, 42878), (42892, 42892, 1, 42891),
     (42897, 42899, 2, 42896), (42900, 42900, 1, 42948), (42903, 42921, 2, 42902),
     (42933, 42947, 2, 42932), (42952, 42954, 2, 42951), (42961, 42961, 1, 42960),
     (42967, 42969, 2, 42966), (42998, 42998, 1, 42997), (43859, 43859, 1, 42931),
     (43888, 43967, 1, 5024), (65345, 65370, 1, 65313), (66600, 66639, 1, 66560),
     (66776, 66811, 1, 66736), (66967, 66977, 1, 66928), (66979, 66993, 1, 66940),
     (66995, 67001, 1, 66956), (67003, 67004, 1, 66964), (68800, 68850, 1, 68736),
     (71872, 71903, 1, 71840), (93792, 93823, 1, 93760), (125218, 125251, 1, 125184)]"

definition Title_special :: "(nat \<times> nat list) list" where
  "Title_special =
    [(223, [83, 115]), (329, [700, 78]), (496, [74, 780]), (912, [921, 776, 769]),
     (944, [933, 776, 769]), (1415, [1333, 1410]), (7830, [72, 817]), (7831, [84, 776]),
     (7832, [87, 778]), (7833, [89, 778]), (7834, [65, 702]), (8016, [933, 787]),
     (8018, [933, 787, 768]), (8020, [933, 787, 769]), (8022, [933, 787, 834]),
     (8114, [8122, 837]), (8116, [902, 837]), (8118, [913, 834]), (8119, [913, 834, 837]),
     (8130, [8138, 837]), (8132, [905, 837]), (8134, [919, 834]), (8135, [919, 834, 837]),
     (8146, [921, 776, 768]), (8147, [921, 776, 769]), (8150, [921, 834]),
     (8151, [921, 776, 834]), (8162, [933, 776, 768]), (8163, [933, 776, 769]),
     (8164, [929, 787]), (8166, [933, 834]), (8167, [933, 776, 834]), (8178, [8186, 837]),
     (8180, [911, 837]), (8182, [937, 834]), (8183, [937, 834, 837]), (64256, [70, 102]),
     (64257, [70, 105]), (64258, [70, 108]), (64259, [70, 102, 105]), (64260, [70, 102, 108]),
     (64261, [83, 116]), (64262, [83, 116]), (64275, [1348, 1398]), (64276, [1348, 1381]),
     (64277, [1348, 1387]), (64278, [1358, 1398]), (64279, [1348, 1389])]"

definition IsUppercase :: "nat \<Rightarrow> bool" where
  "IsUppercase c = (if c < 128 then 65 \<le> c \<and> c \<le> 90 else in_runs Uppercase_runs c)"

definition IsLowercase :: "nat \<Rightarrow> bool" where
  "IsLowercase c = (if c < 128 then 97 \<le> c \<and> c \<le> 122 else in_runs Lowercase_runs c)"

definition IsTitlecase :: "nat \<Rightarrow> bool" where
  "IsTitlecase c = (if c < 128 then False else in_runs Titlecase_runs c)"

text \<open>The property \<^verbatim>\<open>Cased\<close> is the union of the three.\<close>

definition IsCased :: "nat \<Rightarrow> bool" where
  "IsCased c = (IsUppercase c \<or> IsLowercase c \<or> IsTitlecase c)"

text \<open>In ASCII the apostrophe, the full stop, the colon, the circumflex and the grave accent
  are case-ignorable.\<close>

definition IsCaseIgnorable :: "nat \<Rightarrow> bool" where
  "IsCaseIgnorable c =
     (if c < 128 then c = 39 \<or> c = 46 \<or> c = 58 \<or> c = 94 \<or> c = 96
      else in_runs Case_Ignorable_runs c)"

definition IsDigit :: "nat \<Rightarrow> bool" where
  "IsDigit c = (if c < 128 then 48 \<le> c \<and> c \<le> 57 else in_runs Digit_runs c)"

definition ToLowerFull :: "nat \<Rightarrow> pystr" where
  "ToLowerFull c =
     (if c < 128 then [if 65 \<le> c \<and> c \<le> 90 then c + 32 else c]
      else if c = 304 then [105, 775]
      else (case map_runs Lower_runs c of None \<Rightarrow> [c] | Some d \<Rightarrow> [d]))"

definition ToTitleFull :: "nat \<Rightarrow> pystr" where
  "ToTitleFull c =
     (if c < 128 then [if 97 \<le> c \<and> c \<le> 122 then c - 32 else c]
      else (case map_of Title_special c of
              Some ds \<Rightarrow> ds
            | None \<Rightarrow> (case map_runs Title_runs c of None \<Rightarrow> [c] | Some d \<Rightarrow> [d])))"

text \<open>
  The capital sigma U+03A3 becomes the final sigma U+03C2 when a cased character stands
  before it and none after it, case-ignorable characters being passed over on both sides;
  otherwise it becomes U+03C3. \<open>left\<close> is the part of the string before the sigma,
  nearest character first, and \<open>right\<close> the part behind it.
\<close>

definition handle_capital_sigma :: "pystr \<Rightarrow> pystr \<Rightarrow> nat" where
  "handle_capital_sigma left right =
     (let final_sigma = (case dropWhile IsCaseIgnorable left of
                           [] \<Rightarrow> False
                         | c # cs \<Rightarrow> IsCased c)
      in if final_sigma \<and> (case dropWhile IsCaseIgnorable right of
                              [] \<Rightarrow> True
                            | c # cs \<Rightarrow> \<not> IsCased c)
         then 962 else 963)"

definition lower_ucs4 :: "pystr \<Rightarrow> nat \<Rightarrow> pystr \<Rightarrow> pystr" where
  "lower_ucs4 left c right =
     (if c = 931 then [handle_capital_sigma left right] else ToLowerFull c)"

text \<open>\<^verbatim>\<open>s.lower()\<close>.\<close>

fun do_lower :: "pystr \<Rightarrow> pystr \<Rightarrow> pystr" where
  "do_lower left [] = []"
| "do_lower left (c # cs) = lower_ucs4 left c cs @ do_lower (c # left) cs"

definition py_lower :: "pystr \<Rightarrow> pystr" where
  "py_lower s = do_lower [] s"

text \<open>
  \<^verbatim>\<open>s.isupper()\<close>: no character is lower case or title case, and one at least is upper
  case.
\<close>

definition py_isupper :: "pystr \<Rightarrow> bool" where
  "py_isupper s =
     (\<not> list_ex (\<lambda>c. IsLowercase c \<or> IsTitlecase c) s \<and> list_ex IsUppercase s)"

text \<open>
  \<^verbatim>\<open>s.title()\<close>: a character that follows a cased character is mapped to lower case, any
  other to title case.
\<close>

fun do_title :: "bool \<Rightarrow> pystr \<Rightarrow> pystr \<Rightarrow> pystr" where
  "do_title previous_is_cased left [] = []"
| "do_title previous_is_cased left (c # cs) =
     (if previous_is_cased then lower_ucs4 left c cs else ToTitleFull c)
     @ do_title (IsCased c) (c # left) cs"

definition py_title :: "pystr \<Rightarrow> pystr" where
  "py_title s = do_title False [] s"


section \<open>Date validation (news\_scraper.py)\<close>

text \<open>
  \<^verbatim>\<open>re.search(r'20[2-3][0-9]', date_str)\<close>: the leftmost position at which the four
  characters match; \<open>year_match_at\<close> is the match at the head of the string.
\<close>

fun year_match_at :: "pystr \<Rightarrow> bool" where
  "year_match_at (a # b # c # d # rest) =
     (a = 50 \<and> b = 48 \<and> (c = 50 \<or> c = 51) \<and> ascii_digit d)"
| "year_match_at _ = False"

fun re_search_year :: "pystr \<Rightarrow> pystr option" where
  "re_search_year [] = None"
| "re_search_year (c # cs) =
     (if year_match_at (c # cs) then Some (take 4 (c # cs)) else re_search_year cs)"

definition validate_date :: "pystr \<Rightarrow> pyerr + bool" where
  "validate_date date_str =
     (if date_str = [] then Inr False
      else if contains (str ''00-00'') date_str \<or> contains (str ''00/00'') date_str
        then Inr False
      else (case re_search_year date_str of
              None \<Rightarrow> Inr False
            | Some year_match \<Rightarrow>
                (case py_int year_match of
                   Inl e \<Rightarrow> Inl e
                 | Inr year \<Rightarrow> if year < 2020 \<or> year > 2030 then Inr False else Inr True)))"

text \<open>
  The specification's reading of the same check, by positions: a year token stands at
  index \<open>i\<close>; the token that counts is the leftmost one; its value is read in base ten.
\<close>

definition year_token_at :: "pystr \<Rightarrow> nat \<Rightarrow> bool" where
  "year_token_at s i =
     (i + 4 \<le> length s \<and> s ! i = 50 \<and> s ! (i + 1) = 48
      \<and> (s ! (i + 2) = 50 \<or> s ! (i + 2) = 51) \<and> ascii_digit (s ! (i + 3)))"

definition token_year :: "pystr \<Rightarrow> nat \<Rightarrow> int" where
  "token_year s i =
     1000 * (int (s ! i) - 48) + 100 * (int (s ! (i + 1)) - 48)
     + 10 * (int (s ! (i + 2)) - 48) + (int (s ! (i + 3)) - 48)"

definition date_valid_spec :: "pystr \<Rightarrow> bool" where
  "date_valid_spec s =
     (\<not> contains (str ''00-00'') s \<and> \<not> contains (str ''00/00'') s
      \<and> (\<exists>i. year_token_at s i \<and> \<not> (\<exists>j<i. year_token_at s j)
             \<and> 2020 \<le> token_year s i \<and> token_year s i \<le> 2030))"


section \<open>The validity classifier (news\_scraper.py)\<close>

definition NOISE_KEYWORDS :: "pystr list" where
  "NOISE_KEYWORDS = map str
    [''subscribe'', ''newsletter'', ''download'', ''app'', ''cookie'', ''privacy policy'',
     ''terms of service'', ''copyright'', ''all rights reserved'', ''most watched'',
     ''trending now'', ''latest news'', ''also in news'', ''more to explore'',
     ''read more'', ''click here'', ''advertise'', ''contact us'', ''about us'',
     ''follow us'', ''social media'', ''login'', ''sign up'', ''register'',
     ''wait for it'', ''congratulations'', ''you are now subscribed'',
     ''stock recommendations'', ''buy/sell signals'', ''market calendar'',
     ''find your first'', ''board meeting'', ''quarterly results'']"

definition NAVIGATION_TITLES :: "pystr list" where
  "NAVIGATION_TITLES = map str
    [''stock recommendations'', ''buy/sell signals'', ''market calendar'',
     ''bse announcement'', ''find your first'', ''latest news'', ''trending'',
     ''most watched'', ''also in news'', ''more to explore'', ''newsnews'',
     ''currency converter'', ''calendar spread'', ''digital real estate'',
     ''india inc's scorecard'', ''cryptocurrencybitcoin'', ''currenciesforex'',
     ''commoditybullion'', ''ipostartups'']"

definition GENERIC_SUMMARIES :: "pystr list" where
  "GENERIC_SUMMARIES = map str
    [''trending in markets'', ''quick links'', ''discover bonds that meet'',
     ''board meeting'', ''quarterly results'', ''download the mint app'',
     ''read premium stories'', ''got a confidential news tip'', ''subscribe'',
     ''download the app'', ''read premium'', ''sign up'', ''log in'']"

definition TRIVIAL_TITLES :: "pystr list" where
  "TRIVIAL_TITLES = map str
    [''news'', ''newsnews'', ''latest'', ''more'', ''read'', ''watch'']"

definition SECTION_HEADER_TITLES :: "pystr list" where
  "SECTION_HEADER_TITLES = map str
    [''india news'', ''economy news'', ''politics news'', ''sports news'',
     ''science news'', ''defence news'', ''international news'', ''company news'',
     ''market calendar'', ''stock recommendations'']"

definition section_indicators :: "pystr list" where
  "section_indicators = map str
    [''bitcoin, blockchain'', ''forex & futures'', ''startups, grey market'',
     ''bullion, base metals'', ''all else'', ''scorecard'']"

text \<open>
  \<^verbatim>\<open>any(c in title for c in chars)\<close>, for a list of one-character strings.
\<close>

definition any_in :: "pystr list \<Rightarrow> pystr \<Rightarrow> bool" where
  "any_in subs s = list_ex (\<lambda>sub. contains sub s) subs"

text \<open>
  Lines 86 to 88 of \<^verbatim>\<open>is_valid_article\<close>: the value of the nested condition under the
  comment ``company names without context''. The inner test reads \<^verbatim>\<open>title_lower\<close>, the
  lower-cased and stripped title; \<^verbatim>\<open>title_lower[0]\<close> raises \<^verbatim>\<open>IndexError\<close> on the
  empty string, and is reached only when \<^verbatim>\<open>title_lower.isupper()\<close> is false.
\<close>

definition company_name_check :: "pystr \<Rightarrow> pystr \<Rightarrow> pyerr + bool" where
  "company_name_check title title_lower =
     (if length (py_split title) \<le> 2 \<and> \<not> list_ex IsDigit title
      then (if py_isupper title_lower then Inr True
            else if title_lower = [] then Inl IndexError
            else Inr (py_isupper [hd title_lower]
                      \<and> \<not> any_in (map str ['':'', ''-'', ''?'', ''!'']) title))
      else Inr False)"

text \<open>
  Lines 91 to 116: the checks after the company-name test. \<^verbatim>\<open>summary\<close> and
  \<^verbatim>\<open>link\<close> are strings; \<^verbatim>\<open>None\<close> behaves as the empty string in every test the
  function makes on them.
\<close>

definition late_checks :: "pystr \<Rightarrow> pystr \<Rightarrow> pystr \<Rightarrow> pystr \<Rightarrow> pystr \<Rightarrow> bool" where
  "late_checks title title_lower summary summary_lower link =
     (if link = [] \<and> (summary = [] \<or> length summary < 20) then False
      else if summary \<noteq> [] \<and> any_in GENERIC_SUMMARIES summary_lower then False
      else if summary \<noteq> [] \<and> length summary < 30
              \<and> any_in (map str [''trending'', ''links'', ''discover'', ''find''])
                   summary_lower then False
      else if (py_isupper title \<or> length (py_split title) \<le> 2)
              \<and> \<not> any_in (map str ['':'', ''-'', ''?'', ''!'', '','']) title then False
      else if any_in section_indicators title_lower then False
      else True)"

definition is_valid_article :: "pystr \<Rightarrow> pystr \<Rightarrow> pystr \<Rightarrow> pyerr + bool" where
  "is_valid_article title summary link =
    (if title = [] \<or> length title < 15 then Inr False
     else
      let title_lower = py_strip (py_lower title);
          summary_lower = py_lower summary
      in
       if title_lower \<in> set NAVIGATION_TITLES then Inr False
       else if list_ex (\<lambda>keyword. contains keyword title_lower
                                   \<or> contains keyword summary_lower) NOISE_KEYWORDS
         then Inr False
       else if title_lower \<in> set TRIVIAL_TITLES then Inr False
       else if title_lower \<in> set SECTION_HEADER_TITLES then Inr False
       else
        (case company_name_check title title_lower of
           Inl e \<Rightarrow> Inl e
         | Inr True \<Rightarrow> Inr False
         | Inr False \<Rightarrow> Inr (late_checks title title_lower summary summary_lower link)))"

text \<open>
  The heuristic as the specification words it: at most two words, no digit, and either
  all upper case or an upper-case first character with none of \<^verbatim>\<open>: - ? !\<close>.
\<close>

definition bare_name_spec :: "pystr \<Rightarrow> bool" where
  "bare_name_spec title =
     (length (py_split title) \<le> 2 \<and> \<not> list_ex IsDigit title
      \<and> (py_isupper title
           \<or> (title \<noteq> [] \<and> IsUppercase (hd title)
               \<and> \<not> any_in (map str ['':'', ''-'', ''?'', ''!'']) title)))"


section \<open>Article records and the merge step (news\_scraper.py)\<close>

text \<open>
  The dictionary every strategy appends: seven string fields, named after its keys.
\<close>

record article =
  art_title :: pystr
  art_link :: pystr
  art_summary :: pystr
  art_date :: pystr
  art_category :: pystr
  art_source :: pystr
  art_scraped_at :: pystr

text \<open>
  Lines 610 to 615 of \<^verbatim>\<open>run_super_scraper\<close>. The state is the set
  \<^verbatim>\<open>seen_articles\<close> and the list \<^verbatim>\<open>final_news\<close>; both outlive the loop over the
  sites. \<open>merge_site\<close> is the inner loop over one site's records.
\<close>

definition title_key :: "article \<Rightarrow> pystr" where
  "title_key a = py_strip (py_lower (art_title a))"

fun merge_site :: "pystr set \<times> article list \<Rightarrow> article list \<Rightarrow> pystr set \<times> article list" where
  "merge_site (seen_articles, final_news) [] = (seen_articles, final_news)"
| "merge_site (seen_articles, final_news) (a # rest) =
     (if title_key a \<noteq> [] \<and> title_key a \<notin> seen_articles
      then merge_site (insert (title_key a) seen_articles, final_news @ [a]) rest
      else merge_site (seen_articles, final_news) rest)"

text \<open>
  The records of one site: what the strategies returned, in the order in which
  \<^verbatim>\<open>run_super_scraper\<close> calls them. A strategy that found nothing contributes the empty
  list, as does the browser strategy when Selenium is missing.
\<close>

definition site_articles :: "article list \<Rightarrow> article list \<Rightarrow> article list \<Rightarrow> article list
    \<Rightarrow> article list" where
  "site_articles static headlines crawled js = static @ headlines @ crawled @ js"

definition run_merge :: "article list list \<Rightarrow> article list" where
  "run_merge sites = snd (foldl merge_site ({}, []) sites)"


section \<open>More string operations\<close>

text \<open>\<^verbatim>\<open>sep.join(words)\<close>.\<close>

fun py_join :: "pystr \<Rightarrow> pystr list \<Rightarrow> pystr" where
  "py_join sep [] = []"
| "py_join sep [w] = w"
| "py_join sep (w # v # ws) = w @ sep @ py_join sep (v # ws)"

text \<open>
  \<^verbatim>\<open>s.replace(old, new)\<close>: the occurrences of \<open>old\<close> are found from the left and do not
  overlap. For an empty \<open>old\<close> Python puts \<open>new\<close> before every character and at the end.
\<close>

function py_replace :: "pystr \<Rightarrow> pystr \<Rightarrow> pystr \<Rightarrow> pystr" where
  "py_replace old new [] = (if old = [] then new else [])"
| "py_replace old new (c # cs) =
     (if old = [] then new @ c # py_replace old new cs
      else if prefix old (c # cs) then new @ py_replace old new (drop (length old) (c # cs))
      else c # py_replace old new cs)"
  by pat_completeness auto
termination
  by (relation "measure (\<lambda>(old, new, s). length s)") auto

text \<open>
  \<^verbatim>\<open>re.sub(r'\s+', ' ', s)\<close>: every maximal run of white space becomes one space. A
  white-space character followed by another one is dropped; the last one of a run is written
  as a space.
\<close>

fun collapse_ws :: "pystr \<Rightarrow> pystr" where
  "collapse_ws [] = []"
| "collapse_ws [c] = (if py_isspace c then [32] else [c])"
| "collapse_ws (c # d # cs) =
     (if py_isspace c
      then (if py_isspace d then collapse_ws (d # cs) else 32 # collapse_ws (d # cs))
      else c # collapse_ws (d # cs))"

text \<open>\<^verbatim>\<open>s.strip(chars)\<close> for a one-character \<open>chars\<close>, and \<^verbatim>\<open>s.split(sep)\<close> for a
  one-character separator (which always returns at least one piece).\<close>

definition strip_char :: "nat \<Rightarrow> pystr \<Rightarrow> pystr" where
  "strip_char ch s = rev (dropWhile (\<lambda>c. c = ch) (rev (dropWhile (\<lambda>c. c = ch) s)))"

fun split_on :: "nat \<Rightarrow> pystr \<Rightarrow> pystr list" where
  "split_on sep [] = [[]]"
| "split_on sep (c # cs) =
     (if c = sep then [] # split_on sep cs
      else (case split_on sep cs of [] \<Rightarrow> [[c]] | w # ws \<Rightarrow> (c # w) # ws))"


section \<open>Text clean-up\<close>

text \<open>
  \<^verbatim>\<open>clean_text\<close> of news\_scraper.py. The first replacement turns the three code points
  U+00E2 U+201A U+00B9 into U+20B9 (the rupee sign), the second U+00A0 into a space, the
  third U+2019 into an apostrophe.
\<close>

definition clean_text :: "pystr \<Rightarrow> pystr" where
  "clean_text text =
     (if text = [] then []
      else py_strip
             (py_replace [8217] [39]
               (py_replace [160] [32]
                 (py_replace [226, 8218, 185] [8377]
                   (py_join [32] (py_split text))))))"

text \<open>\<^verbatim>\<open>clean_text\<close> of detail.py.\<close>

definition clean_text_detail :: "pystr \<Rightarrow> pystr" where
  "clean_text_detail text = (if text = [] then [] else collapse_ws (py_strip text))"


text \<open>
  For the statement that cleaning is idempotent: a text whose white space is made of single
  spaces (\<open>tidy\<close>), a text that neither starts nor ends with white space
  (\<open>trimmed\<close>), and the form of a text that \<^verbatim>\<open>clean_text\<close> of news\_scraper.py
  has produced (\<open>cleaned\<close>).
\<close>

fun tidy :: "pystr \<Rightarrow> bool" where
  "tidy [] = True"
| "tidy [c] = (\<not> py_isspace c \<or> c = 32)"
| "tidy (c # d # cs) = ((\<not> py_isspace c \<or> (c = 32 \<and> \<not> py_isspace d)) \<and> tidy (d # cs))"

definition trimmed :: "pystr \<Rightarrow> bool" where
  "trimmed t = (t = [] \<or> (\<not> py_isspace (hd t) \<and> \<not> py_isspace (last t)))"

definition cleaned :: "pystr \<Rightarrow> bool" where
  "cleaned t = (tidy t \<and> trimmed t \<and> \<not> contains [226, 8218, 185] t \<and> 8217 \<notin> set t)"


section \<open>The parsed document\<close>

text \<open>
  The tree BeautifulSoup hands over: a tag with its name, its attributes and its children,
  or a string. The document itself is a tag. \<open>descendants\<close> lists what lies below a
  node in document order; \<^verbatim>\<open>find_all\<close> and \<^verbatim>\<open>find\<close> search it, \<^verbatim>\<open>get_text\<close>
  joins its strings. A tag object is always truthy, so \<^verbatim>\<open>if tag\<close> asks whether
  \<^verbatim>\<open>find\<close> found one.
\<close>

datatype node = Tag pystr "(pystr \<times> pystr) list" "node list" | NavigableString pystr

fun descendants :: "node \<Rightarrow> node list" where
  "descendants (NavigableString s) = []"
| "descendants (Tag nm attrs cs) = concat (map (\<lambda>c. c # descendants c) cs)"

fun get_text :: "node \<Rightarrow> pystr" where
  "get_text (NavigableString s) = s"
| "get_text (Tag nm attrs cs) = concat (map get_text cs)"

fun tag_name :: "node \<Rightarrow> pystr" where
  "tag_name (Tag nm attrs cs) = nm"
| "tag_name (NavigableString s) = []"

fun is_tag :: "node \<Rightarrow> bool" where
  "is_tag (Tag nm attrs cs) = True"
| "is_tag (NavigableString s) = False"

fun get_attr :: "node \<Rightarrow> pystr \<Rightarrow> pystr option" where
  "get_attr (Tag nm attrs cs) key = map_of attrs key"
| "get_attr (NavigableString s) key = None"

definition find_all :: "pystr list \<Rightarrow> node \<Rightarrow> node list" where
  "find_all names n = filter (\<lambda>d. is_tag d \<and> tag_name d \<in> set names) (descendants n)"

definition find :: "pystr list \<Rightarrow> node \<Rightarrow> node option" where
  "find names n = (case find_all names n of [] \<Rightarrow> None | d # ds \<Rightarrow> Some d)"

text \<open>\<^verbatim>\<open>find_all(name, key=True)\<close>: the tags of that name that carry the attribute.\<close>

definition find_all_with :: "pystr \<Rightarrow> pystr \<Rightarrow> node \<Rightarrow> node list" where
  "find_all_with nm key n = filter (\<lambda>d. get_attr d key \<noteq> None) (find_all [nm] n)"

text \<open>\<^verbatim>\<open>find(name, attrs={key: value})\<close>: the first tag of that name whose attribute has
  exactly that value.\<close>

definition find_attr :: "pystr \<Rightarrow> pystr \<Rightarrow> pystr \<Rightarrow> node \<Rightarrow> node option" where
  "find_attr nm key v n =
     (case filter (\<lambda>d. get_attr d key = Some v) (find_all [nm] n) of
        [] \<Rightarrow> None | d # ds \<Rightarrow> Some d)"

text \<open>\<^verbatim>\<open>tag.get(key, "")\<close>.\<close>

definition get_or_empty :: "node \<Rightarrow> pystr \<Rightarrow> pystr" where
  "get_or_empty d key = (case get_attr d key of None \<Rightarrow> [] | Some v \<Rightarrow> v)"


section \<open>Content sections (detail.py)\<close>

record content_section =
  heading :: pystr
  level :: int
  content :: "pystr list"

definition heading_names :: "pystr list" where
  "heading_names = map str [''h1'', ''h2'', ''h3'', ''h4'', ''h5'', ''h6'']"

definition boilerplate :: "pystr list" where
  "boilerplate = map str
     [''cookie'', ''privacy'', ''terms'', ''copyright'', ''menu'', ''navigation'']"

text \<open>
  The test a paragraph or container must pass to enter the buffer, on its cleaned text.
\<close>

definition qualifies :: "pystr \<Rightarrow> bool" where
  "qualifies text = (text \<noteq> [] \<and> length text > 20 \<and> \<not> any_in boilerplate (py_lower text))"

text \<open>
  ``Save previous section if exists'': the list \<^verbatim>\<open>sections\<close> after the pending section
  has been appended, which happens only when its content is not empty.
\<close>

definition commit :: "content_section list \<times> content_section option \<Rightarrow> content_section list" where
  "commit st =
     (case st of (sections, current_section) \<Rightarrow>
        (case current_section of
           None \<Rightarrow> sections
         | Some cur \<Rightarrow> if content cur \<noteq> [] then sections @ [cur] else sections))"

text \<open>
  One turn of the loop of \<^verbatim>\<open>extract_content_sections\<close>. The state is the list
  \<^verbatim>\<open>sections\<close> and \<^verbatim>\<open>current_section\<close>, which is \<^verbatim>\<open>None\<close> before the first
  heading. \<^verbatim>\<open>int(element.name[1])\<close> reads the digit of the heading's name.
\<close>

definition section_step :: "content_section list \<times> content_section option \<Rightarrow> node
    \<Rightarrow> content_section list \<times> content_section option" where
  "section_step st element =
     (if tag_name element \<in> set heading_names
      then (commit st,
            Some \<lparr>heading = clean_text_detail (get_text element),
                  level = int (tag_name element ! 1) - 48,
                  content = []\<rparr>)
      else (case st of (sections, current_section) \<Rightarrow>
             (case current_section of
                None \<Rightarrow> (sections, None)
              | Some cur \<Rightarrow>
                  if tag_name element \<in> set (map str [''p'', ''div''])
                  then (let text = clean_text_detail (get_text element)
                        in if qualifies text
                           then (sections, Some (cur\<lparr>content := content cur @ [text]\<rparr>))
                           else (sections, Some cur))
                  else (sections, Some cur))))"

text \<open>The loop over the elements, and the commit of the last section after it.\<close>

definition build_sections :: "node list \<Rightarrow> content_section list" where
  "build_sections elements = commit (foldl section_step ([], None) elements)"

definition extract_content_sections :: "node \<Rightarrow> content_section list" where
  "extract_content_sections soup =
     build_sections (find_all (heading_names @ map str [''p'', ''div'']) soup)"

text \<open>
  A heading element, and a block that leaves the state as it is: not a heading, and its
  cleaned text does not qualify.
\<close>

definition is_heading :: "node \<Rightarrow> bool" where
  "is_heading e = (tag_name e \<in> set heading_names)"

definition idle_block :: "node \<Rightarrow> bool" where
  "idle_block e = (\<not> is_heading e \<and> \<not> qualifies (clean_text_detail (get_text e)))"


section \<open>Tables (detail.py)\<close>

text \<open>
  A row is a dictionary from header to cell or a list of cells. The dictionary is kept as
  a list of pairs in insertion order; writing an existing key replaces its value in place,
  as \<^verbatim>\<open>dict(zip(headers, row_data))\<close> does.
\<close>

datatype row = RowDict "(pystr \<times> pystr) list" | RowList "pystr list"

record table_data =
  headers :: "pystr list"
  rows :: "row list"
  caption :: pystr

definition py_dict :: "(pystr \<times> pystr) list \<Rightarrow> (pystr \<times> pystr) list" where
  "py_dict pairs = foldl (\<lambda>d (k, v). AList.update k v d) [] pairs"

definition cell_texts :: "node list \<Rightarrow> pystr list" where
  "cell_texts cells = map (\<lambda>cell. clean_text_detail (get_text cell)) cells"

text \<open>The header list: from the first row of a \<^verbatim>\<open>thead\<close>, else from the first row of
  the table when one of its cells is a \<^verbatim>\<open>th\<close> or it has more than two cells.\<close>

definition table_headers :: "node \<Rightarrow> pystr list" where
  "table_headers table =
     (case find [str ''thead''] table of
        Some thead \<Rightarrow>
          (case find [str ''tr''] thead of
             Some header_row \<Rightarrow> cell_texts (find_all [str ''th'', str ''td''] header_row)
           | None \<Rightarrow> [])
      | None \<Rightarrow>
          (case find [str ''tr''] table of
             Some first_row \<Rightarrow>
               (let cells = find_all [str ''th'', str ''td''] first_row
                in if list_ex (\<lambda>cell. tag_name cell = str ''th'') cells \<or> length cells > 2
                   then cell_texts cells else [])
           | None \<Rightarrow> []))"

text \<open>The rows that the loop over \<^verbatim>\<open>rows_source[start_idx:]\<close> visits.\<close>

definition body_rows :: "node \<Rightarrow> pystr list \<Rightarrow> node list" where
  "body_rows table hs =
     (let rows_source = (case find [str ''tbody''] table of
                           Some tbody \<Rightarrow> find_all [str ''tr''] tbody
                         | None \<Rightarrow> find_all [str ''tr''] table);
          start_idx = (if find [str ''thead''] table = None \<and> hs \<noteq> [] then 1 else 0)
      in drop start_idx rows_source)"

text \<open>One turn of the loop: a row without cells is skipped.\<close>

definition row_step :: "pystr list \<Rightarrow> row list \<Rightarrow> node \<Rightarrow> row list" where
  "row_step hs acc r =
     (let cells = find_all [str ''td'', str ''th''] r
      in if cells = [] then acc
         else (let row_data = cell_texts cells
               in if hs \<noteq> [] \<and> length row_data = length hs
                  then acc @ [RowDict (py_dict (zip hs row_data))]
                  else acc @ [RowList row_data]))"

definition extract_table :: "node \<Rightarrow> table_data" where
  "extract_table table =
     (let hs = table_headers table
      in \<lparr>headers = hs,
          rows = foldl (row_step hs) [] (body_rows table hs),
          caption = (case find [str ''caption''] table of
                       Some caption_tag \<Rightarrow> clean_text_detail (get_text caption_tag)
                     | None \<Rightarrow> [])\<rparr>)"

definition extract_structured_tables :: "node \<Rightarrow> table_data list" where
  "extract_structured_tables soup =
     filter (\<lambda>t. rows t \<noteq> [] \<or> headers t \<noteq> [])
       (map extract_table (find_all [str ''table''] soup))"


text \<open>
  For the statement of the row rule: the cell texts of a row, the row they become under
  the headers \<open>hs\<close>, and the elements of a list in the order of their first occurrence
  (the order of the keys of a Python dictionary filled from that list).
\<close>

definition row_cells :: "node \<Rightarrow> pystr list" where
  "row_cells r = cell_texts (find_all [str ''td'', str ''th''] r)"

definition materialize :: "pystr list \<Rightarrow> pystr list \<Rightarrow> row" where
  "materialize hs row_data =
     (if length row_data = length hs then RowDict (py_dict (zip hs row_data))
      else RowList row_data)"

fun first_occurrences :: "'a list \<Rightarrow> 'a list" where
  "first_occurrences [] = []"
| "first_occurrences (x # xs) = x # first_occurrences (filter (\<lambda>y. y \<noteq> x) xs)"


section \<open>Links (detail.py)\<close>

record link_record =
  link_text :: pystr
  link_url :: pystr
  link_type :: pystr

definition skip_patterns :: "pystr list" where
  "skip_patterns = map str
     [''#'', ''javascript:'', ''mailto:'', ''tel:'',
      ''/login'', ''/register'', ''/signup'', ''/logout'',
      ''facebook.com'', ''twitter.com'', ''linkedin.com'',
      ''instagram.com'', ''youtube.com'']"

text \<open>The texts that count as bare symbols: \<^verbatim>\<open>#\<close>, three dots, the two guillemets
  (U+00BB, U+00AB) and the two arrows (U+2190, U+2192).\<close>

definition symbol_texts :: "pystr list" where
  "symbol_texts = [str ''#'', str ''...'', [187], [171], [8592], [8594]]"

text \<open>
  One turn of the loop of \<^verbatim>\<open>extract_meaningful_links\<close> over the anchors that carry an
  \<^verbatim>\<open>href\<close>. \<^verbatim>\<open>urljoin\<close> and the \<^verbatim>\<open>netloc\<close> of \<^verbatim>\<open>urlparse\<close> belong to Python's
  library and are parameters. The state is \<^verbatim>\<open>seen_urls\<close> and \<^verbatim>\<open>meaningful_links\<close>.
\<close>

definition link_step :: "(pystr \<Rightarrow> pystr \<Rightarrow> pystr) \<Rightarrow> (pystr \<Rightarrow> pystr) \<Rightarrow> pystr
    \<Rightarrow> pystr set \<times> link_record list \<Rightarrow> node \<Rightarrow> pystr set \<times> link_record list" where
  "link_step urljoin netloc base_url st a =
     (case st of (seen_urls, meaningful_links) \<Rightarrow>
       let href = get_or_empty a (str ''href'');
           text = clean_text_detail (get_text a)
       in if href = [] \<or> any_in skip_patterns (py_lower href) then st
          else if length text < 2 \<or> text \<in> set symbol_texts then st
          else (let full_url = urljoin base_url href
                in if full_url \<in> seen_urls then st
                   else (insert full_url seen_urls,
                         meaningful_links @
                           [\<lparr>link_text = text, link_url = full_url,
                             link_type = (if netloc full_url \<noteq> netloc base_url
                                          then str ''external'' else str ''internal'')\<rparr>])))"

definition links_loop :: "(pystr \<Rightarrow> pystr \<Rightarrow> pystr) \<Rightarrow> (pystr \<Rightarrow> pystr) \<Rightarrow> pystr
    \<Rightarrow> node list \<Rightarrow> link_record list" where
  "links_loop urljoin netloc base_url anchors =
     snd (foldl (link_step urljoin netloc base_url) ({}, []) anchors)"

definition extract_meaningful_links :: "(pystr \<Rightarrow> pystr \<Rightarrow> pystr) \<Rightarrow> (pystr \<Rightarrow> pystr) \<Rightarrow> node
    \<Rightarrow> pystr \<Rightarrow> link_record list" where
  "extract_meaningful_links urljoin netloc soup base_url =
     links_loop urljoin netloc base_url (find_all_with (str ''a'') (str ''href'') soup)"

text \<open>
  What the skip test looks for: the text \<^verbatim>\<open>javascript:\<close> at any place of the
  lower-cased destination.
\<close>

definition javascript_text :: "pystr \<Rightarrow> bool" where
  "javascript_text href = contains (str ''javascript:'') (py_lower href)"

text \<open>
  For the statement of the link properties: a record typed by the comparison of the two
  \<^verbatim>\<open>netloc\<close> values, and a record that comes from one of the anchors, whose
  destination does not hold the text \<^verbatim>\<open>javascript:\<close>.
\<close>

definition typed_by_netloc :: "(pystr \<Rightarrow> pystr) \<Rightarrow> pystr \<Rightarrow> link_record \<Rightarrow> bool" where
  "typed_by_netloc netloc base_url r =
     ((link_type r = str ''internal'') = (netloc (link_url r) = netloc base_url)
      \<and> (link_type r = str ''external'') = (netloc (link_url r) \<noteq> netloc base_url))"

definition from_anchor :: "(pystr \<Rightarrow> pystr \<Rightarrow> pystr) \<Rightarrow> pystr \<Rightarrow> node list \<Rightarrow> link_record \<Rightarrow> bool" where
  "from_anchor urljoin base_url anchors r =
     list_ex (\<lambda>a. \<not> javascript_text (get_or_empty a (str ''href''))
                 \<and> link_url r = urljoin base_url (get_or_empty a (str ''href''))
                 \<and> link_text r = clean_text_detail (get_text a)) anchors"

text \<open>
  The host of a \<^verbatim>\<open>netloc\<close>, as the \<^verbatim>\<open>hostname\<close> of \<^verbatim>\<open>urlparse\<close>'s result reads it:
  what follows the last \<^verbatim>\<open>@\<close>; of this the text between the brackets if there is an
  opening bracket, and the text up to the first colon otherwise; lower-cased up to a
  per cent sign. Python answers \<^verbatim>\<open>None\<close> where this is the empty string.
\<close>

definition host_of :: "pystr \<Rightarrow> pystr" where
  "host_of netloc =
     (let hostinfo = rev (takeWhile (\<lambda>c. c \<noteq> 64) (rev netloc));
          hostname = (if 91 \<in> set hostinfo
                      then takeWhile (\<lambda>c. c \<noteq> 93) (tl (dropWhile (\<lambda>c. c \<noteq> 91) hostinfo))
                      else takeWhile (\<lambda>c. c \<noteq> 58) hostinfo)
      in py_lower (takeWhile (\<lambda>c. c \<noteq> 37) hostname) @ dropWhile (\<lambda>c. c \<noteq> 37) hostname)"

text \<open>
  What \<^verbatim>\<open>urljoin\<close> and the \<^verbatim>\<open>netloc\<close> of \<^verbatim>\<open>urlparse\<close> answer on the URLs of the
  examples below: a destination that starts with \<^verbatim>\<open>https://\<close> is absolute and is kept, a
  path is appended to a base that has none; the \<^verbatim>\<open>netloc\<close> of an \<^verbatim>\<open>https\<close> URL
  without query and fragment is what stands between the two slashes and the next one.
\<close>

definition example_urljoin :: "pystr \<Rightarrow> pystr \<Rightarrow> pystr" where
  "example_urljoin base href = (if prefix (str ''https://'') href then href else base @ href)"

definition example_netloc :: "pystr \<Rightarrow> pystr" where
  "example_netloc url = takeWhile (\<lambda>c. c \<noteq> 47) (drop 8 url)"

definition example_anchors :: node where
  "example_anchors =
     Tag (str ''body'') []
       [Tag (str ''a'') [(str ''href'', str ''/ipo/list'')] [NavigableString (str ''IPO list'')],
        Tag (str ''a'') [(str ''href'', str ''JavaScript:void(0)'')]
          [NavigableString (str ''Open menu'')],
        Tag (str ''a'') [(str ''href'', str ''https://other.org/news'')]
          [NavigableString (str ''Partner'')],
        Tag (str ''a'') [(str ''href'', str ''https://example.com:443/results'')]
          [NavigableString (str ''Results'')]]"


section \<open>The category (news\_scraper.py)\<close>

text \<open>
  \<^verbatim>\<open>extract_category\<close>. The path of \<^verbatim>\<open>urlparse(url)\<close> belongs to Python's library and
  is the parameter \<open>url_path\<close>. The argument \<^verbatim>\<open>article_elem\<close> is never read.
  \<open>meta_category\<close> is the value of \<^verbatim>\<open>category\<close> after the look at the meta tags.
\<close>

definition meta_category :: "node \<Rightarrow> pystr" where
  "meta_category soup =
     (let meta_cat =
            (case find_attr (str ''meta'') (str ''property'') (str ''article:section'') soup of
               Some m \<Rightarrow> Some m
             | None \<Rightarrow> find_attr (str ''meta'') (str ''name'') (str ''category'') soup)
      in case meta_cat of
           Some m \<Rightarrow> get_or_empty m (str ''content'')
         | None \<Rightarrow> [])"

definition extract_category :: "(pystr \<Rightarrow> pystr) \<Rightarrow> node \<Rightarrow> pystr \<Rightarrow> pystr" where
  "extract_category url_path soup url =
     (let category = meta_category soup
      in if category = [] \<and> url \<noteq> []
         then (let path_parts = split_on 47 (strip_char 47 (url_path url))
               in if length path_parts > 1
                  then py_title (py_replace (str ''-'') (str '' '') (hd path_parts))
                  else category)
         else category)"

text \<open>
  The specification's wording for a page without category metadata: the first non-empty
  segment of the path, hyphens replaced, title-cased; empty when there is no such segment.
\<close>

definition category_spec :: "pystr \<Rightarrow> pystr" where
  "category_spec path =
     (case filter (\<lambda>seg. seg \<noteq> []) (split_on 47 path) of
        [] \<Rightarrow> []
      | seg # segs \<Rightarrow> py_title (py_replace (str ''-'') (str '' '') seg))"


section \<open>The extraction strategies (news\_scraper.py)\<close>

text \<open>
  What the strategies take from outside this repository or from code that no property below
  depends on: \<^verbatim>\<open>urljoin\<close>, the path of \<^verbatim>\<open>urlparse\<close>, the CSS selection of
  \<^verbatim>\<open>select\<close>, the clock, and \<^verbatim>\<open>extract_date\<close>, which may raise. The clock is asked
  once for every record; \<open>env_now e n\<close> is its answer when \<open>n\<close> records have been
  appended before.
\<close>

record env =
  env_urljoin :: "pystr \<Rightarrow> pystr \<Rightarrow> pystr"
  env_url_path :: "pystr \<Rightarrow> pystr"
  env_select :: "pystr \<Rightarrow> node \<Rightarrow> node list"
  env_extract_date :: "node \<Rightarrow> node \<Rightarrow> pyerr + pystr"
  env_now :: "nat \<Rightarrow> pystr"

text \<open>
  A loop whose body may raise: the first exception ends it. Every strategy runs inside
  \<^verbatim>\<open>try\<close> and answers an exception with the empty list.
\<close>

fun try_fold :: "('s \<Rightarrow> 'a \<Rightarrow> pyerr + 's) \<Rightarrow> 's \<Rightarrow> 'a list \<Rightarrow> pyerr + 's" where
  "try_fold f st [] = Inr st"
| "try_fold f st (x # xs) = (case f st x of Inl err \<Rightarrow> Inl err | Inr st' \<Rightarrow> try_fold f st' xs)"

text \<open>The treatment of a link that does not start with \<^verbatim>\<open>http\<close>.\<close>

definition resolve_link :: "env \<Rightarrow> pystr \<Rightarrow> pystr \<Rightarrow> pystr" where
  "resolve_link e url link =
     (if \<not> prefix (str ''http'') link
      then (if prefix (str ''//'') link then str ''https:'' @ link
            else if prefix (str ''/'') link then env_urljoin e url link
            else link)
      else link)"

text \<open>The dictionary that is appended; the summary is cut to 400 characters here.\<close>

definition make_record :: "pystr \<Rightarrow> pystr \<Rightarrow> pystr \<Rightarrow> pystr \<Rightarrow> pystr \<Rightarrow> pystr \<Rightarrow> pystr
    \<Rightarrow> article" where
  "make_record title link summary date_str category url stamp =
     \<lparr>art_title = title, art_link = link,
      art_summary = (if summary \<noteq> [] then take 400 summary else []),
      art_date = date_str, art_category = category, art_source = url,
      art_scraped_at = stamp\<rparr>"

text \<open>
  The end of every loop body: date, category, the validity test on the summary as selected,
  and the append. The set \<^verbatim>\<open>seen_titles\<close> already holds the title.
\<close>

definition finish :: "env \<Rightarrow> pystr \<Rightarrow> node \<Rightarrow> node \<Rightarrow> pystr set \<Rightarrow> article list
    \<Rightarrow> pystr \<Rightarrow> pystr \<Rightarrow> pystr \<Rightarrow> pyerr + pystr set \<times> article list" where
  "finish e url soup elem seen_titles articles title link summary =
     (case env_extract_date e soup elem of
        Inl err \<Rightarrow> Inl err
      | Inr date_str \<Rightarrow>
          (let category = extract_category (env_url_path e) soup
                            (if link \<noteq> [] then link else url)
           in case is_valid_article title summary link of
                Inl err \<Rightarrow> Inl err
              | Inr valid \<Rightarrow>
                  Inr (seen_titles,
                       if valid
                       then articles @ [make_record title link summary date_str category url
                                          (env_now e (length articles))]
                       else articles)))"

subsection \<open>The summary selector of \<^verbatim>\<open>scrape_static_article\<close>\<close>

definition summary_selectors :: "pystr list" where
  "summary_selectors = map str
     [''.summary'', ''.excerpt'', ''.description'', ''.lead'', ''.intro'',
      ''[class*='summary']'', ''[class*='excerpt']'', ''[class*='description']'',
      ''[class*='lead']'', ''[class*='intro']'']"

definition good_summary :: "pystr \<Rightarrow> bool" where
  "good_summary text =
     (text \<noteq> [] \<and> length text > 40 \<and> length text < 500
      \<and> \<not> any_in GENERIC_SUMMARIES (py_lower text))"

definition selector_candidates :: "env \<Rightarrow> node \<Rightarrow> pystr list" where
  "selector_candidates e article =
     concat (map (\<lambda>selector.
                    filter good_summary
                      (map (\<lambda>elem. clean_text (get_text elem))
                         (take 2 (env_select e selector article))))
               summary_selectors)"

definition paragraph_candidates :: "node \<Rightarrow> pystr list" where
  "paragraph_candidates article =
     (case filter good_summary
             (map (\<lambda>p. clean_text (get_text p)) (take 3 (find_all [str ''p''] article))) of
        [] \<Rightarrow> []
      | text # texts \<Rightarrow> [text])"

text \<open>\<^verbatim>\<open>max(candidates, key=len)\<close>: the first candidate of the greatest length.\<close>

fun max_by_len :: "pystr \<Rightarrow> pystr list \<Rightarrow> pystr" where
  "max_by_len best [] = best"
| "max_by_len best (c # cs) = max_by_len (if length c > length best then c else best) cs"

definition select_summary :: "env \<Rightarrow> node \<Rightarrow> pystr" where
  "select_summary e article =
     (let summary_candidates =
            (if selector_candidates e article = [] then paragraph_candidates article
             else selector_candidates e article)
      in case summary_candidates of
           [] \<Rightarrow> []
         | c # cs \<Rightarrow> max_by_len c cs)"

subsection \<open>\<^verbatim>\<open>scrape_static_article\<close>\<close>

definition static_link :: "env \<Rightarrow> pystr \<Rightarrow> node \<Rightarrow> node \<Rightarrow> pystr" where
  "static_link e url article title_tag =
     (let link_elem = (case find [str ''a''] title_tag of
                         Some a \<Rightarrow> Some a
                       | None \<Rightarrow> (case find_all_with (str ''a'') (str ''href'') article of
                                    [] \<Rightarrow> None | a # as \<Rightarrow> Some a))
      in case link_elem of
           None \<Rightarrow> []
         | Some a \<Rightarrow> if get_or_empty a (str ''href'') \<noteq> []
                     then resolve_link e url (get_or_empty a (str ''href''))
                     else [])"

definition static_step :: "env \<Rightarrow> pystr \<Rightarrow> node \<Rightarrow> pystr set \<times> article list \<Rightarrow> node
    \<Rightarrow> pyerr + pystr set \<times> article list" where
  "static_step e url soup st article =
     (case st of (seen_titles, articles) \<Rightarrow>
       (case find (map str [''h1'', ''h2'', ''h3'']) article of
          None \<Rightarrow> Inr st
        | Some title_tag \<Rightarrow>
            (let title = clean_text (get_text title_tag)
             in if title = [] \<or> py_lower title \<in> seen_titles then Inr st
                else finish e url soup article (insert (py_lower title) seen_titles) articles
                       title (static_link e url article title_tag)
                       (select_summary e article))))"

text \<open>
  The answer of \<^verbatim>\<open>requests.get\<close> is an exception, or a status code with the parsed
  page.
\<close>

definition scrape_static_article :: "env \<Rightarrow> pystr \<Rightarrow> pyerr + int \<times> node \<Rightarrow> article list" where
  "scrape_static_article e url response =
     (case response of
        Inl err \<Rightarrow> []
      | Inr (status_code, soup) \<Rightarrow>
          if status_code \<noteq> 200 then []
          else (case try_fold (static_step e url soup) ({}, [])
                       (find_all [str ''article''] soup) of
                  Inl err \<Rightarrow> []
                | Inr (seen_titles, articles) \<Rightarrow> articles))"

subsection \<open>\<^verbatim>\<open>scrape_headlines\<close>\<close>

text \<open>
  A heading is handled with its place in the document: \<^verbatim>\<open>find_next\<close> looks at what
  follows it in document order, and \<^verbatim>\<open>parent\<close> is the tag that holds it. \<open>family\<close>
  lists every node below the root with its parent, in document order; a heading is a triple
  of its index in that list, the tag and its parent.
\<close>

fun family :: "node \<Rightarrow> (node \<times> node) list" where
  "family (NavigableString s) = []"
| "family (Tag nm attrs cs) = concat (map (\<lambda>c. (c, Tag nm attrs cs) # family c) cs)"

definition HEADLINE_TAGS :: "pystr list" where
  "HEADLINE_TAGS = map str [''h1'', ''h2'', ''h3'', ''h4'']"

definition tags_named :: "pystr \<Rightarrow> node \<Rightarrow> (nat \<times> node \<times> node) list" where
  "tags_named nm soup =
     filter (\<lambda>(i, h, parent). is_tag h \<and> tag_name h = nm) (enumerate 0 (family soup))"

text \<open>The order in which the two nested loops visit the headings: all \<^verbatim>\<open>h1\<close>, then all
  \<^verbatim>\<open>h2\<close>, and so on.\<close>

definition headline_elements :: "node \<Rightarrow> (nat \<times> node \<times> node) list" where
  "headline_elements soup = concat (map (\<lambda>tag. tags_named tag soup) HEADLINE_TAGS)"

definition find_next :: "pystr \<Rightarrow> node \<Rightarrow> nat \<Rightarrow> node option" where
  "find_next nm soup i =
     (case filter (\<lambda>d. is_tag d \<and> tag_name d = nm) (drop (Suc i) (map fst (family soup))) of
        [] \<Rightarrow> None
      | d # ds \<Rightarrow> Some d)"

definition headline_link :: "env \<Rightarrow> pystr \<Rightarrow> node \<Rightarrow> pystr" where
  "headline_link e url h =
     (case find_all_with (str ''a'') (str ''href'') h of
        [] \<Rightarrow> []
      | link_elem # as \<Rightarrow> resolve_link e url (get_or_empty link_elem (str ''href'')))"

definition headline_summary :: "node \<Rightarrow> nat \<Rightarrow> pystr" where
  "headline_summary soup i =
     (case find_next (str ''p'') soup i of
        None \<Rightarrow> []
      | Some p \<Rightarrow> clean_text (get_text p))"

definition headline_step :: "env \<Rightarrow> pystr \<Rightarrow> node \<Rightarrow> pystr set \<times> article list
    \<Rightarrow> nat \<times> node \<times> node \<Rightarrow> pyerr + pystr set \<times> article list" where
  "headline_step e url soup st elem =
     (case st of (seen_titles, articles) \<Rightarrow>
       (case elem of (i, h, parent) \<Rightarrow>
         (let title = clean_text (get_text h)
          in if title = [] \<or> length title < 15 \<or> py_lower title \<in> seen_titles then Inr st
             else finish e url soup parent (insert (py_lower title) seen_titles) articles
                    title (headline_link e url h) (headline_summary soup i))))"

definition scrape_headlines :: "env \<Rightarrow> pystr \<Rightarrow> pyerr + int \<times> node \<Rightarrow> article list" where
  "scrape_headlines e url response =
     (case response of
        Inl err \<Rightarrow> []
      | Inr (status_code, soup) \<Rightarrow>
          if status_code \<noteq> 200 then []
          else (case try_fold (headline_step e url soup) ({}, []) (headline_elements soup) of
                  Inl err \<Rightarrow> []
                | Inr (seen_titles, articles) \<Rightarrow> articles))"


subsection \<open>\<^verbatim>\<open>scrape_js\<close>\<close>




subsection \<open>\<^verbatim>\<open>crawl_pages\<close>\<close>











section \<open>What a strategy keeps\<close>

text \<open>
  The loops of the strategies have one shape: an element is skipped when it has no usable
  title or when its lower-cased title is in \<^verbatim>\<open>seen_titles\<close>; otherwise the title is added
  to the set and a record is appended if the validity test passes. \<open>key x\<close> is the
  lower-cased title under which the element \<open>x\<close> is entered, and \<open>built x r\<close> says
  that \<open>r\<close> is the record made from \<open>x\<close>.

  \<open>first_kept key built xs r\<close>: the record \<open>r\<close> is built from an element of \<open>xs\<close>
  whose key is the lower-cased title of \<open>r\<close>, and no element before it has this key.
\<close>

definition first_kept :: "('x \<Rightarrow> pystr option) \<Rightarrow> ('x \<Rightarrow> article \<Rightarrow> bool) \<Rightarrow> 'x list
    \<Rightarrow> article \<Rightarrow> bool" where
  "first_kept key built xs r =
     (\<exists>i<length xs. built (xs ! i) r \<and> key (xs ! i) = Some (py_lower (art_title r))
        \<and> \<not> (\<exists>j<i. key (xs ! j) = Some (py_lower (art_title r))))"

text \<open>
  \<open>keeps_first key built step\<close> describes one round of such a loop, and \<open>fold_inv\<close> is
  the invariant of the loop after the elements \<open>xs\<close>.
\<close>

definition keeps_first :: "('x \<Rightarrow> pystr option) \<Rightarrow> ('x \<Rightarrow> article \<Rightarrow> bool)
    \<Rightarrow> (pystr set \<times> article list \<Rightarrow> 'x \<Rightarrow> pyerr + pystr set \<times> article list) \<Rightarrow> bool" where
  "keeps_first key built step =
     (\<forall>seen arts x seen' arts'.
        step (seen, arts) x = Inr (seen', arts') \<longrightarrow>
          (seen' = seen \<and> arts' = arts \<and> (key x = None \<or> (\<exists>k. key x = Some k \<and> k \<in> seen)))
          \<or> (\<exists>k. key x = Some k \<and> k \<notin> seen \<and> seen' = insert k seen
                \<and> (arts' = arts
                    \<or> (\<exists>r. arts' = arts @ [r] \<and> built x r \<and> py_lower (art_title r) = k))))"

definition fold_inv :: "('x \<Rightarrow> pystr option) \<Rightarrow> ('x \<Rightarrow> article \<Rightarrow> bool) \<Rightarrow> 'x list
    \<Rightarrow> pystr set \<times> article list \<Rightarrow> bool" where
  "fold_inv key built xs st =
     (fst st = {k. \<exists>x\<in>set xs. key x = Some k}
      \<and> distinct (map (\<lambda>r. py_lower (art_title r)) (snd st))
      \<and> list_all (first_kept key built xs) (snd st))"

text \<open>The keys and the records of \<^verbatim>\<open>scrape_static_article\<close> and \<^verbatim>\<open>scrape_headlines\<close>.\<close>

definition static_key :: "node \<Rightarrow> pystr option" where
  "static_key article =
     (case find (map str [''h1'', ''h2'', ''h3'']) article of
        None \<Rightarrow> None
      | Some title_tag \<Rightarrow>
          if clean_text (get_text title_tag) = [] then None
          else Some (py_lower (clean_text (get_text title_tag))))"

definition static_built :: "env \<Rightarrow> pystr \<Rightarrow> node \<Rightarrow> article \<Rightarrow> bool" where
  "static_built e url article r =
     (case find (map str [''h1'', ''h2'', ''h3'']) article of
        None \<Rightarrow> False
      | Some title_tag \<Rightarrow>
          art_title r = clean_text (get_text title_tag)
          \<and> art_link r = static_link e url article title_tag
          \<and> art_summary r = take 400 (select_summary e article)
          \<and> art_source r = url
          \<and> is_valid_article (art_title r) (select_summary e article) (art_link r) = Inr True)"

definition headline_key :: "nat \<times> node \<times> node \<Rightarrow> pystr option" where
  "headline_key elem =
     (case elem of (i, h, parent) \<Rightarrow>
        if clean_text (get_text h) = [] \<or> length (clean_text (get_text h)) < 15 then None
        else Some (py_lower (clean_text (get_text h))))"

definition headline_built :: "env \<Rightarrow> pystr \<Rightarrow> node \<Rightarrow> nat \<times> node \<times> node \<Rightarrow> article \<Rightarrow> bool" where
  "headline_built e url soup elem r =
     (case elem of (i, h, parent) \<Rightarrow>
        art_title r = clean_text (get_text h)
        \<and> art_link r = headline_link e url h
        \<and> art_summary r = take 400 (headline_summary soup i)
        \<and> art_source r = url
        \<and> is_valid_article (art_title r) (headline_summary soup i) (art_link r) = Inr True)"

section \<open>Two example pages\<close>

text \<open>
  An environment in which \<^verbatim>\<open>urljoin\<close> appends the link to the base, no URL has a path,
  no selector matches, no date is found and the clock answers with the empty string.
\<close>

definition example_env :: env where
  "example_env =
     \<lparr>env_urljoin = (\<lambda>base link. base @ link),
      env_url_path = (\<lambda>url. []),
      env_select = (\<lambda>selector elem. []),
      env_extract_date = (\<lambda>soup elem. Inr []),
      env_now = (\<lambda>n. [])\<rparr>"

definition example_title :: pystr where
  "example_title = str ''Sensex ends 500 points higher''"

text \<open>A page with an \<^verbatim>\<open>h2\<close> and, after it, an \<^verbatim>\<open>h1\<close> of the same title.\<close>

definition example_headings :: node where
  "example_headings =
     Tag (str ''body'') []
       [Tag (str ''h2'') []
          [Tag (str ''a'') [(str ''href'', str ''/first'')] [NavigableString example_title]],
        Tag (str ''h1'') []
          [Tag (str ''a'') [(str ''href'', str ''/second'')] [NavigableString example_title]]]"




text \<open>
  A page with two \<^verbatim>\<open>h2\<close> whose titles differ in the case of one letter outside ASCII:
  the first starts with the capital E with acute accent U+00C9, the second with the small
  letter U+00E9.
\<close>

definition accent_title :: pystr where
  "accent_title = 201 # str ''cole de commerce ouvre''"

definition accent_title_lower :: pystr where
  "accent_title_lower = 233 # str ''cole de commerce ouvre''"

definition accent_headings :: node where
  "accent_headings =
     Tag (str ''body'') []
       [Tag (str ''h2'') []
          [Tag (str ''a'') [(str ''href'', str ''/first'')] [NavigableString accent_title]],
        Tag (str ''h2'') []
          [Tag (str ''a'') [(str ''href'', str ''/second'')]
             [NavigableString accent_title_lower]]]"



section \<open>Properties\<close>

subsection \<open>Date validation\<close>

lemma year_match_at_iff: "year_match_at s = year_token_at s 0"
  by (cases s rule: year_match_at.cases) (auto simp: year_token_at_def)

lemma year_token_at_Cons: "year_token_at (c # cs) (Suc i) = year_token_at cs i"
  by (simp add: year_token_at_def add.commute)

lemma token_year_Cons: "token_year (c # cs) (Suc i) = token_year cs i"
  by (simp add: token_year_def add.commute)

lemma py_int_match:
  "year_token_at s 0 \<Longrightarrow> py_int (take 4 s) = Inr (token_year s 0)"
  by (cases s rule: year_match_at.cases)
     (auto simp: year_token_at_def py_int_def token_year_def ascii_digit_def)

lemma re_search_year_None: "re_search_year s = None \<longleftrightarrow> (\<forall>i. \<not> year_token_at s i)"
proof (induction s)
  case Nil
  then show ?case by (simp add: year_token_at_def)
next
  case (Cons c cs)
  show ?case
  proof (cases "year_match_at (c # cs)")
    case True
    then show ?thesis using year_match_at_iff by auto
  next
    case False
    have "(\<forall>i. \<not> year_token_at (c # cs) i) \<longleftrightarrow> (\<forall>i. \<not> year_token_at cs i)"
    proof
      assume a: "\<forall>i. \<not> year_token_at (c # cs) i"
      show "\<forall>i. \<not> year_token_at cs i"
        using a year_token_at_Cons by blast
    next
      assume a: "\<forall>i. \<not> year_token_at cs i"
      show "\<forall>i. \<not> year_token_at (c # cs) i"
      proof
        fix i show "\<not> year_token_at (c # cs) i"
          using a False year_match_at_iff year_token_at_Cons by (cases i) auto
      qed
    qed
    with False Cons show ?thesis by simp
  qed
qed

lemma re_search_year_Some:
  "re_search_year s = Some m \<Longrightarrow>
     \<exists>i. year_token_at s i \<and> (\<forall>j<i. \<not> year_token_at s j)
         \<and> py_int m = Inr (token_year s i)"
proof (induction s)
  case Nil
  then show ?case by simp
next
  case (Cons c cs)
  show ?case
  proof (cases "year_match_at (c # cs)")
    case True
    then have m: "m = take 4 (c # cs)" using Cons.prems by simp
    from True have t: "year_token_at (c # cs) 0" by (simp add: year_match_at_iff)
    have "py_int m = Inr (token_year (c # cs) 0)" unfolding m by (rule py_int_match [OF t])
    with t show ?thesis by (intro exI [of _ 0]) simp
  next
    case False
    then have "re_search_year cs = Some m" using Cons.prems by simp
    from Cons.IH [OF this] obtain i where
      i: "year_token_at cs i" "\<forall>j<i. \<not> year_token_at cs j" "py_int m = Inr (token_year cs i)"
      by blast
    have "\<forall>j<Suc i. \<not> year_token_at (c # cs) j"
    proof (intro allI impI)
      fix j assume "j < Suc i"
      then show "\<not> year_token_at (c # cs) j"
        using i(2) False year_match_at_iff year_token_at_Cons by (cases j) auto
    qed
    with i show ?thesis
      by (intro exI [of _ "Suc i"]) (simp add: year_token_at_Cons token_year_Cons)
  qed
qed

lemma first_token_unique:
  "year_token_at s i \<Longrightarrow> \<forall>j<i. \<not> year_token_at s j \<Longrightarrow>
   year_token_at s k \<Longrightarrow> \<forall>j<k. \<not> year_token_at s j \<Longrightarrow> i = k"
  by (meson nat_neq_iff)

lemma validate_date_general: "validate_date s = Inr (date_valid_spec s)"
proof (cases "contains (str ''00-00'') s \<or> contains (str ''00/00'') s")
  case True
  then show ?thesis by (auto simp: validate_date_def date_valid_spec_def)
next
  case nc: False
  show ?thesis
  proof (cases "re_search_year s")
    case None
    then have "\<forall>i. \<not> year_token_at s i" by (simp add: re_search_year_None)
    then have "\<not> date_valid_spec s" by (simp add: date_valid_spec_def)
    with None show ?thesis by (simp add: validate_date_def)
  next
    case (Some m)
    from re_search_year_Some [OF Some] obtain i where
      i: "year_token_at s i" "\<forall>j<i. \<not> year_token_at s j" "py_int m = Inr (token_year s i)"
      by blast
    have ne: "s \<noteq> []" using Some by auto
    have "date_valid_spec s \<longleftrightarrow> (2020 \<le> token_year s i \<and> token_year s i \<le> 2030)"
    proof
      assume "date_valid_spec s"
      then obtain k where k: "year_token_at s k" "\<forall>j<k. \<not> year_token_at s j"
        "2020 \<le> token_year s k" "token_year s k \<le> 2030"
        unfolding date_valid_spec_def by blast
      have "i = k" by (rule first_token_unique [OF i(1) i(2) k(1) k(2)])
      with k show "2020 \<le> token_year s i \<and> token_year s i \<le> 2030" by simp
    next
      assume "2020 \<le> token_year s i \<and> token_year s i \<le> 2030"
      with i nc show "date_valid_spec s" unfolding date_valid_spec_def by blast
    qed
    with Some i(3) nc ne show ?thesis by (auto simp: validate_date_def)
  qed
qed

lemma validate_date_2031: "validate_date (str ''15 Jan 2031'') = Inr False"
  by (simp add: validate_date_def str_def py_int_def ascii_digit_def)

lemma validate_date_2024: "validate_date (str ''2024-03-10'') = Inr True"
  by (simp add: validate_date_def str_def py_int_def ascii_digit_def)

text \<open>
  Claim C4. \<open>validate_date\<close> never raises, and it answers true exactly when the string
  contains neither \<^verbatim>\<open>00-00\<close> nor \<^verbatim>\<open>00/00\<close>, contains a year token matching
  \<^verbatim>\<open>20[2-3][0-9]\<close>, and the leftmost such token, read as an integer, lies between 2020
  and 2030. On \<^verbatim>\<open>15 Jan 2031\<close> it answers false, on \<^verbatim>\<open>2024-03-10\<close> true.
\<close>

theorem validate_date_iff_spec:
  "validate_date s = Inr (date_valid_spec s)
   \<and> validate_date (str ''15 Jan 2031'') = Inr False
   \<and> validate_date (str ''2024-03-10'') = Inr True"
  using validate_date_general validate_date_2031 validate_date_2024 by blast

theorem validate_date_iff_spec_witness:
  "date_valid_spec (str ''2024-03-10'') \<and> \<not> date_valid_spec (str ''15 Jan 2031'')"
  using validate_date_iff_spec [of "str ''2024-03-10''"]
    validate_date_iff_spec [of "str ''15 Jan 2031''"]
  by simp


subsection \<open>Case mapping\<close>

text \<open>On a string of ASCII characters \<^verbatim>\<open>lower\<close> works character by character.\<close>

lemma do_lower_ascii:
  "list_all (\<lambda>c. c < 128) s \<Longrightarrow>
   do_lower left s = map (\<lambda>c. if 65 \<le> c \<and> c \<le> 90 then c + 32 else c) s"
  by (induction s arbitrary: left) (auto simp: lower_ucs4_def ToLowerFull_def)

lemma py_lower_ascii:
  "list_all (\<lambda>c. c < 128) s \<Longrightarrow>
   py_lower s = map (\<lambda>c. if 65 \<le> c \<and> c \<le> 90 then c + 32 else c) s"
  by (simp add: py_lower_def do_lower_ascii)

text \<open>
  Outside ASCII: the capital E with acute accent U+00C9 becomes U+00E9, the Kelvin sign
  U+212A becomes \<^verbatim>\<open>k\<close>, the dotted capital I becomes two characters, the last sigma
  of a Greek word its final form U+03C2 and a sigma at the start of a word U+03C3. The
  mathematical bold capitals U+1D400 and U+1D401 are upper case and have no lower-case form.
\<close>

lemmas case_defs =
  py_lower_def lower_ucs4_def ToLowerFull_def Lower_runs_def handle_capital_sigma_def Let_def
  IsCaseIgnorable_def IsCased_def IsUppercase_def IsLowercase_def IsTitlecase_def
  Uppercase_runs_def Lowercase_runs_def Titlecase_runs_def Case_Ignorable_runs_def
  py_isupper_def py_title_def ToTitleFull_def Title_runs_def Title_special_def

lemma py_lower_examples:
  "py_lower [201, 67, 79, 76, 69] = [233, 99, 111, 108, 101]"
  "py_lower [8490] = [107]"
  "py_lower [304] = [105, 775]"
  "py_lower [927, 916, 927, 931] = [959, 948, 959, 962]"
  "py_lower [931, 927] = [963, 959]"
  "py_lower [119808, 119809] = [119808, 119809]"
  by (simp_all add: case_defs)

text \<open>
  Title-casing: a word that starts with U+00E9 then starts with U+00C9; the digraph U+01C6
  at the start of a word becomes its title-case form U+01C5, and the sharp s U+00DF at the
  start of a word becomes \<^verbatim>\<open>Ss\<close>.
\<close>

lemma py_title_examples:
  "py_title [233, 99, 111, 110, 111, 109, 105, 101] = [201, 99, 111, 110, 111, 109, 105, 101]"
  "py_title [454, 101, 109, 97, 108, 32, 223, 116, 114, 97, 223, 101]
   = [453, 101, 109, 97, 108, 32, 83, 115, 116, 114, 97, 223, 101]"
  by (simp_all add: case_defs)

text \<open>A text of capitals with one U+00E9 is not upper case; the two mathematical capitals
  are, also after \<^verbatim>\<open>lower\<close>.\<close>

lemma py_isupper_examples:
  "\<not> py_isupper (str ''SENSEX '' @ [233] @ str '' UP'')"
  "py_isupper (py_lower [119808, 119809])"
  by (simp_all add: case_defs str_def)


subsection \<open>The validity classifier\<close>

text \<open>
  The company-name test of lines 86 to 88 reads the lower-cased title. When the title is
  made of ASCII characters this holds no upper-case letter, and the test never answers
  true. (Outside ASCII some upper-case letters have no lower-case form.)
\<close>

lemma lower_no_upper:
  assumes "list_all (\<lambda>c. c < 128) s"
  shows "\<not> list_ex IsUppercase (py_lower s)"
  using assms by (auto simp: py_lower_ascii list_all_iff list_ex_iff IsUppercase_def)

lemma strip_no_upper: "\<not> list_ex IsUppercase s \<Longrightarrow> \<not> list_ex IsUppercase (py_strip s)"
  unfolding py_strip_def list_ex_iff
  by (metis set_dropWhileD set_rev)

lemma title_lower_not_upper:
  "list_all (\<lambda>c. c < 128) t \<Longrightarrow> \<not> py_isupper (py_strip (py_lower t))"
  using strip_no_upper [OF lower_no_upper] by (simp add: py_isupper_def)

lemma title_lower_hd_not_upper:
  assumes "list_all (\<lambda>c. c < 128) t" and ne: "py_strip (py_lower t) \<noteq> []"
  shows "\<not> py_isupper [hd (py_strip (py_lower t))]"
proof -
  have "\<not> list_ex IsUppercase (py_strip (py_lower t))"
    by (rule strip_no_upper [OF lower_no_upper [OF assms(1)]])
  with ne have "\<not> IsUppercase (hd (py_strip (py_lower t)))"
    by (cases "py_strip (py_lower t)") auto
  then show ?thesis by (simp add: py_isupper_def)
qed

lemma company_name_check_dead:
  "list_all (\<lambda>c. c < 128) t \<Longrightarrow> company_name_check t (py_strip (py_lower t)) \<noteq> Inr True"
  using title_lower_not_upper [of t] title_lower_hd_not_upper [of t]
  by (auto simp: company_name_check_def)

text \<open>
  A title that passes the classifier has a key: the lower-cased title is not made of white
  space only. No image of the lower-case mapping is a white-space character, and no
  white-space character is a digit.
\<close>

lemma strip_Nil_all_space: "py_strip s = [] \<Longrightarrow> list_all py_isspace s"
proof -
  assume "py_strip s = []"
  then have a: "\<forall>x\<in>set (dropWhile py_isspace s). py_isspace x"
    by (simp add: py_strip_def dropWhile_eq_Nil_conv)
  have "dropWhile py_isspace s = []"
  proof (rule ccontr)
    assume ne: "dropWhile py_isspace s \<noteq> []"
    then have "\<not> py_isspace (hd (dropWhile py_isspace s))" by (rule hd_dropWhile)
    moreover from ne have "hd (dropWhile py_isspace s) \<in> set (dropWhile py_isspace s)"
      by simp
    ultimately show False using a by blast
  qed
  then show ?thesis by (metis dropWhile_eq_Nil_conv list_all_iff)
qed

lemma map_runs_range:
  "map_runs runs c = Some d \<Longrightarrow>
   list_ex (\<lambda>(lo, hi, step, target). target \<le> d \<and> d \<le> target + (hi - lo)) runs"
  by (induction runs c rule: map_runs.induct) (auto split: if_splits)

lemma in_runs_range:
  "in_runs runs c \<Longrightarrow> list_ex (\<lambda>(lo, hi, step). lo \<le> c \<and> c \<le> hi) runs"
  by (induction runs c rule: in_runs.induct) auto

lemma between_spaces:
  assumes "(32 < a \<and> b < 133) \<or> (160 < a \<and> (b < 5760 \<or> (5760 < a \<and> b < 8192)
             \<or> (8287 < a \<and> b < 12288) \<or> 12288 < a))"
    and "a \<le> d" and "d \<le> b"
  shows "\<not> py_isspace d"
  using assms by (auto simp: py_isspace_def)

lemma Lower_runs_between_spaces:
  "list_all (\<lambda>(lo, hi, step, target).
      (32 < target \<and> target + (hi - lo) < 133)
      \<or> (160 < target \<and> (target + (hi - lo) < 5760
                         \<or> (5760 < target \<and> target + (hi - lo) < 8192)
                         \<or> (8287 < target \<and> target + (hi - lo) < 12288)
                         \<or> 12288 < target))) Lower_runs"
  by (simp add: Lower_runs_def)

lemma Digit_runs_between_spaces:
  "list_all (\<lambda>(lo, hi, step).
      (32 < lo \<and> hi < 133)
      \<or> (160 < lo \<and> (hi < 5760 \<or> (5760 < lo \<and> hi < 8192) \<or> (8287 < lo \<and> hi < 12288)
                      \<or> 12288 < lo))) Digit_runs"
  by (simp add: Digit_runs_def)

lemma lower_image_no_space:
  assumes "map_runs Lower_runs c = Some d"
  shows "\<not> py_isspace d"
proof -
  from map_runs_range [OF assms] obtain lo hi step target
    where m: "(lo, hi, step, target) \<in> set Lower_runs"
      and d: "target \<le> d" "d \<le> target + (hi - lo)"
    by (auto simp: list_ex_iff)
  from m Lower_runs_between_spaces
  have "(32 < target \<and> target + (hi - lo) < 133)
        \<or> (160 < target \<and> (target + (hi - lo) < 5760
                           \<or> (5760 < target \<and> target + (hi - lo) < 8192)
                           \<or> (8287 < target \<and> target + (hi - lo) < 12288)
                           \<or> 12288 < target))"
    unfolding list_all_iff by fast
  then show ?thesis using d by (rule between_spaces)
qed

lemma lower_space: "list_all py_isspace (lower_ucs4 left c right) \<Longrightarrow> py_isspace c"
proof (cases "c = 931")
  case True
  assume "list_all py_isspace (lower_ucs4 left c right)"
  with True show ?thesis
    by (auto simp: lower_ucs4_def handle_capital_sigma_def Let_def py_isspace_def
        split: if_splits)
next
  case False
  assume a: "list_all py_isspace (lower_ucs4 left c right)"
  show ?thesis
  proof (cases "c < 128")
    case True
    with a False show ?thesis
      by (auto simp: lower_ucs4_def ToLowerFull_def py_isspace_def split: if_splits)
  next
    case big: False
    show ?thesis
    proof (cases "c = 304")
      case True
      with a show ?thesis by (simp add: lower_ucs4_def ToLowerFull_def py_isspace_def)
    next
      case no_dot: False
      show ?thesis
      proof (cases "map_runs Lower_runs c")
        case None
        with a False big no_dot show ?thesis by (simp add: lower_ucs4_def ToLowerFull_def)
      next
        case (Some d)
        with a False big no_dot have "py_isspace d"
          by (simp add: lower_ucs4_def ToLowerFull_def)
        with lower_image_no_space [OF Some] show ?thesis by simp
      qed
    qed
  qed
qed

lemma do_lower_all_space: "list_all py_isspace (do_lower left s) \<Longrightarrow> list_all py_isspace s"
  by (induction s arbitrary: left) (auto dest: lower_space)

lemma split_aux_all_space: "list_all py_isspace s \<Longrightarrow> split_aux [] s = []"
  by (induction s) auto

lemma space_not_digit:
  assumes "py_isspace c"
  shows "\<not> IsDigit c"
proof (cases "c < 128")
  case True
  with assms show ?thesis by (auto simp: IsDigit_def py_isspace_def)
next
  case False
  show ?thesis
  proof
    assume "IsDigit c"
    with False have "in_runs Digit_runs c" by (simp add: IsDigit_def)
    from in_runs_range [OF this] obtain lo hi step
      where m: "(lo, hi, step) \<in> set Digit_runs" and d: "lo \<le> c" "c \<le> hi"
      by (auto simp: list_ex_iff)
    from m Digit_runs_between_spaces
    have "(32 < lo \<and> hi < 133)
          \<or> (160 < lo \<and> (hi < 5760 \<or> (5760 < lo \<and> hi < 8192) \<or> (8287 < lo \<and> hi < 12288)
                          \<or> 12288 < lo))"
      unfolding list_all_iff by fast
    then have "\<not> py_isspace c" using d by (rule between_spaces)
    with assms show False by simp
  qed
qed

lemma valid_article_key_nonempty:
  assumes "is_valid_article t s l = Inr True"
  shows "py_strip (py_lower t) \<noteq> []"
proof
  assume e: "py_strip (py_lower t) = []"
  then have "list_all py_isspace (py_lower t)" by (rule strip_Nil_all_space)
  then have sp: "list_all py_isspace t"
    unfolding py_lower_def by (rule do_lower_all_space)
  then have "py_split t = []" by (simp add: py_split_def split_aux_all_space)
  moreover from sp have "\<not> list_ex IsDigit t"
    by (auto simp: list_all_iff list_ex_iff dest: space_not_digit)
  ultimately have "company_name_check t [] = Inl IndexError"
    by (simp add: company_name_check_def py_isupper_def)
  with assms e show False
    by (auto simp: is_valid_article_def Let_def split: if_splits)
qed

text \<open>Evaluation of the classifier on an all-capitals two-word headline with a colon.\<close>

lemma breaking_lower:
  "py_strip (py_lower (str ''BREAKING: SENSEX'')) = str ''breaking: sensex''"
  by (simp add: py_strip_def py_lower_def lower_ucs4_def ToLowerFull_def str_def py_isspace_def)

lemma breaking_no_navigation: "str ''breaking: sensex'' \<notin> set NAVIGATION_TITLES"
  by (simp add: NAVIGATION_TITLES_def str_def)

lemma breaking_no_noise:
  "\<not> list_ex (\<lambda>keyword. contains keyword (str ''breaking: sensex'')
                          \<or> contains keyword (py_lower (str ''''))) NOISE_KEYWORDS"
  by (simp add: NOISE_KEYWORDS_def str_def py_lower_def)

lemma breaking_split:
  "py_split (str ''BREAKING: SENSEX'') = [str ''BREAKING:'', str ''SENSEX'']"
  by (simp add: py_split_def str_def py_isspace_def)

lemma breaking_company_name:
  "company_name_check (str ''BREAKING: SENSEX'') (str ''breaking: sensex'') = Inr False"
  by (simp add: company_name_check_def breaking_split py_isupper_def IsLowercase_def
      IsTitlecase_def IsUppercase_def IsDigit_def any_in_def str_def)

lemma breaking_late_checks:
  "late_checks (str ''BREAKING: SENSEX'') (str ''breaking: sensex'') (str '''')
     (py_lower (str '''')) (str ''https://example.com/a'')"
  by (simp add: late_checks_def breaking_split py_isupper_def IsLowercase_def
      IsTitlecase_def IsUppercase_def any_in_def section_indicators_def str_def)

lemma breaking_valid:
  "is_valid_article (str ''BREAKING: SENSEX'') (str '''') (str ''https://example.com/a'')
     = Inr True"
  unfolding is_valid_article_def Let_def breaking_lower
  using breaking_no_navigation breaking_no_noise breaking_company_name breaking_late_checks
  by (simp add: TRIVIAL_TITLES_def SECTION_HEADER_TITLES_def str_def)

lemma breaking_bare_name: "bare_name_spec (str ''BREAKING: SENSEX'')"
  unfolding bare_name_spec_def breaking_split
  by (simp add: py_isupper_def IsLowercase_def IsTitlecase_def IsUppercase_def IsDigit_def str_def)

text \<open>
  Claim C1 says that a title of at most two words, without a digit, that is all upper case
  (or starts upper case without any of \<^verbatim>\<open>: - ? !\<close>) is rejected. The title
  \<^verbatim>\<open>BREAKING: SENSEX\<close> has two words, no digit and is all upper case; with a link and
  no summary the classifier accepts it.
\<close>

theorem is_valid_article_accepts_bare_name:
  "bare_name_spec (str ''BREAKING: SENSEX'')
   \<and> is_valid_article (str ''BREAKING: SENSEX'') (str '''') (str ''https://example.com/a'')
       = Inr True"
  using breaking_bare_name breaking_valid by simp


subsection \<open>The merge step\<close>

lemma merge_site_append:
  "merge_site (merge_site st xs) ys = merge_site st (xs @ ys)"
proof (induction xs arbitrary: st)
  case Nil
  then show ?case by (cases st) simp
next
  case (Cons a xs)
  then show ?case by (cases st) simp
qed

lemma foldl_merge_site: "foldl merge_site st sites = merge_site st (concat sites)"
proof (induction sites arbitrary: st)
  case Nil
  then show ?case by (cases st) simp
next
  case (Cons xs sites)
  then show ?case by (simp add: merge_site_append)
qed

lemma merge_site_filter:
  "filter (\<lambda>b. title_key b = k) (snd (merge_site (seen, final) xs)) =
     filter (\<lambda>b. title_key b = k) final
     @ (if k = [] \<or> k \<in> seen then [] else take 1 (filter (\<lambda>b. title_key b = k) xs))"
proof (induction xs arbitrary: seen final)
  case Nil
  then show ?case by simp
next
  case (Cons a xs)
  show ?case
  proof (cases "title_key a \<noteq> [] \<and> title_key a \<notin> seen")
    case True
    then show ?thesis using Cons.IH [of "insert (title_key a) seen" "final @ [a]"] by auto
  next
    case False
    then show ?thesis using Cons.IH [of seen final] by auto
  qed
qed

lemma run_merge_filter:
  "filter (\<lambda>b. title_key b = k) (run_merge sites) =
     (if k = [] then [] else take 1 (filter (\<lambda>b. title_key b = k) (concat sites)))"
  by (simp add: run_merge_def foldl_merge_site merge_site_filter)

text \<open>
  Claim C7. Every record that reaches the merge step was appended by a strategy after
  \<^verbatim>\<open>is_valid_article\<close> answered true for its title, so its key is not empty. For such
  a record, the merged output of all sites holds exactly one record with its key, and that
  record is the first one with this key among all records of all sites, in the order in
  which the strategies and sites delivered them.
\<close>

theorem run_merge_first_seen:
  assumes "a \<in> set (concat sites)" and "is_valid_article (art_title a) s l = Inr True"
  shows "filter (\<lambda>b. title_key b = title_key a) (run_merge sites)
         = [hd (filter (\<lambda>b. title_key b = title_key a) (concat sites))]"
proof -
  have ne: "title_key a \<noteq> []"
    using valid_article_key_nonempty [OF assms(2)] by (simp add: title_key_def)
  have "filter (\<lambda>b. title_key b = title_key a) (concat sites) \<noteq> []"
    using assms(1) by (auto simp: filter_empty_conv)
  then have "take 1 (filter (\<lambda>b. title_key b = title_key a) (concat sites))
      = [hd (filter (\<lambda>b. title_key b = title_key a) (concat sites))]"
    by (cases "filter (\<lambda>b. title_key b = title_key a) (concat sites)") auto
  with ne show ?thesis by (simp add: run_merge_filter)
qed

theorem run_merge_first_seen_witness:
  "filter (\<lambda>b. title_key b = str ''breaking: sensex'')
     (run_merge
       [[\<lparr>art_title = str ''BREAKING: SENSEX'', art_link = str ''https://example.com/a'',
          art_summary = str '''', art_date = str '''', art_category = str '''',
          art_source = str ''https://example.com'', art_scraped_at = str ''t1''\<rparr>,
         \<lparr>art_title = str ''BREAKING: SENSEX'', art_link = str ''https://example.com/b'',
          art_summary = str '''', art_date = str '''', art_category = str '''',
          art_source = str ''https://example.com'', art_scraped_at = str ''t2''\<rparr>],
        [\<lparr>art_title = str ''BREAKING: SENSEX'', art_link = str ''https://example.org/c'',
          art_summary = str '''', art_date = str '''', art_category = str '''',
          art_source = str ''https://example.org'', art_scraped_at = str ''t3''\<rparr>]])
   = [\<lparr>art_title = str ''BREAKING: SENSEX'', art_link = str ''https://example.com/a'',
          art_summary = str '''', art_date = str '''', art_category = str '''',
          art_source = str ''https://example.com'', art_scraped_at = str ''t1''\<rparr>]"
  using run_merge_first_seen
    [of "\<lparr>art_title = str ''BREAKING: SENSEX'', art_link = str ''https://example.com/a'',
          art_summary = str '''', art_date = str '''', art_category = str '''',
          art_source = str ''https://example.com'', art_scraped_at = str ''t1''\<rparr>"
        "[[\<lparr>art_title = str ''BREAKING: SENSEX'', art_link = str ''https://example.com/a'',
          art_summary = str '''', art_date = str '''', art_category = str '''',
          art_source = str ''https://example.com'', art_scraped_at = str ''t1''\<rparr>,
         \<lparr>art_title = str ''BREAKING: SENSEX'', art_link = str ''https://example.com/b'',
          art_summary = str '''', art_date = str '''', art_category = str '''',
          art_source = str ''https://example.com'', art_scraped_at = str ''t2''\<rparr>],
        [\<lparr>art_title = str ''BREAKING: SENSEX'', art_link = str ''https://example.org/c'',
          art_summary = str '''', art_date = str '''', art_category = str '''',
          art_source = str ''https://example.org'', art_scraped_at = str ''t3''\<rparr>]]"
        "str ''''" "str ''https://example.com/a''"]
    breaking_valid
  by (simp add: title_key_def breaking_lower)


text \<open>Two titles that differ in the case of an accented letter have one key.\<close>

lemma run_merge_accent:
  "map art_link (run_merge
     [[\<lparr>art_title = [201, 67, 79, 76, 69] @ str '' de commerce: resultats'',
        art_link = str ''https://example.com/1'', art_summary = [], art_date = [],
        art_category = [], art_source = [], art_scraped_at = []\<rparr>],
      [\<lparr>art_title = [233, 99, 111, 108, 101] @ str '' de commerce: resultats'',
        art_link = str ''https://example.com/2'', art_summary = [], art_date = [],
        art_category = [], art_source = [], art_scraped_at = []\<rparr>]])
   = [str ''https://example.com/1'']"
  by (simp add: run_merge_def title_key_def py_strip_def py_isspace_def py_lower_def
      lower_ucs4_def ToLowerFull_def Lower_runs_def str_def)


subsection \<open>Content sections\<close>

lemma commit_nonempty:
  "list_all (\<lambda>s. content s \<noteq> []) (fst st) \<Longrightarrow> list_all (\<lambda>s. content s \<noteq> []) (commit st)"
  by (cases st) (auto simp: commit_def split: option.splits)

lemma section_step_nonempty:
  "list_all (\<lambda>s. content s \<noteq> []) (fst st) \<Longrightarrow>
   list_all (\<lambda>s. content s \<noteq> []) (fst (section_step st e))"
  by (cases st) (auto simp: section_step_def commit_def Let_def split: option.splits)

lemma foldl_section_step_nonempty:
  "list_all (\<lambda>s. content s \<noteq> []) (fst st) \<Longrightarrow>
   list_all (\<lambda>s. content s \<noteq> []) (fst (foldl section_step st es))"
  by (induction es arbitrary: st) (auto simp: section_step_nonempty)

lemma build_sections_nonempty: "list_all (\<lambda>s. content s \<noteq> []) (build_sections es)"
  unfolding build_sections_def
  by (rule commit_nonempty, rule foldl_section_step_nonempty) simp

lemma idle_step: "idle_block b \<Longrightarrow> section_step st b = st"
  by (cases st)
     (auto simp: section_step_def idle_block_def is_heading_def Let_def split: option.splits)

lemma idle_steps: "list_all idle_block bs \<Longrightarrow> foldl section_step st bs = st"
  by (induction bs arbitrary: st) (auto simp: idle_step)

lemma heading_step:
  "is_heading h \<Longrightarrow> section_step st h =
     (commit st, Some \<lparr>heading = clean_text_detail (get_text h),
                       level = int (tag_name h ! 1) - 48, content = []\<rparr>)"
  by (simp add: section_step_def is_heading_def)

lemma commit_fresh: "commit (secs, Some \<lparr>heading = a, level = b, content = []\<rparr>) = secs"
  by (simp add: commit_def)

lemma heading_dropped:
  assumes h: "is_heading h" and bs: "list_all idle_block bs"
    and es2: "es2 = [] \<or> is_heading (hd es2)"
  shows "build_sections (es1 @ h # bs @ es2) = build_sections (es1 @ es2)"
proof -
  define st where "st = foldl section_step ([], None) es1"
  define fresh where "fresh = \<lparr>heading = clean_text_detail (get_text h),
                       level = int (tag_name h ! 1) - 48, content = []\<rparr>"
  have a: "foldl section_step ([], None) (es1 @ h # bs) = (commit st, Some fresh)"
    using h bs by (simp add: st_def fresh_def heading_step idle_steps)
  show ?thesis
  proof (cases es2)
    case Nil
    then show ?thesis using a
      by (simp add: build_sections_def st_def [symmetric] fresh_def commit_fresh)
  next
    case (Cons g gs)
    with es2 have g: "is_heading g" by simp
    have "foldl section_step ([], None) (es1 @ h # bs @ es2)
          = foldl section_step (section_step (commit st, Some fresh) g) gs"
      using a Cons by simp
    also have "section_step (commit st, Some fresh) g = section_step st g"
      by (simp add: heading_step [OF g] fresh_def commit_fresh)
    finally show ?thesis
      by (simp add: build_sections_def st_def Cons)
  qed
qed

lemma sections_example:
  "extract_content_sections
     (Tag (str ''body'') []
       [Tag (str ''h2'') [] [NavigableString (str ''X'')],
        Tag (str ''h2'') [] [NavigableString (str ''Y'')],
        Tag (str ''p'') [] [NavigableString (str ''The issue opens for bidding on Monday.'')]])
   = [\<lparr>heading = str ''Y'', level = 2,
       content = [str ''The issue opens for bidding on Monday.'']\<rparr>]"
  by (simp add: extract_content_sections_def find_all_def build_sections_def commit_def
      section_step_def heading_names_def clean_text_detail_def py_strip_def py_isspace_def
      qualifies_def any_in_def boilerplate_def py_lower_def lower_ucs4_def ToLowerFull_def str_def)

text \<open>
  Claim C3. No section of the result has an empty content. A heading followed only by
  blocks that do not qualify, up to the next heading or the end, leaves no trace: the result
  is the one for the sequence without that heading and those blocks. On the sequence
  \<^verbatim>\<open>h2 X\<close>, \<^verbatim>\<open>h2 Y\<close>, \<^verbatim>\<open>p\<close> with a qualifying paragraph, the result is the one
  section headed \<^verbatim>\<open>Y\<close>.
\<close>

theorem sections_never_empty:
  "list_all (\<lambda>s. content s \<noteq> []) (extract_content_sections soup)
   \<and> (is_heading h \<and> list_all idle_block bs \<and> (es2 = [] \<or> is_heading (hd es2))
        \<longrightarrow> build_sections (es1 @ h # bs @ es2) = build_sections (es1 @ es2))
   \<and> extract_content_sections
        (Tag (str ''body'') []
          [Tag (str ''h2'') [] [NavigableString (str ''X'')],
           Tag (str ''h2'') [] [NavigableString (str ''Y'')],
           Tag (str ''p'') []
             [NavigableString (str ''The issue opens for bidding on Monday.'')]])
      = [\<lparr>heading = str ''Y'', level = 2,
          content = [str ''The issue opens for bidding on Monday.'']\<rparr>]"
  using build_sections_nonempty heading_dropped sections_example
  by (simp add: extract_content_sections_def)

theorem sections_never_empty_witness:
  "build_sections
     [Tag (str ''h2'') [] [NavigableString (str ''X'')],
      Tag (str ''div'') [] [NavigableString (str ''Menu'')],
      Tag (str ''h2'') [] [NavigableString (str ''Y'')],
      Tag (str ''p'') [] [NavigableString (str ''The issue opens for bidding on Monday.'')]]
   = build_sections
     [Tag (str ''h2'') [] [NavigableString (str ''Y'')],
      Tag (str ''p'') [] [NavigableString (str ''The issue opens for bidding on Monday.'')]]"
  using sections_never_empty
    [of "Tag (str ''body'') [] []" "Tag (str ''h2'') [] [NavigableString (str ''X'')]"
        "[Tag (str ''div'') [] [NavigableString (str ''Menu'')]]"
        "[Tag (str ''h2'') [] [NavigableString (str ''Y'')],
          Tag (str ''p'') [] [NavigableString (str ''The issue opens for bidding on Monday.'')]]"
        "[]"]
  by (simp add: is_heading_def idle_block_def heading_names_def qualifies_def
      clean_text_detail_def py_strip_def py_isspace_def str_def)


subsection \<open>Tables\<close>

text \<open>The dictionary built from a list of pairs: a later pair overrides an earlier one with
  the same key, the keys are distinct, and they stand in the order of their first
  occurrence.\<close>

lemma foldl_update_map_of:
  "map_of (foldl (\<lambda>d (k, v). AList.update k v d) d ps) = map_of (rev ps @ d)"
proof (induction ps arbitrary: d)
  case Nil
  then show ?case by simp
next
  case (Cons p ps)
  obtain k v where p: "p = (k, v)" by (cases p)
  show ?case
    by (simp add: p Cons.IH update_conv' map_add_def fun_eq_iff split: option.splits)
qed

lemma py_dict_map_of: "map_of (py_dict ps) = map_of (rev ps)"
  by (simp add: py_dict_def foldl_update_map_of)

lemma foldl_update_keys:
  "map fst (foldl (\<lambda>d (k, v). AList.update k v d) d ps)
     = map fst d @ first_occurrences (filter (\<lambda>k. k \<notin> set (map fst d)) (map fst ps))"
proof (induction ps arbitrary: d)
  case Nil
  then show ?case by simp
next
  case (Cons p ps)
  obtain k v where p: "p = (k, v)" by (cases p)
  show ?case
  proof (cases "k \<in> set (map fst d)")
    case True
    then show ?thesis by (simp add: p Cons.IH update_keys)
  next
    case False
    have "filter (\<lambda>y. y \<noteq> k) (filter (\<lambda>k. k \<notin> set (map fst d)) (map fst ps))
          = filter (\<lambda>x. x \<notin> set (map fst d @ [k])) (map fst ps)"
      by (auto intro: filter_cong)
    with False show ?thesis by (simp add: p Cons.IH update_keys)
  qed
qed

lemma py_dict_keys: "map fst (py_dict ps) = first_occurrences (map fst ps)"
  by (simp add: py_dict_def foldl_update_keys)

lemma map_of_rev_last:
  assumes "i < length ps" and "ps ! i = (k, v)"
    and "\<forall>j. i < j \<and> j < length ps \<longrightarrow> fst (ps ! j) \<noteq> k"
  shows "map_of (rev ps) k = Some v"
proof -
  have ps: "ps = take i ps @ (k, v) # drop (Suc i) ps"
    using assms(1,2) by (metis id_take_nth_drop)
  have "k \<notin> fst ` set (drop (Suc i) ps)"
  proof
    assume "k \<in> fst ` set (drop (Suc i) ps)"
    then obtain q where q: "q \<in> set (drop (Suc i) ps)" "fst q = k" by auto
    then obtain n where n: "n < length (drop (Suc i) ps)" "drop (Suc i) ps ! n = q"
      by (auto simp: in_set_conv_nth)
    then have "Suc i + n < length ps" "ps ! (Suc i + n) = q" by auto
    with assms(3) q(2) show False by (metis add_Suc less_add_Suc1)
  qed
  then have none: "map_of (rev (drop (Suc i) ps)) k = None"
    by (simp add: map_of_eq_None_iff)
  have "rev ps = rev (drop (Suc i) ps) @ (k, v) # rev (take i ps)"
    by (subst ps) simp
  then show ?thesis using none by (simp add: map_add_def)
qed

lemma py_dict_last_wins:
  assumes "length cs = length hs" and "i < length hs"
    and "\<forall>j. i < j \<and> j < length hs \<longrightarrow> hs ! j \<noteq> hs ! i"
  shows "map_of (py_dict (zip hs cs)) (hs ! i) = Some (cs ! i)"
  unfolding py_dict_map_of
  by (rule map_of_rev_last [where i = i]) (use assms in auto)

lemma py_dict_zip_keys:
  "length cs = length hs \<Longrightarrow> map fst (py_dict (zip hs cs)) = first_occurrences hs"
  by (simp add: py_dict_keys)

text \<open>The loop over the rows.\<close>

lemma row_step_materialize:
  "row_step hs acc r
     = acc @ (if row_cells r = [] then [] else [materialize hs (row_cells r)])"
  by (auto simp: row_step_def Let_def materialize_def row_cells_def cell_texts_def)

lemma foldl_row_step:
  "foldl (row_step hs) acc rs
     = acc @ map (materialize hs) (filter (\<lambda>cs. cs \<noteq> []) (map row_cells rs))"
proof (induction rs arbitrary: acc)
  case Nil
  then show ?case by simp
next
  case (Cons r rs)
  have "foldl (row_step hs) acc (r # rs) = foldl (row_step hs) (row_step hs acc r) rs"
    by simp
  also have "\<dots> = row_step hs acc r
      @ map (materialize hs) (filter (\<lambda>cs. cs \<noteq> []) (map row_cells rs))"
    by (rule Cons.IH)
  also have "\<dots> = acc
      @ map (materialize hs) (filter (\<lambda>cs. cs \<noteq> []) (map row_cells (r # rs)))"
    by (simp add: row_step_materialize)
  finally show ?case .
qed

lemma extract_table_rows:
  "rows (extract_table t)
     = map (materialize (headers (extract_table t)))
         (filter (\<lambda>cs. cs \<noteq> [])
            (map row_cells (body_rows t (headers (extract_table t)))))"
  by (simp add: extract_table_def Let_def foldl_row_step)

text \<open>
  The rows of a table are the rows of \<open>body_rows\<close> that have a cell, each as a
  dictionary when it has as many cells as there are headers and as a list otherwise; and
  only a table with a header or a row is emitted.
\<close>

lemma tables_emitted:
  "list_all (\<lambda>t. headers t \<noteq> [] \<or> rows t \<noteq> []) (extract_structured_tables soup)"
  by (auto simp: extract_structured_tables_def list_all_iff)

lemmas table_defs = extract_structured_tables_def extract_table_def table_headers_def
  body_rows_def row_step_def cell_texts_def py_dict_def find_def find_all_def
  clean_text_detail_def py_strip_def py_isspace_def str_def

text \<open>The example table, with its header row as a first row of \<^verbatim>\<open>th\<close> cells, and with
  its header row in a \<^verbatim>\<open>thead\<close> and its body row in a \<^verbatim>\<open>tbody\<close>.\<close>

lemma table_example_first_row:
  "extract_structured_tables
     (Tag (str ''body'') []
       [Tag (str ''table'') []
         [Tag (str ''tr'') []
            [Tag (str ''th'') [] [NavigableString (str ''A'')],
             Tag (str ''th'') [] [NavigableString (str ''B'')]],
          Tag (str ''tr'') []
            [Tag (str ''td'') [] [NavigableString (str ''1'')],
             Tag (str ''td'') [] [NavigableString (str ''2'')]]]])
   = [\<lparr>headers = [str ''A'', str ''B''],
       rows = [RowDict [(str ''A'', str ''1''), (str ''B'', str ''2'')]],
       caption = []\<rparr>]"
  by (simp add: table_defs)

lemma table_example_thead_tbody:
  "extract_structured_tables
     (Tag (str ''body'') []
       [Tag (str ''table'') []
         [Tag (str ''thead'') []
            [Tag (str ''tr'') []
               [Tag (str ''th'') [] [NavigableString (str ''A'')],
                Tag (str ''th'') [] [NavigableString (str ''B'')]]],
          Tag (str ''tbody'') []
            [Tag (str ''tr'') []
               [Tag (str ''td'') [] [NavigableString (str ''1'')],
                Tag (str ''td'') [] [NavigableString (str ''2'')]]]]])
   = [\<lparr>headers = [str ''A'', str ''B''],
       rows = [RowDict [(str ''A'', str ''1''), (str ''B'', str ''2'')]],
       caption = []\<rparr>]"
  by (simp add: table_defs)

text \<open>
  Claim C2 says that a table with the header row \<^verbatim>\<open>A, B\<close> and the one body row
  \<^verbatim>\<open>1, 2\<close> yields the one row that maps \<^verbatim>\<open>A\<close> to \<^verbatim>\<open>1\<close> and \<^verbatim>\<open>B\<close> to
  \<^verbatim>\<open>2\<close>. When the header row stands in a \<^verbatim>\<open>thead\<close> and the body row directly under
  the table, without a \<^verbatim>\<open>tbody\<close>, the rows are taken from all \<^verbatim>\<open>tr\<close> of the table and
  none is skipped: the header row comes back as a first data row.
\<close>

theorem table_thead_without_tbody:
  "extract_structured_tables
     (Tag (str ''body'') []
       [Tag (str ''table'') []
         [Tag (str ''thead'') []
            [Tag (str ''tr'') []
               [Tag (str ''th'') [] [NavigableString (str ''A'')],
                Tag (str ''th'') [] [NavigableString (str ''B'')]]],
          Tag (str ''tr'') []
            [Tag (str ''td'') [] [NavigableString (str ''1'')],
             Tag (str ''td'') [] [NavigableString (str ''2'')]]]])
   = [\<lparr>headers = [str ''A'', str ''B''],
       rows = [RowDict [(str ''A'', str ''A''), (str ''B'', str ''B'')],
               RowDict [(str ''A'', str ''1''), (str ''B'', str ''2'')]],
       caption = []\<rparr>]"
  by (simp add: table_defs)

theorem table_thead_without_tbody_witness:
  "map (\<lambda>t. length (rows t))
     (extract_structured_tables
       (Tag (str ''body'') []
         [Tag (str ''table'') []
           [Tag (str ''thead'') []
              [Tag (str ''tr'') []
                 [Tag (str ''th'') [] [NavigableString (str ''A'')],
                  Tag (str ''th'') [] [NavigableString (str ''B'')]]],
            Tag (str ''tr'') []
              [Tag (str ''td'') [] [NavigableString (str ''1'')],
               Tag (str ''td'') [] [NavigableString (str ''2'')]]]]))
   = [2]"
  by (simp only: table_thead_without_tbody) simp


subsection \<open>Links\<close>

lemma javascript_is_skipped:
  "javascript_text href \<Longrightarrow> any_in skip_patterns (py_lower href)"
  unfolding javascript_text_def any_in_def skip_patterns_def list_ex_iff
  by auto

lemma link_step_javascript:
  "javascript_text (get_or_empty a (str ''href'')) \<Longrightarrow>
   link_step urljoin netloc base_url st a = st"
  by (cases st) (simp add: link_step_def Let_def javascript_is_skipped)

lemma foldl_filter_idle:
  assumes "\<And>a st. \<not> P a \<Longrightarrow> f st a = st"
  shows "foldl f st (filter P xs) = foldl f st xs"
  by (induction xs arbitrary: st) (auto simp: assms)

lemma links_loop_without_javascript:
  "links_loop urljoin netloc base_url anchors
     = links_loop urljoin netloc base_url
         (filter (\<lambda>a. \<not> javascript_text (get_or_empty a (str ''href''))) anchors)"
  unfolding links_loop_def
  by (subst foldl_filter_idle) (auto simp: link_step_javascript)

lemma internal_neq_external: "str ''internal'' \<noteq> str ''external''"
  by (simp add: str_def)

lemma link_step_typed:
  "list_all (typed_by_netloc netloc base_url) (snd st) \<Longrightarrow>
   list_all (typed_by_netloc netloc base_url) (snd (link_step urljoin netloc base_url st a))"
  using internal_neq_external
  by (cases st) (auto simp: link_step_def Let_def typed_by_netloc_def)

lemma foldl_link_step_typed:
  "list_all (typed_by_netloc netloc base_url) (snd st) \<Longrightarrow>
   list_all (typed_by_netloc netloc base_url)
     (snd (foldl (link_step urljoin netloc base_url) st anchors))"
  by (induction anchors arbitrary: st) (auto simp: link_step_typed)

lemma links_loop_typed:
  "list_all (typed_by_netloc netloc base_url) (links_loop urljoin netloc base_url anchors)"
  unfolding links_loop_def by (rule foldl_link_step_typed) simp

text \<open>Every record is external or internal; an internal one has the host of the base.\<close>

lemma link_step_kinds:
  "list_all (\<lambda>r. link_type r = str ''external'' \<or> link_type r = str ''internal'') (snd st) \<Longrightarrow>
   list_all (\<lambda>r. link_type r = str ''external'' \<or> link_type r = str ''internal'')
     (snd (link_step urljoin netloc base_url st a))"
  by (cases st) (auto simp: link_step_def Let_def)

lemma links_loop_kinds:
  "list_all (\<lambda>r. link_type r = str ''external'' \<or> link_type r = str ''internal'')
     (links_loop urljoin netloc base_url anchors)"
proof -
  have "list_all (\<lambda>r. link_type r = str ''external'' \<or> link_type r = str ''internal'') (snd st)
    \<Longrightarrow> list_all (\<lambda>r. link_type r = str ''external'' \<or> link_type r = str ''internal'')
          (snd (foldl (link_step urljoin netloc base_url) st anchors))" for st
    by (induction anchors arbitrary: st) (auto simp: link_step_kinds)
  then show ?thesis by (simp add: links_loop_def)
qed

lemma links_loop_hosts:
  "list_all (\<lambda>r. link_type r = str ''external''
                \<or> host_of (netloc (link_url r)) = host_of (netloc base_url))
     (links_loop urljoin netloc base_url anchors)"
  using links_loop_typed [of netloc base_url urljoin anchors]
    links_loop_kinds [of urljoin netloc base_url anchors]
  by (auto simp: list_all_iff typed_by_netloc_def)

lemma from_anchor_mono:
  "from_anchor urljoin base_url xs r \<Longrightarrow> from_anchor urljoin base_url (xs @ ys) r"
  by (auto simp: from_anchor_def list_ex_iff)

lemma link_step_from_anchor:
  assumes "list_all (from_anchor urljoin base_url xs) (snd st)"
  shows "list_all (from_anchor urljoin base_url (xs @ [a]))
           (snd (link_step urljoin netloc base_url st a))"
proof -
  have old: "list_all (from_anchor urljoin base_url (xs @ [a])) (snd st)"
    using assms by (auto simp: list_all_iff intro: from_anchor_mono)
  show ?thesis
  proof (cases "javascript_text (get_or_empty a (str ''href''))")
    case True
    then show ?thesis using old by (simp add: link_step_javascript)
  next
    case False
    then show ?thesis using old
      by (cases st) (auto simp: link_step_def Let_def from_anchor_def)
  qed
qed

lemma foldl_link_step_from_anchor:
  "list_all (from_anchor urljoin base_url xs) (snd st) \<Longrightarrow>
   list_all (from_anchor urljoin base_url (xs @ anchors))
     (snd (foldl (link_step urljoin netloc base_url) st anchors))"
proof (induction anchors arbitrary: st xs)
  case Nil
  then show ?case by simp
next
  case (Cons a anchors)
  from Cons.IH [OF link_step_from_anchor [OF Cons.prems]]
  show ?case by simp
qed

lemma links_loop_from_anchor:
  "list_all (from_anchor urljoin base_url anchors) (links_loop urljoin netloc base_url anchors)"
  unfolding links_loop_def
  using foldl_link_step_from_anchor [of urljoin base_url "[]" "({}, [])" anchors netloc]
  by simp

text \<open>
  The example: a relative link, a link with a \<^verbatim>\<open>javascript\<close> destination, a link to
  another site, and a link to the site itself that names the port.
\<close>

lemma example_anchors_list:
  "find_all_with (str ''a'') (str ''href'') example_anchors
   = [Tag (str ''a'') [(str ''href'', str ''/ipo/list'')] [NavigableString (str ''IPO list'')],
      Tag (str ''a'') [(str ''href'', str ''JavaScript:void(0)'')]
        [NavigableString (str ''Open menu'')],
      Tag (str ''a'') [(str ''href'', str ''https://other.org/news'')]
        [NavigableString (str ''Partner'')],
      Tag (str ''a'') [(str ''href'', str ''https://example.com:443/results'')]
        [NavigableString (str ''Results'')]]"
  by (simp add: example_anchors_def find_all_with_def find_all_def str_def)

lemma links_example:
  "extract_meaningful_links example_urljoin example_netloc example_anchors
     (str ''https://example.com'')
   = [\<lparr>link_text = str ''IPO list'', link_url = str ''https://example.com/ipo/list'',
       link_type = str ''internal''\<rparr>,
      \<lparr>link_text = str ''Partner'', link_url = str ''https://other.org/news'',
       link_type = str ''external''\<rparr>,
      \<lparr>link_text = str ''Results'', link_url = str ''https://example.com:443/results'',
       link_type = str ''external''\<rparr>]"
  unfolding extract_meaningful_links_def example_anchors_list
  by (simp add: links_loop_def link_step_def Let_def get_or_empty_def any_in_def
      skip_patterns_def symbol_texts_def example_urljoin_def example_netloc_def
      clean_text_detail_def py_strip_def py_isspace_def py_lower_def lower_ucs4_def
      ToLowerFull_def str_def)

lemma example_hosts:
  "host_of (example_netloc (str ''https://example.com:443/results'')) = str ''example.com''"
  "host_of (example_netloc (str ''https://example.com'')) = str ''example.com''"
  by (simp_all add: host_of_def example_netloc_def Let_def py_lower_def lower_ucs4_def
      ToLowerFull_def str_def)

text \<open>
  Claim C6 says that a record is internal exactly when the host of its URL is the host of
  the base URL. The code compares the \<^verbatim>\<open>netloc\<close> of the two URLs, which holds the port
  and the user as well: for the base \<^verbatim>\<open>https://example.com\<close> the link to
  \<^verbatim>\<open>https://example.com:443/results\<close> has the host of the base and is typed external.
\<close>

theorem same_host_typed_external:
  "map (\<lambda>r. (link_url r, link_type r))
     (extract_meaningful_links example_urljoin example_netloc example_anchors
        (str ''https://example.com''))
   = [(str ''https://example.com/ipo/list'', str ''internal''),
      (str ''https://other.org/news'', str ''external''),
      (str ''https://example.com:443/results'', str ''external'')]
   \<and> host_of (example_netloc (str ''https://example.com:443/results''))
     = host_of (example_netloc (str ''https://example.com''))"
  by (simp add: links_example example_hosts)

text \<open>
  Claim C6, amended. Every record of the result is typed by the comparison of the
  \<^verbatim>\<open>netloc\<close> of its URL with the \<^verbatim>\<open>netloc\<close> of the base URL: \<^verbatim>\<open>internal\<close> exactly
  when they are equal, \<^verbatim>\<open>external\<close> exactly when they differ; so a record that is not
  external has the host of the base URL. Every record comes from an anchor whose
  lower-cased destination does not hold the text \<^verbatim>\<open>javascript:\<close>, and the result is the
  same when the anchors with such a destination are taken away.
\<close>

theorem links_typed_by_netloc:
  "list_all (typed_by_netloc netloc base_url)
     (extract_meaningful_links urljoin netloc soup base_url)
   \<and> list_all (\<lambda>r. link_type r = str ''external''
                    \<or> host_of (netloc (link_url r)) = host_of (netloc base_url))
       (extract_meaningful_links urljoin netloc soup base_url)
   \<and> list_all (from_anchor urljoin base_url (find_all_with (str ''a'') (str ''href'') soup))
       (extract_meaningful_links urljoin netloc soup base_url)
   \<and> links_loop urljoin netloc base_url anchors
       = links_loop urljoin netloc base_url
           (filter (\<lambda>a. \<not> javascript_text (get_or_empty a (str ''href''))) anchors)"
  using links_loop_typed links_loop_hosts links_loop_from_anchor links_loop_without_javascript
  by (simp add: extract_meaningful_links_def)

theorem links_typed_by_netloc_witness:
  "list_all (typed_by_netloc example_netloc (str ''https://example.com''))
     [\<lparr>link_text = str ''IPO list'', link_url = str ''https://example.com/ipo/list'',
       link_type = str ''internal''\<rparr>,
      \<lparr>link_text = str ''Partner'', link_url = str ''https://other.org/news'',
       link_type = str ''external''\<rparr>,
      \<lparr>link_text = str ''Results'', link_url = str ''https://example.com:443/results'',
       link_type = str ''external''\<rparr>]"
  using conjunct1 [OF links_typed_by_netloc
    [of example_netloc "str ''https://example.com''" example_urljoin example_anchors]]
  unfolding links_example .


text \<open>
  A destination in which a tab stands inside the word \<^verbatim>\<open>javascript\<close> does not hold the
  text \<^verbatim>\<open>javascript:\<close>; its anchor is kept.
\<close>

lemma tab_in_scheme_kept:
  "map link_url
     (extract_meaningful_links urljoin netloc
        (Tag (str ''body'') []
          [Tag (str ''a'') [(str ''href'', str ''java'' @ [9] @ str ''script:alert(1)'')]
             [NavigableString (str ''Run'')]])
        base_url)
   = [urljoin base_url (str ''java'' @ [9] @ str ''script:alert(1)'')]"
  by (simp add: extract_meaningful_links_def links_loop_def link_step_def Let_def
      find_all_with_def find_all_def get_or_empty_def any_in_def skip_patterns_def
      symbol_texts_def clean_text_detail_def py_strip_def py_isspace_def py_lower_def
      lower_ucs4_def ToLowerFull_def str_def)


subsection \<open>The category\<close>

lemma split_on_not_Nil: "split_on sep s \<noteq> []"
  by (induction s) (auto split: list.splits)

lemma hd_split_on: "hd (split_on sep s) = takeWhile (\<lambda>c. c \<noteq> sep) s"
  by (induction s) (auto split: list.splits simp: split_on_not_Nil)

lemma length_split_on: "length (split_on sep s) = Suc (length (filter (\<lambda>c. c = sep) s))"
  by (induction s) (auto split: list.splits simp: split_on_not_Nil)

lemma split_on_several: "Suc 0 < length (split_on sep s) \<longleftrightarrow> sep \<in> set s"
  by (auto simp: length_split_on filter_empty_conv)

lemma first_segment:
  "dropWhile (\<lambda>c. c = sep) s \<noteq> [] \<Longrightarrow>
   \<exists>segs. filter (\<lambda>seg. seg \<noteq> []) (split_on sep s)
           = takeWhile (\<lambda>c. c \<noteq> sep) (dropWhile (\<lambda>c. c = sep) s) # segs"
proof (induction s)
  case Nil
  then show ?case by simp
next
  case (Cons c cs)
  show ?case
  proof (cases "c = sep")
    case True
    with Cons show ?thesis by simp
  next
    case False
    obtain w ws where w: "split_on sep cs = w # ws"
      using split_on_not_Nil [of sep cs] by (cases "split_on sep cs") auto
    then have "w = takeWhile (\<lambda>c. c \<noteq> sep) cs"
      using hd_split_on [of sep cs] by simp
    with False w show ?thesis by simp
  qed
qed

lemma no_segment:
  "dropWhile (\<lambda>c. c = sep) s = [] \<Longrightarrow> filter (\<lambda>seg. seg \<noteq> []) (split_on sep s) = []"
  by (induction s) (auto split: if_splits)

lemma strip_char_decomp:
  "dropWhile (\<lambda>c. c = ch) s
     = strip_char ch s @ rev (takeWhile (\<lambda>c. c = ch) (rev (dropWhile (\<lambda>c. c = ch) s)))"
  by (simp only: strip_char_def rev_append [symmetric] takeWhile_dropWhile_id rev_rev_ident)

lemma takeWhile_strip_char:
  assumes "ch \<in> set (strip_char ch s)"
  shows "takeWhile (\<lambda>c. c \<noteq> ch) (strip_char ch s)
         = takeWhile (\<lambda>c. c \<noteq> ch) (dropWhile (\<lambda>c. c = ch) s)"
proof -
  obtain t where d: "dropWhile (\<lambda>c. c = ch) s = strip_char ch s @ t"
    using strip_char_decomp by blast
  have "takeWhile (\<lambda>c. c \<noteq> ch) (strip_char ch s @ t)
        = takeWhile (\<lambda>c. c \<noteq> ch) (strip_char ch s)"
    by (rule takeWhile_append1 [OF assms]) simp
  then show ?thesis by (simp add: d)
qed

lemma strip_char_nonempty:
  "strip_char ch s \<noteq> [] \<Longrightarrow> dropWhile (\<lambda>c. c = ch) s \<noteq> []"
  by (auto simp: strip_char_def dest: set_dropWhileD)

lemma category_spec_first_segment:
  assumes "47 \<in> set (strip_char 47 path)"
  shows "category_spec path
         = py_title (py_replace (str ''-'') (str '' '')
             (takeWhile (\<lambda>c. c \<noteq> 47) (strip_char 47 path)))"
proof -
  from assms have "strip_char 47 path \<noteq> []" by auto
  then have "dropWhile (\<lambda>c. c = 47) path \<noteq> []" by (rule strip_char_nonempty)
  from first_segment [OF this] obtain segs where
    "filter (\<lambda>seg. seg \<noteq> []) (split_on 47 path)
       = takeWhile (\<lambda>c. c \<noteq> 47) (dropWhile (\<lambda>c. c = 47) path) # segs" by blast
  then show ?thesis
    by (simp add: category_spec_def takeWhile_strip_char [OF assms])
qed

lemma extract_category_cases:
  "extract_category url_path soup url =
     (if meta_category soup \<noteq> [] then meta_category soup
      else if url \<noteq> [] \<and> 47 \<in> set (strip_char 47 (url_path url))
        then category_spec (url_path url)
      else [])"
  by (auto simp: extract_category_def Let_def split_on_several hd_split_on
      category_spec_first_segment)

text \<open>Title-casing leaves no text empty.\<close>

lemma Title_special_nonempty: "map_of Title_special c = Some ds \<Longrightarrow> ds \<noteq> []"
  by (drule map_of_SomeD) (auto simp: Title_special_def)

lemma ToTitleFull_nonempty: "ToTitleFull c \<noteq> []"
  by (auto simp: ToTitleFull_def dest: Title_special_nonempty split: option.splits)

lemma lower_ucs4_nonempty: "lower_ucs4 left c right \<noteq> []"
  by (simp add: lower_ucs4_def ToLowerFull_def split: option.splits)

lemma py_title_nonempty: "s \<noteq> [] \<Longrightarrow> py_title s \<noteq> []"
  by (cases s) (simp_all add: py_title_def ToTitleFull_nonempty)

lemma py_replace_single_length: "length (py_replace [a] [b] s) = length s"
  by (induction s) auto

lemma first_segment_nonempty:
  assumes "47 \<in> set (strip_char 47 path)"
  shows "takeWhile (\<lambda>c. c \<noteq> 47) (strip_char 47 path) \<noteq> []"
proof -
  from assms have ne: "strip_char 47 path \<noteq> []" by auto
  have "strip_char 47 path = rev (dropWhile (\<lambda>c. c = 47) (rev (dropWhile (\<lambda>c. c = 47) path)))"
    by (simp add: strip_char_def)
  have "hd (strip_char 47 path) \<noteq> 47"
  proof -
    have d: "dropWhile (\<lambda>c. c = 47) path \<noteq> []" using ne by (rule strip_char_nonempty)
    then have "hd (dropWhile (\<lambda>c. c = 47) path) \<noteq> 47" using hd_dropWhile [OF d] by simp
    moreover have "hd (dropWhile (\<lambda>c. c = 47) path) = hd (strip_char 47 path)"
      using strip_char_decomp [of 47 path] ne by (metis hd_append2)
    ultimately show ?thesis by simp
  qed
  with ne show ?thesis by (cases "strip_char 47 path") auto
qed

lemma category_spec_nonempty:
  assumes "47 \<in> set (strip_char 47 path)"
  shows "category_spec path \<noteq> []"
proof -
  have "length (py_replace (str ''-'') (str '' '')
                  (takeWhile (\<lambda>c. c \<noteq> 47) (strip_char 47 path)))
        = length (takeWhile (\<lambda>c. c \<noteq> 47) (strip_char 47 path))"
    by (simp add: str_def py_replace_single_length)
  with first_segment_nonempty [OF assms]
  have "py_replace (str ''-'') (str '' '')
          (takeWhile (\<lambda>c. c \<noteq> 47) (strip_char 47 path)) \<noteq> []"
    by auto
  then show ?thesis
    unfolding category_spec_first_segment [OF assms] by (rule py_title_nonempty)
qed

lemma no_meta: "meta_category (Tag (str ''html'') [] []) = []"
  by (simp add: meta_category_def find_attr_def find_all_def)

lemma category_spec_news: "category_spec (str ''/news'') = str ''News''"
  by (simp add: category_spec_def py_title_def ToTitleFull_def lower_ucs4_def
      ToLowerFull_def IsCased_def IsUppercase_def IsLowercase_def IsTitlecase_def str_def)

lemma category_spec_stocks: "category_spec (str ''/news/business/stocks/'') = str ''News''"
  by (simp add: category_spec_def py_title_def ToTitleFull_def lower_ucs4_def
      ToLowerFull_def IsCased_def IsUppercase_def IsLowercase_def IsTitlecase_def str_def)

lemma extract_category_news:
  "extract_category (\<lambda>url. str ''/news'') (Tag (str ''html'') [] [])
     (str ''https://www.bbc.com/news'') = []"
  using no_meta by (simp add: extract_category_def Let_def strip_char_def str_def)

text \<open>
  Claim C8 says that, without category metadata, the category is the first non-empty
  segment of the path, title-cased. For a path of one segment the code returns the empty
  string: on \<^verbatim>\<open>https://www.bbc.com/news\<close>, whose path is \<^verbatim>\<open>/news\<close>, the claim gives
  \<^verbatim>\<open>News\<close> and the code gives nothing.
\<close>

theorem extract_category_single_segment:
  "meta_category (Tag (str ''html'') [] []) = []
   \<and> extract_category (\<lambda>url. str ''/news'') (Tag (str ''html'') [] [])
       (str ''https://www.bbc.com/news'') = []
   \<and> category_spec (str ''/news'') = str ''News''"
  using no_meta extract_category_news category_spec_news by simp

text \<open>
  Claim C8, amended. The metadata value is returned when it is not empty. Otherwise, when
  the URL is not empty and its path, with the slashes at both ends removed, still contains a
  slash (it has at least two segments), the result is the first non-empty segment of the
  path with hyphens replaced by spaces, title-cased. Otherwise the result is empty; and it
  is empty in no other case.
\<close>

theorem extract_category_by_cases:
  "extract_category url_path soup url =
     (if meta_category soup \<noteq> [] then meta_category soup
      else if url \<noteq> [] \<and> 47 \<in> set (strip_char 47 (url_path url))
        then category_spec (url_path url)
      else [])
   \<and> (extract_category url_path soup url = []
        \<longleftrightarrow> meta_category soup = []
            \<and> (url = [] \<or> 47 \<notin> set (strip_char 47 (url_path url))))"
  using category_spec_nonempty [of "url_path url"]
  by (auto simp: extract_category_cases)

theorem extract_category_by_cases_witness:
  "extract_category (\<lambda>url. str ''/news/business/stocks/'') (Tag (str ''html'') [] [])
     (str ''https://www.moneycontrol.com/news/business/stocks/'') = str ''News''"
  by (subst conjunct1 [OF extract_category_by_cases])
     (use no_meta category_spec_stocks in \<open>simp add: strip_char_def str_def\<close>)


text \<open>A first segment that starts with the small letter U+00E9.\<close>

lemma extract_category_accent:
  "extract_category
     (\<lambda>url. [47, 233, 99, 111, 110, 111, 109, 105, 101, 47, 98, 111, 117, 114, 115, 101])
     (Tag (str ''html'') [] []) (str ''https://example.com/'')
   = [201, 99, 111, 110, 111, 109, 105, 101]"
  using no_meta by (simp add: extract_category_def Let_def strip_char_def str_def case_defs)


subsection \<open>Text clean-up\<close>

lemma space_32: "py_isspace 32"
  by (simp add: py_isspace_def)

lemma tidy_Cons_nonspace: "\<not> py_isspace c \<Longrightarrow> tidy (c # t) = tidy t"
  by (cases t) auto

lemma tidy_Cons_space:
  "py_isspace c \<Longrightarrow> tidy (c # t) = (c = 32 \<and> (t = [] \<or> \<not> py_isspace (hd t)) \<and> tidy t)"
  by (cases t) auto

lemma tidy_Cons:
  "tidy (c # t) = ((\<not> py_isspace c \<or> (c = 32 \<and> (t = [] \<or> \<not> py_isspace (hd t)))) \<and> tidy t)"
  by (cases "py_isspace c") (auto simp: tidy_Cons_nonspace tidy_Cons_space)

text \<open>Stripping.\<close>

lemma py_strip_trimmed: "trimmed (py_strip s)"
proof (cases "py_strip s = []")
  case True
  then show ?thesis by (simp add: trimmed_def)
next
  case False
  let ?d = "dropWhile py_isspace s"
  let ?e = "dropWhile py_isspace (rev ?d)"
  have s: "py_strip s = rev ?e" by (simp add: py_strip_def)
  with False have e: "?e \<noteq> []" by simp
  then have d: "?d \<noteq> []" by (auto dest: set_dropWhileD)
  have "\<not> py_isspace (hd ?e)" using e by (rule hd_dropWhile)
  then have l: "\<not> py_isspace (last (py_strip s))" using e by (simp add: s last_rev)
  have "rev ?d = takeWhile py_isspace (rev ?d) @ ?e" by simp
  then have "last (rev ?d) = last ?e" using e by (metis last_appendR)
  then have "hd ?d = last ?e" using d by (simp add: last_rev)
  moreover have "\<not> py_isspace (hd ?d)" using d by (rule hd_dropWhile)
  ultimately have "\<not> py_isspace (hd (py_strip s))" using e by (simp add: s hd_rev)
  with l show ?thesis by (simp add: trimmed_def)
qed

lemma py_strip_id: "trimmed t \<Longrightarrow> py_strip t = t"
proof (cases t)
  case Nil
  then show ?thesis by (simp add: py_strip_def)
next
  case (Cons c cs)
  assume "trimmed t"
  with Cons have h: "\<not> py_isspace (hd t)" and l: "\<not> py_isspace (last t)" and ne: "t \<noteq> []"
    by (auto simp: trimmed_def)
  from h ne have 1: "dropWhile py_isspace t = t" by (cases t) auto
  from l ne have "\<not> py_isspace (hd (rev t))" by (simp add: hd_rev)
  with ne have 2: "dropWhile py_isspace (rev t) = rev t" by (cases "rev t") auto
  show ?thesis by (simp add: py_strip_def 1 2)
qed

text \<open>Collapsing.\<close>

lemma collapse_ws_Nil_iff: "collapse_ws s = [] \<longleftrightarrow> s = []"
  by (induction s rule: collapse_ws.induct) auto

lemma hd_collapse_ws: "s \<noteq> [] \<Longrightarrow> \<not> py_isspace (hd s) \<Longrightarrow> hd (collapse_ws s) = hd s"
  by (induction s rule: collapse_ws.induct) auto

lemma last_collapse_ws:
  "s \<noteq> [] \<Longrightarrow> \<not> py_isspace (last s) \<Longrightarrow> last (collapse_ws s) = last s"
  by (induction s rule: collapse_ws.induct) (auto simp: collapse_ws_Nil_iff)

lemma tidy_collapse_ws: "tidy (collapse_ws s)"
proof (induction s rule: collapse_ws.induct)
  case 1
  then show ?case by simp
next
  case (2 c)
  then show ?case by simp
next
  case (3 c d cs)
  then show ?case
    using hd_collapse_ws [of "d # cs"] collapse_ws_Nil_iff [of "d # cs"]
    by (auto simp: tidy_Cons)
qed

lemma collapse_ws_id: "tidy t \<Longrightarrow> collapse_ws t = t"
  by (induction t rule: collapse_ws.induct) auto

lemma trimmed_collapse_ws: "trimmed s \<Longrightarrow> trimmed (collapse_ws s)"
  by (auto simp: trimmed_def collapse_ws_Nil_iff hd_collapse_ws last_collapse_ws)

lemma clean_text_detail_idem: "clean_text_detail (clean_text_detail s) = clean_text_detail s"
proof -
  have c: "clean_text_detail u = collapse_ws (py_strip u)" for u
    by (simp add: clean_text_detail_def py_strip_def)
  have "trimmed (collapse_ws (py_strip s))"
    by (rule trimmed_collapse_ws [OF py_strip_trimmed])
  then have "py_strip (collapse_ws (py_strip s)) = collapse_ws (py_strip s)"
    by (rule py_strip_id)
  then show ?thesis by (simp add: c collapse_ws_id tidy_collapse_ws)
qed


text \<open>Splitting and joining.\<close>

lemma split_aux_words:
  "\<not> list_ex py_isspace cur \<Longrightarrow>
   list_all (\<lambda>w. w \<noteq> [] \<and> \<not> list_ex py_isspace w) (split_aux cur s)"
  by (induction s arbitrary: cur) auto

lemma py_join_Cons:
  "py_join sep (w # rest) = (if rest = [] then w else w @ sep @ py_join sep rest)"
  by (cases rest) auto

lemma tidy_append_word: "\<not> list_ex py_isspace w \<Longrightarrow> tidy (w @ t) = tidy t"
  by (induction w) (auto simp: tidy_Cons_nonspace)

lemma joined_words:
  "list_all (\<lambda>w. w \<noteq> [] \<and> \<not> list_ex py_isspace w) ws \<Longrightarrow>
   tidy (py_join [32] ws) \<and> trimmed (py_join [32] ws)
   \<and> (ws \<noteq> [] \<longrightarrow> py_join [32] ws \<noteq> [])"
proof (induction ws)
  case Nil
  then show ?case by (simp add: trimmed_def)
next
  case (Cons w ws)
  then have w: "w \<noteq> []" "\<not> list_ex py_isspace w" by auto
  then have hw: "\<not> py_isspace (hd w)" and lw: "\<not> py_isspace (last w)"
    by (auto simp: list_ex_iff)
  show ?case
  proof (cases ws)
    case Nil
    then show ?thesis using w hw lw tidy_append_word [of w "[]"]
      by (simp add: trimmed_def)
  next
    case (Cons v vs)
    with Cons.IH Cons.prems have ih: "tidy (py_join [32] ws)" "trimmed (py_join [32] ws)"
      "py_join [32] ws \<noteq> []" by auto
    then have "\<not> py_isspace (hd (py_join [32] ws))" "\<not> py_isspace (last (py_join [32] ws))"
      by (auto simp: trimmed_def)
    then show ?thesis using w hw ih Cons
      by (simp add: py_join_Cons tidy_append_word tidy_Cons_space space_32 trimmed_def)
  qed
qed

lemma split_aux_nonempty:
  "cur \<noteq> [] \<or> list_ex (\<lambda>c. \<not> py_isspace c) s \<Longrightarrow> split_aux cur s \<noteq> []"
  by (induction s arbitrary: cur) auto

lemma join_split_aux:
  "tidy t \<Longrightarrow> t = [] \<or> \<not> py_isspace (last t) \<Longrightarrow> cur = [] \<longrightarrow> t = [] \<or> \<not> py_isspace (hd t)
   \<Longrightarrow> py_join [32] (split_aux cur t) = cur @ t"
proof (induction t arbitrary: cur)
  case Nil
  then show ?case by simp
next
  case (Cons c cs)
  show ?case
  proof (cases "py_isspace c")
    case True
    with Cons.prems have c: "c = 32" and cur: "cur \<noteq> []" and cs: "cs \<noteq> []"
      and h: "\<not> py_isspace (hd cs)" and t: "tidy cs"
      by (auto simp: tidy_Cons_space)
    from cs Cons.prems(2) have l: "\<not> py_isspace (last cs)" by simp
    have "py_join [32] (split_aux [] cs) = [] @ cs"
      by (rule Cons.IH) (use t l h in auto)
    moreover have "split_aux [] cs \<noteq> []"
      by (rule split_aux_nonempty) (use cs h in \<open>cases cs; auto\<close>)
    ultimately show ?thesis using True cur c by (simp add: py_join_Cons)
  next
    case False
    have "py_join [32] (split_aux (cur @ [c]) cs) = (cur @ [c]) @ cs"
      by (rule Cons.IH) (use Cons.prems False in \<open>auto simp: tidy_Cons_nonspace split: if_splits\<close>)
    with False show ?thesis by simp
  qed
qed

lemma join_split_id: "tidy t \<Longrightarrow> trimmed t \<Longrightarrow> py_join [32] (py_split t) = t"
  using join_split_aux [of t "[]"] by (auto simp: py_split_def trimmed_def)

text \<open>Replacing.\<close>

lemma py_replace_hd:
  "old \<noteq> [] \<Longrightarrow> new \<noteq> [] \<Longrightarrow> s \<noteq> [] \<Longrightarrow>
   py_replace old new s \<noteq> []
   \<and> (hd (py_replace old new s) = hd new \<or> hd (py_replace old new s) = hd s)"
  by (cases s) auto

lemma py_replace_last:
  "old \<noteq> [] \<Longrightarrow> new \<noteq> [] \<Longrightarrow> s \<noteq> [] \<Longrightarrow>
   last (py_replace old new s) = last new \<or> last (py_replace old new s) = last s"
proof (induction old new s rule: py_replace.induct)
  case (1 old new)
  then show ?case by simp
next
  case (2 old new c cs)
  show ?case
  proof (cases "prefix old (c # cs)")
    case True
    show ?thesis
    proof (cases "drop (length old) (c # cs) = []")
      case e: True
      with True 2 show ?thesis by simp
    next
      case ne: False
      with 2 True have "last (py_replace old new (drop (length old) (c # cs))) = last new
        \<or> last (py_replace old new (drop (length old) (c # cs)))
            = last (drop (length old) (c # cs))" by blast
      moreover have "py_replace old new (drop (length old) (c # cs)) \<noteq> []"
        using py_replace_hd [OF "2.prems"(1,2) ne] by simp
      moreover have "last (drop (length old) (c # cs)) = last (c # cs)"
        using ne by (metis drop_eq_Nil last_drop not_le)
      ultimately show ?thesis using True "2.prems" by auto
    qed
  next
    case False
    show ?thesis
    proof (cases cs)
      case Nil
      with False 2 show ?thesis by simp
    next
      case (Cons d ds)
      with 2 False have "last (py_replace old new cs) = last new
        \<or> last (py_replace old new cs) = last cs" by blast
      moreover have "py_replace old new cs \<noteq> []"
        using py_replace_hd [OF "2.prems"(1,2), of cs] Cons by simp
      ultimately show ?thesis using False "2.prems" Cons by auto
    qed
  qed
qed

lemma tidy_tl: "tidy (c # t) \<Longrightarrow> tidy t"
  by (simp add: tidy_Cons)

lemma tidy_drop: "tidy t \<Longrightarrow> tidy (drop n t)"
proof (induction n arbitrary: t)
  case 0
  then show ?case by simp
next
  case (Suc n)
  then show ?case by (cases t) (auto dest: tidy_tl)
qed

lemma py_replace_tidy:
  "old \<noteq> [] \<Longrightarrow> new \<noteq> [] \<Longrightarrow> \<not> list_ex py_isspace new \<Longrightarrow> tidy s \<Longrightarrow>
   tidy (py_replace old new s)"
proof (induction old new s rule: py_replace.induct)
  case (1 old new)
  then show ?case by simp
next
  case (2 old new c cs)
  show ?case
  proof (cases "prefix old (c # cs)")
    case True
    have "tidy (py_replace old new (drop (length old) (c # cs)))"
      using 2 True by (auto intro: tidy_drop)
    with True "2.prems" show ?thesis by (simp add: tidy_append_word)
  next
    case False
    have t: "tidy (py_replace old new cs)" using 2 False by (auto dest: tidy_tl)
    have hn: "\<not> py_isspace (hd new)" using "2.prems"(2,3) by (cases new) auto
    show ?thesis
    proof (cases "py_isspace c")
      case nsp: False
      with t False "2.prems" show ?thesis by (simp add: tidy_Cons_nonspace)
    next
      case sp: True
      with "2.prems"(4) have c: "c = 32" and cs: "cs = [] \<or> \<not> py_isspace (hd cs)"
        by (auto simp: tidy_Cons_space)
      show ?thesis
      proof (cases "cs = []")
        case True
        with False "2.prems" c show ?thesis by simp
      next
        case ne: False
        with cs have "\<not> py_isspace (hd cs)" by simp
        with hn py_replace_hd [OF "2.prems"(1,2) ne]
        have "py_replace old new cs \<noteq> [] \<and> \<not> py_isspace (hd (py_replace old new cs))"
          by auto
        with t False "2.prems" c sp show ?thesis by (simp add: tidy_Cons_space)
      qed
    qed
  qed
qed

lemma py_replace_trimmed:
  assumes "old \<noteq> []" "new \<noteq> []" "\<not> list_ex py_isspace new" "trimmed s"
  shows "trimmed (py_replace old new s)"
proof (cases "s = []")
  case True
  with assms show ?thesis by (simp add: trimmed_def)
next
  case False
  have "\<not> py_isspace (hd new)" "\<not> py_isspace (last new)"
    using assms(2,3) by (auto simp: list_ex_iff)
  with False assms(4) py_replace_hd [OF assms(1,2) False] py_replace_last [OF assms(1,2) False]
  show ?thesis by (auto simp: trimmed_def)
qed

lemma prefix_of_replaced:
  "old \<noteq> [] \<Longrightarrow> r \<notin> set p \<Longrightarrow> prefix p (py_replace old [r] s) \<Longrightarrow> prefix p s"
proof (induction s arbitrary: p)
  case Nil
  then show ?case by simp
next
  case (Cons c cs)
  show ?case
  proof (cases "prefix old (c # cs)")
    case True
    with Cons.prems show ?thesis by (cases p) auto
  next
    case False
    with Cons.prems have "prefix p (c # py_replace old [r] cs)" by simp
    then show ?thesis using Cons.IH [OF Cons.prems(1)] Cons.prems(2)
      by (cases p) auto
  qed
qed

lemma py_replace_gone:
  "old \<noteq> [] \<Longrightarrow> new = [r] \<Longrightarrow> r \<notin> set old \<Longrightarrow> \<not> contains old (py_replace old new s)"
proof (induction old new s rule: py_replace.induct)
  case (1 old new)
  then show ?case by simp
next
  case (2 old new c cs)
  show ?case
  proof (cases "prefix old (c # cs)")
    case True
    then have "\<not> contains old (py_replace old new (drop (length old) (c # cs)))"
      using 2 by blast
    moreover have "\<not> prefix old (r # t)" for t
      using "2.prems"(1,3) by (cases old) auto
    ultimately show ?thesis using True "2.prems" by simp
  next
    case False
    then have "\<not> contains old (py_replace old new cs)" using 2 by blast
    moreover have "\<not> prefix old (py_replace old [r] (c # cs))"
      using prefix_of_replaced [OF "2.prems"(1,3)] False by blast
    ultimately show ?thesis using False "2.prems" by simp
  qed
qed

lemma py_replace_id: "old \<noteq> [] \<Longrightarrow> \<not> contains old s \<Longrightarrow> py_replace old new s = s"
  by (induction s) auto

lemma contains_single: "contains [a] s \<longleftrightarrow> a \<in> set s"
  by (induction s) auto

lemma py_replace_char: "py_replace [a] [b] s = map (\<lambda>c. if c = a then b else c) s"
  by (induction s) auto

lemma prefix_map_back:
  "b \<notin> set p \<Longrightarrow> prefix p (map (\<lambda>c. if c = a then b else c) s) \<Longrightarrow> prefix p s"
proof (induction s arbitrary: p)
  case Nil
  then show ?case by simp
next
  case (Cons c cs)
  then show ?case by (cases p) (auto split: if_splits)
qed

lemma contains_map_back:
  "b \<notin> set p \<Longrightarrow> contains p (map (\<lambda>c. if c = a then b else c) s) \<Longrightarrow> contains p s"
proof (induction s)
  case Nil
  then show ?case by simp
next
  case (Cons c cs)
  then show ?case using prefix_map_back [of b p a "c # cs"] by auto
qed

lemma tidy_no_nbsp: "tidy t \<Longrightarrow> 160 \<notin> set t"
proof (induction t)
  case Nil
  then show ?case by simp
next
  case (Cons c t)
  then show ?case by (auto simp: tidy_Cons py_isspace_def)
qed

text \<open>The form of a cleaned text, and that cleaning leaves such a text as it is.\<close>

lemma clean_text_cleaned: "cleaned (clean_text s)"
proof (cases "s = []")
  case True
  then show ?thesis by (simp add: clean_text_def cleaned_def trimmed_def)
next
  case False
  define t1 where "t1 = py_join [32] (py_split s)"
  define t2 where "t2 = py_replace [226, 8218, 185] [8377] t1"
  define t4 where "t4 = py_replace [8217] [39] t2"
  have "list_all (\<lambda>w. w \<noteq> [] \<and> \<not> list_ex py_isspace w) (py_split s)"
    unfolding py_split_def by (rule split_aux_words) simp
  then have n1: "tidy t1" "trimmed t1" unfolding t1_def using joined_words by blast+
  have n2: "tidy t2" "trimmed t2" unfolding t2_def
    using n1 by (auto intro!: py_replace_tidy py_replace_trimmed simp: py_isspace_def)
  have g2: "\<not> contains [226, 8218, 185] t2" unfolding t2_def
    by (rule py_replace_gone) auto
  have t3: "py_replace [160] [32] t2 = t2"
    using tidy_no_nbsp [OF n2(1)] by (simp add: py_replace_id contains_single)
  have n4: "tidy t4" "trimmed t4" unfolding t4_def
    using n2 by (auto intro!: py_replace_tidy py_replace_trimmed simp: py_isspace_def)
  have g4: "\<not> contains [226, 8218, 185] t4" unfolding t4_def py_replace_char
    using g2 contains_map_back [of 39 "[226, 8218, 185]" 8217 t2] by auto
  have q4: "8217 \<notin> set t4" unfolding t4_def py_replace_char by auto
  have "clean_text s = py_strip (py_replace [8217] [39] (py_replace [160] [32] t2))"
    using False by (simp add: clean_text_def t2_def t1_def)
  also have "\<dots> = py_strip t4" by (simp only: t3 t4_def)
  also have "\<dots> = t4" by (rule py_strip_id [OF n4(2)])
  finally show ?thesis using n4 g4 q4 by (simp add: cleaned_def)
qed

lemma clean_text_id: "cleaned t \<Longrightarrow> clean_text t = t"
proof (cases "t = []")
  case True
  then show ?thesis by (simp add: clean_text_def)
next
  case False
  assume c: "cleaned t"
  then have 1: "py_join [32] (py_split t) = t" by (simp add: cleaned_def join_split_id)
  from c have 2: "py_replace [226, 8218, 185] [8377] t = t"
    by (simp add: cleaned_def py_replace_id)
  from c have 3: "py_replace [160] [32] t = t"
    using tidy_no_nbsp [of t] by (simp add: cleaned_def py_replace_id contains_single)
  from c have 4: "py_replace [8217] [39] t = t"
    by (simp add: cleaned_def py_replace_id contains_single)
  from c have 5: "py_strip t = t" by (simp add: cleaned_def py_strip_id)
  show ?thesis using False by (simp add: clean_text_def 1 2 3 4 5)
qed

lemma clean_text_idem: "clean_text (clean_text s) = clean_text s"
  by (rule clean_text_id [OF clean_text_cleaned])

text \<open>An example of each: white space of several kinds, the mis-encoded rupee sign and a
  typographic apostrophe.\<close>

lemma clean_text_example:
  "clean_text ([32, 160] @ str ''Rs'' @ [9, 10] @ [226, 8218, 185] @ str ''100 it'' @ [8217]
      @ str ''s '')
   = str ''Rs '' @ [8377] @ str ''100 it's''"
  by (simp add: clean_text_def py_split_def py_strip_def py_isspace_def str_def)

lemma clean_text_detail_example:
  "clean_text_detail ([32, 160] @ str ''Rs'' @ [9, 10] @ str ''100 '') = str ''Rs 100''"
  by (simp add: clean_text_detail_def py_strip_def py_isspace_def str_def)

text \<open>
  Claim C5. Cleaning a cleaned text changes nothing, for \<^verbatim>\<open>clean_text\<close> of
  news\_scraper.py and for \<^verbatim>\<open>clean_text\<close> of detail.py.
\<close>

theorem clean_text_idempotent:
  "clean_text (clean_text s) = clean_text s
   \<and> clean_text_detail (clean_text_detail s) = clean_text_detail s"
  using clean_text_idem clean_text_detail_idem by simp

subsection \<open>The strategies\<close>

lemma first_kept_append:
  assumes "first_kept key built xs r"
  shows "first_kept key built (xs @ ys) r"
proof -
  from assms obtain i where i: "i < length xs" "built (xs ! i) r"
    "key (xs ! i) = Some (py_lower (art_title r))"
    "\<not> (\<exists>j<i. key (xs ! j) = Some (py_lower (art_title r)))"
    unfolding first_kept_def by blast
  have same: "(xs @ ys) ! j = xs ! j" if "j \<le> i" for j
    using that i(1) by (simp add: nth_append)
  have "\<not> (\<exists>j<i. key ((xs @ ys) ! j) = Some (py_lower (art_title r)))"
    using i(4) same by auto
  moreover have "built ((xs @ ys) ! i) r" "key ((xs @ ys) ! i) = Some (py_lower (art_title r))"
    using i(2,3) same [of i] by auto
  moreover have "i < length (xs @ ys)" using i(1) by simp
  ultimately show ?thesis unfolding first_kept_def by blast
qed

lemma first_kept_seen:
  assumes "first_kept key built xs r"
  shows "\<exists>x\<in>set xs. key x = Some (py_lower (art_title r))"
proof -
  from assms obtain i where "i < length xs" "key (xs ! i) = Some (py_lower (art_title r))"
    unfolding first_kept_def by blast
  then show ?thesis using nth_mem by blast
qed

lemma first_kept_new:
  assumes "built x r" and "key x = Some (py_lower (art_title r))"
    and "\<not> (\<exists>y\<in>set xs. key y = Some (py_lower (art_title r)))"
  shows "first_kept key built (xs @ [x]) r"
  unfolding first_kept_def
proof (intro exI [of _ "length xs"] conjI)
  show "\<not> (\<exists>j<length xs. key ((xs @ [x]) ! j) = Some (py_lower (art_title r)))"
    using assms(3) by (auto simp: nth_append)
qed (use assms in auto)

lemma fold_inv_step:
  assumes k: "keeps_first key built step" and inv: "fold_inv key built xs st"
    and s: "step st x = Inr st'"
  shows "fold_inv key built (xs @ [x]) st'"
proof -
  obtain seen arts where st: "st = (seen, arts)" by (cases st)
  obtain seen' arts' where st': "st' = (seen', arts')" by (cases st')
  from inv st have seen: "seen = {k. \<exists>x\<in>set xs. key x = Some k}"
    and d: "distinct (map (\<lambda>r. py_lower (art_title r)) arts)"
    and f: "list_all (first_kept key built xs) arts"
    by (auto simp: fold_inv_def)
  from f have f': "list_all (first_kept key built (xs @ [x])) arts"
    by (auto simp: list_all_iff intro: first_kept_append)
  note k' = k [unfolded keeps_first_def, rule_format, of seen arts x seen' arts']
  from s st st' have "step (seen, arts) x = Inr (seen', arts')" by simp
  from k' [OF this] consider
      (same) "seen' = seen" "arts' = arts" "key x = None \<or> (\<exists>k. key x = Some k \<and> k \<in> seen)"
    | (new) k where "key x = Some k" "k \<notin> seen" "seen' = insert k seen"
        "arts' = arts \<or> (\<exists>r. arts' = arts @ [r] \<and> built x r \<and> py_lower (art_title r) = k)"
    by (elim disjE exE conjE) blast+
  then show ?thesis
  proof cases
    case same
    then have "seen' = {k. \<exists>y\<in>set (xs @ [x]). key y = Some k}"
      using seen by auto
    with same d f' st' show ?thesis by (simp add: fold_inv_def)
  next
    case new
    then have s': "seen' = {k. \<exists>y\<in>set (xs @ [x]). key y = Some k}"
      using seen by auto
    from new(4) show ?thesis
    proof
      assume "arts' = arts"
      with s' d f' st' show ?thesis by (simp add: fold_inv_def)
    next
      assume "\<exists>r. arts' = arts @ [r] \<and> built x r \<and> py_lower (art_title r) = k"
      then obtain r where r: "arts' = arts @ [r]" "built x r" "py_lower (art_title r) = k"
        by blast
      have fresh: "\<not> (\<exists>y\<in>set xs. key y = Some (py_lower (art_title r)))"
        using new(2) seen r(3) by auto
      have kx: "key x = Some (py_lower (art_title r))" by (simp add: new(1) r(3))
      have "first_kept key built (xs @ [x]) r"
        using r(2) kx fresh by (rule first_kept_new)
      moreover have "py_lower (art_title r) \<notin> (\<lambda>r. py_lower (art_title r)) ` set arts"
      proof
        assume "py_lower (art_title r) \<in> (\<lambda>r. py_lower (art_title r)) ` set arts"
        then obtain q where q: "q \<in> set arts" "py_lower (art_title q) = py_lower (art_title r)"
          by auto
        with f have "first_kept key built xs q" by (simp add: list_all_iff)
        from first_kept_seen [OF this] q(2) fresh show False by simp
      qed
      ultimately show ?thesis using s' d f' st' r(1) by (simp add: fold_inv_def)
    qed
  qed
qed

lemma fold_inv_try_fold:
  assumes "keeps_first key built step"
  shows "fold_inv key built xs st \<Longrightarrow> try_fold step st ys = Inr st' \<Longrightarrow>
         fold_inv key built (xs @ ys) st'"
proof (induction ys arbitrary: xs st)
  case Nil
  then show ?case by simp
next
  case (Cons y ys)
  from Cons.prems(2) obtain st1 where st1: "step st y = Inr st1" "try_fold step st1 ys = Inr st'"
    by (auto split: sum.splits)
  have "fold_inv key built (xs @ [y]) st1"
    by (rule fold_inv_step [OF assms Cons.prems(1) st1(1)])
  from Cons.IH [OF this st1(2)] show ?case by simp
qed

lemma try_fold_keeps_first:
  assumes "keeps_first key built step" and "try_fold step ({}, []) xs = Inr (seen, arts)"
  shows "distinct (map (\<lambda>r. py_lower (art_title r)) arts)
         \<and> list_all (first_kept key built xs) arts"
proof -
  have "fold_inv key built [] ({}, [])" by (simp add: fold_inv_def)
  from fold_inv_try_fold [OF assms(1) this assms(2)] show ?thesis
    by (simp add: fold_inv_def)
qed

lemma finish_cases:
  assumes "finish e url soup elem seen arts title link summary = Inr (seen', arts')"
  shows "seen' = seen
         \<and> (arts' = arts
             \<or> (\<exists>r. arts' = arts @ [r] \<and> art_title r = title \<and> art_link r = link
                   \<and> art_summary r = take 400 summary \<and> art_source r = url
                   \<and> is_valid_article title summary link = Inr True))"
  using assms
  by (auto simp: finish_def Let_def make_record_def split: sum.splits if_splits)

lemma static_keeps_first:
  "keeps_first static_key (static_built e url) (static_step e url soup)"
  unfolding keeps_first_def
proof (intro allI impI)
  fix seen arts x seen' arts'
  assume s: "static_step e url soup (seen, arts) x = Inr (seen', arts')"
  show "(seen' = seen \<and> arts' = arts
          \<and> (static_key x = None \<or> (\<exists>k. static_key x = Some k \<and> k \<in> seen)))
        \<or> (\<exists>k. static_key x = Some k \<and> k \<notin> seen \<and> seen' = insert k seen
              \<and> (arts' = arts
                  \<or> (\<exists>r. arts' = arts @ [r] \<and> static_built e url x r
                        \<and> py_lower (art_title r) = k)))"
  proof (cases "find (map str [''h1'', ''h2'', ''h3'']) x")
    case None
    with s show ?thesis by (simp add: static_step_def static_key_def)
  next
    case (Some title_tag)
    let ?title = "clean_text (get_text title_tag)"
    show ?thesis
    proof (cases "?title = [] \<or> py_lower ?title \<in> seen")
      case True
      with s Some show ?thesis by (auto simp: static_step_def static_key_def Let_def)
    next
      case False
      with s Some have "finish e url soup x (insert (py_lower ?title) seen) arts ?title
          (static_link e url x title_tag) (select_summary e x) = Inr (seen', arts')"
        by (simp add: static_step_def Let_def)
      from finish_cases [OF this] False Some show ?thesis
        by (auto simp: static_key_def static_built_def)
    qed
  qed
qed

lemma headline_keeps_first:
  "keeps_first headline_key (headline_built e url soup) (headline_step e url soup)"
  unfolding keeps_first_def
proof (intro allI impI)
  fix seen arts x seen' arts'
  assume s: "headline_step e url soup (seen, arts) x = Inr (seen', arts')"
  obtain i h parent where x: "x = (i, h, parent)" by (cases x)
  let ?title = "clean_text (get_text h)"
  show "(seen' = seen \<and> arts' = arts
          \<and> (headline_key x = None \<or> (\<exists>k. headline_key x = Some k \<and> k \<in> seen)))
        \<or> (\<exists>k. headline_key x = Some k \<and> k \<notin> seen \<and> seen' = insert k seen
              \<and> (arts' = arts
                  \<or> (\<exists>r. arts' = arts @ [r] \<and> headline_built e url soup x r
                        \<and> py_lower (art_title r) = k)))"
  proof (cases "?title = [] \<or> length ?title < 15 \<or> py_lower ?title \<in> seen")
    case True
    with s x show ?thesis by (auto simp: headline_step_def headline_key_def Let_def)
  next
    case False
    with s x have "finish e url soup parent (insert (py_lower ?title) seen) arts ?title
        (headline_link e url h) (headline_summary soup i) = Inr (seen', arts')"
      by (simp add: headline_step_def Let_def)
    from finish_cases [OF this] False x show ?thesis
      by (auto simp: headline_key_def headline_built_def)
  qed
qed

lemma static_result:
  "distinct (map (\<lambda>r. py_lower (art_title r)) (scrape_static_article e url response))
   \<and> list_all (first_kept static_key (static_built e url)
                 (case response of Inl err \<Rightarrow> [] | Inr (status_code, soup) \<Rightarrow>
                    find_all [str ''article''] soup))
       (scrape_static_article e url response)"
proof (cases response)
  case (Inl err)
  then show ?thesis by (simp add: scrape_static_article_def)
next
  case (Inr p)
  obtain status_code soup where p: "p = (status_code, soup)" by (cases p)
  show ?thesis
  proof (cases "try_fold (static_step e url soup) ({}, []) (find_all [str ''article''] soup)")
    case (Inl err)
    with Inr p show ?thesis by (simp add: scrape_static_article_def)
  next
    case r: (Inr st)
    obtain seen arts where st: "st = (seen, arts)" by (cases st)
    from try_fold_keeps_first [OF static_keeps_first r [unfolded st]]
    show ?thesis using Inr p r st by (simp add: scrape_static_article_def)
  qed
qed

lemma headline_result:
  "distinct (map (\<lambda>r. py_lower (art_title r)) (scrape_headlines e url response))
   \<and> list_all (first_kept headline_key
                 (headline_built e url (case response of Inl err \<Rightarrow> Tag [] [] []
                                        | Inr (status_code, soup) \<Rightarrow> soup))
                 (case response of Inl err \<Rightarrow> [] | Inr (status_code, soup) \<Rightarrow>
                    headline_elements soup))
       (scrape_headlines e url response)"
proof (cases response)
  case (Inl err)
  then show ?thesis by (simp add: scrape_headlines_def)
next
  case (Inr p)
  obtain status_code soup where p: "p = (status_code, soup)" by (cases p)
  show ?thesis
  proof (cases "try_fold (headline_step e url soup) ({}, []) (headline_elements soup)")
    case (Inl err)
    with Inr p show ?thesis by (simp add: scrape_headlines_def)
  next
    case r: (Inr st)
    obtain seen arts where st: "st = (seen, arts)" by (cases st)
    from try_fold_keeps_first [OF headline_keeps_first r [unfolded st]]
    show ?thesis using Inr p r st by (simp add: scrape_headlines_def)
  qed
qed








subsection \<open>Two examples\<close>

lemma example_title_clean: "clean_text example_title = example_title"
  by (simp add: example_title_def clean_text_def py_split_def py_strip_def py_isspace_def
      str_def)

lemma example_title_lower:
  "py_strip (py_lower example_title) = str ''sensex ends 500 points higher''"
  by (simp add: example_title_def py_strip_def py_lower_def lower_ucs4_def ToLowerFull_def str_def
      py_isspace_def)

lemma example_title_lower': "py_lower example_title = str ''sensex ends 500 points higher''"
  by (simp add: example_title_def py_lower_def lower_ucs4_def ToLowerFull_def str_def)

lemma example_title_length: "length example_title = 29"
  by (simp add: example_title_def str_def)

lemma example_title_split: "length (py_split example_title) = 5"
  by (simp add: example_title_def py_split_def str_def py_isspace_def)

lemma example_title_no_navigation:
  "str ''sensex ends 500 points higher'' \<notin> set NAVIGATION_TITLES"
  "str ''sensex ends 500 points higher'' \<notin> set TRIVIAL_TITLES"
  "str ''sensex ends 500 points higher'' \<notin> set SECTION_HEADER_TITLES"
  by (simp_all add: NAVIGATION_TITLES_def TRIVIAL_TITLES_def SECTION_HEADER_TITLES_def str_def)

lemma example_title_no_noise:
  "list_all (\<lambda>keyword. \<not> contains keyword (str ''sensex ends 500 points higher''))
     NOISE_KEYWORDS"
  by (simp add: NOISE_KEYWORDS_def str_def)

lemma example_title_no_indicator:
  "\<not> any_in section_indicators (str ''sensex ends 500 points higher'')"
  by (simp add: any_in_def section_indicators_def str_def)

lemma example_title_not_upper: "\<not> py_isupper example_title"
  by (simp add: example_title_def py_isupper_def IsLowercase_def IsTitlecase_def
      IsUppercase_def str_def)

lemma example_title_company:
  "company_name_check example_title (str ''sensex ends 500 points higher'') = Inr False"
  by (simp add: company_name_check_def example_title_split)


lemma example_title_valid:
  assumes link: "link \<noteq> []"
    and noise: "list_all (\<lambda>keyword. \<not> contains keyword (py_lower summary)) NOISE_KEYWORDS"
    and generic: "\<not> any_in GENERIC_SUMMARIES (py_lower summary)"
    and long: "summary = [] \<or> 30 \<le> length summary"
  shows "is_valid_article example_title summary link = Inr True"
proof -
  have n: "\<not> list_ex (\<lambda>keyword. contains keyword (str ''sensex ends 500 points higher'')
                                \<or> contains keyword (py_lower summary)) NOISE_KEYWORDS"
    using noise example_title_no_noise by (auto simp: list_all_iff list_ex_iff)
  have l: "late_checks example_title (str ''sensex ends 500 points higher'') summary
             (py_lower summary) link"
    using link generic long example_title_not_upper example_title_no_indicator
    by (auto simp: late_checks_def example_title_split)
  show ?thesis
    unfolding is_valid_article_def Let_def example_title_lower
    using n l example_title_no_navigation example_title_company example_title_length
    by auto
qed

lemma example_title_valid_no_summary:
  "link \<noteq> [] \<Longrightarrow> is_valid_article example_title [] link = Inr True"
  by (rule example_title_valid)
     (simp_all add: py_lower_def any_in_def NOISE_KEYWORDS_def GENERIC_SUMMARIES_def str_def)












lemma example_env_simps:
  "env_urljoin example_env base link = base @ link"
  "env_url_path example_env url = []"
  "env_select example_env selector elem = []"
  "env_extract_date example_env soup elem = Inr []"
  "env_now example_env n = []"
  by (simp_all add: example_env_def)

lemma example_headings_family:
  "headline_elements example_headings =
     [(3, Tag (str ''h1'') []
            [Tag (str ''a'') [(str ''href'', str ''/second'')] [NavigableString example_title]],
          example_headings),
      (0, Tag (str ''h2'') []
            [Tag (str ''a'') [(str ''href'', str ''/first'')] [NavigableString example_title]],
          example_headings)]"
  by (simp add: headline_elements_def tags_named_def HEADLINE_TAGS_def example_headings_def
      enumerate_eq_zip upt_rec str_def)

lemma example_headings_no_meta: "meta_category example_headings = []"
  by (simp add: meta_category_def find_attr_def find_all_def example_headings_def str_def)

lemma example_headings_no_p: "find_next (str ''p'') example_headings i = None"
proof -
  have "\<forall>d\<in>set (map fst (family example_headings)).
          \<not> (is_tag d \<and> tag_name d = str ''p'')"
    by (simp add: example_headings_def str_def)
  then have "filter (\<lambda>d. is_tag d \<and> tag_name d = str ''p'')
               (drop (Suc i) (map fst (family example_headings))) = []"
    unfolding filter_empty_conv using in_set_dropD by fast
  then show ?thesis by (simp add: find_next_def)
qed

lemma example_category:
  "meta_category soup = [] \<Longrightarrow> extract_category (env_url_path example_env) soup url = []"
  by (simp add: extract_category_def Let_def example_env_def strip_char_def)

lemma example_headings_links:
  "headline_link example_env (str ''https://example.com'')
     (Tag (str ''h1'') []
        [Tag (str ''a'') [(str ''href'', str ''/second'')] [NavigableString example_title]])
   = str ''https://example.com/second''"
  "headline_link example_env (str ''https://example.com'')
     (Tag (str ''h2'') []
        [Tag (str ''a'') [(str ''href'', str ''/first'')] [NavigableString example_title]])
   = str ''https://example.com/first''"
  by (simp_all add: headline_link_def find_all_with_def find_all_def get_or_empty_def
      resolve_link_def example_env_simps str_def)

lemma example_headings_result:
  "scrape_headlines example_env (str ''https://example.com'') (Inr (200, example_headings))
   = [\<lparr>art_title = example_title, art_link = str ''https://example.com/second'',
       art_summary = [], art_date = [], art_category = [],
       art_source = str ''https://example.com'', art_scraped_at = []\<rparr>]"
proof -
  have v: "is_valid_article example_title [] (str ''https://example.com/second'') = Inr True"
    by (rule example_title_valid_no_summary) (simp add: str_def)
  have ne: "example_title \<noteq> []" using example_title_length by auto
  show ?thesis
    by (simp add: scrape_headlines_def example_headings_family headline_step_def finish_def
        make_record_def Let_def headline_summary_def example_headings_no_p
        example_headings_links example_title_clean
        example_title_length example_title_lower' example_env_simps
        example_category [OF example_headings_no_meta] v ne)
qed

text \<open>
  Two headings whose titles differ in the case of an accented letter: the second is
  skipped.
\<close>

lemma accent_title_lowered:
  "py_lower accent_title = accent_title_lower"
  "py_lower accent_title_lower = accent_title_lower"
  "py_strip accent_title_lower = accent_title_lower"
  by (simp_all add: accent_title_def accent_title_lower_def py_lower_def lower_ucs4_def
      ToLowerFull_def Lower_runs_def py_strip_def py_isspace_def str_def)

lemma accent_title_clean:
  "clean_text accent_title = accent_title"
  "clean_text accent_title_lower = accent_title_lower"
  by (simp_all add: accent_title_def accent_title_lower_def clean_text_def py_split_def
      py_strip_def py_isspace_def str_def)

lemma accent_title_valid:
  "is_valid_article accent_title [] (str ''https://example.com/first'') = Inr True"
proof -
  have s: "py_split accent_title
           = [201 # str ''cole'', str ''de'', str ''commerce'', str ''ouvre'']"
    by (simp add: accent_title_def py_split_def py_isspace_def str_def)
  have low: "accent_title_lower = 233 # str ''cole de commerce ouvre''"
    by (simp add: accent_title_lower_def)
  have u: "\<not> py_isupper accent_title"
    by (simp add: accent_title_def py_isupper_def IsLowercase_def str_def)
  have c: "company_name_check accent_title accent_title_lower = Inr False"
    by (simp add: company_name_check_def s)
  have n: "\<not> list_ex (\<lambda>keyword. contains keyword accent_title_lower
                                \<or> contains keyword (py_lower [])) NOISE_KEYWORDS"
    by (simp add: NOISE_KEYWORDS_def py_lower_def accent_title_lower_def str_def)
  have l: "late_checks accent_title accent_title_lower []
             (py_lower []) (str ''https://example.com/first'')"
    using u
    by (simp add: late_checks_def s any_in_def section_indicators_def accent_title_lower_def
        str_def)
  have m: "accent_title_lower \<notin> set NAVIGATION_TITLES"
    "accent_title_lower \<notin> set TRIVIAL_TITLES"
    "accent_title_lower \<notin> set SECTION_HEADER_TITLES"
    by (simp_all add: NAVIGATION_TITLES_def TRIVIAL_TITLES_def SECTION_HEADER_TITLES_def
        accent_title_lower_def str_def)
  have len: "length accent_title = 23" by (simp add: accent_title_def str_def)
  show ?thesis
    unfolding is_valid_article_def Let_def accent_title_lowered
    using n l m c len by auto
qed

lemma accent_headings_family:
  "headline_elements accent_headings =
     [(0, Tag (str ''h2'') []
            [Tag (str ''a'') [(str ''href'', str ''/first'')] [NavigableString accent_title]],
          accent_headings),
      (3, Tag (str ''h2'') []
            [Tag (str ''a'') [(str ''href'', str ''/second'')]
               [NavigableString accent_title_lower]],
          accent_headings)]"
  by (simp add: headline_elements_def tags_named_def HEADLINE_TAGS_def accent_headings_def
      enumerate_eq_zip upt_rec str_def)

lemma accent_headings_no_meta: "meta_category accent_headings = []"
  by (simp add: meta_category_def find_attr_def find_all_def accent_headings_def str_def)

lemma accent_headings_no_p: "find_next (str ''p'') accent_headings i = None"
proof -
  have "\<forall>d\<in>set (map fst (family accent_headings)).
          \<not> (is_tag d \<and> tag_name d = str ''p'')"
    by (simp add: accent_headings_def str_def)
  then have "filter (\<lambda>d. is_tag d \<and> tag_name d = str ''p'')
               (drop (Suc i) (map fst (family accent_headings))) = []"
    unfolding filter_empty_conv using in_set_dropD by fast
  then show ?thesis by (simp add: find_next_def)
qed

lemma accent_headings_link:
  "headline_link example_env (str ''https://example.com'')
     (Tag (str ''h2'') []
        [Tag (str ''a'') [(str ''href'', str ''/first'')] [NavigableString accent_title]])
   = str ''https://example.com/first''"
  by (simp add: headline_link_def find_all_with_def find_all_def get_or_empty_def
      resolve_link_def example_env_simps str_def)

lemma accent_headings_result:
  "scrape_headlines example_env (str ''https://example.com'') (Inr (200, accent_headings))
   = [\<lparr>art_title = accent_title, art_link = str ''https://example.com/first'',
       art_summary = [], art_date = [], art_category = [],
       art_source = str ''https://example.com'', art_scraped_at = []\<rparr>]"
proof -
  have ne: "accent_title \<noteq> []" by (simp add: accent_title_def)
  have len: "length accent_title = 23" "length accent_title_lower = 23"
    by (simp_all add: accent_title_def accent_title_lower_def str_def)
  show ?thesis
    by (simp add: scrape_headlines_def accent_headings_family headline_step_def finish_def
        make_record_def Let_def headline_summary_def accent_headings_no_p
        accent_headings_link accent_title_clean len accent_title_lowered example_env_simps
        example_category [OF accent_headings_no_meta] accent_title_valid ne)
qed

















text \<open>
  Claim C10 says that each strategy keeps the first occurrence of a title in document
  order. \<^verbatim>\<open>scrape_headlines\<close> visits all \<^verbatim>\<open>h1\<close> before any \<^verbatim>\<open>h2\<close>: of an
  \<^verbatim>\<open>h2\<close> and a later \<^verbatim>\<open>h1\<close> with the same title it keeps the \<^verbatim>\<open>h1\<close>, which is the
  second in the document.
\<close>

theorem headlines_keep_later_h1:
  "map (\<lambda>h. (clean_text (get_text h),
              headline_link example_env (str ''https://example.com'') h))
     (find_all HEADLINE_TAGS example_headings)
   = [(example_title, str ''https://example.com/first''),
      (example_title, str ''https://example.com/second'')]
   \<and> map (\<lambda>r. (art_title r, art_link r))
       (scrape_headlines example_env (str ''https://example.com'')
          (Inr (200, example_headings)))
     = [(example_title, str ''https://example.com/second'')]"
proof -
  have "find_all HEADLINE_TAGS example_headings
    = [Tag (str ''h2'') []
         [Tag (str ''a'') [(str ''href'', str ''/first'')] [NavigableString example_title]],
       Tag (str ''h1'') []
         [Tag (str ''a'') [(str ''href'', str ''/second'')] [NavigableString example_title]]]"
    by (simp add: find_all_def HEADLINE_TAGS_def example_headings_def str_def)
  then show ?thesis
    by (simp add: example_headings_links example_title_clean example_headings_result)
qed

text \<open>
  Claim C10, amended. The list a strategy returns holds no two records whose lower-cased
  titles are equal. Each record is built from an element that the strategy visits, and no
  element visited before it has the same lower-cased title. The elements are visited in this
  order: by \<^verbatim>\<open>scrape_static_article\<close> the \<^verbatim>\<open>article\<close> elements in document order; by
  \<^verbatim>\<open>scrape_headlines\<close> all \<^verbatim>\<open>h1\<close> in document order, then all \<^verbatim>\<open>h2\<close>, all
  \<^verbatim>\<open>h3\<close> and all \<^verbatim>\<open>h4\<close>.
\<close>

theorem strategies_keep_first_visited:
  "distinct (map (\<lambda>r. py_lower (art_title r)) (scrape_static_article e url response))
   \<and> distinct (map (\<lambda>r. py_lower (art_title r)) (scrape_headlines e url response))
   \<and> list_all (first_kept static_key (static_built e url) (find_all [str ''article''] soup))
       (scrape_static_article e url (Inr (200, soup)))
   \<and> list_all (first_kept headline_key (headline_built e url soup) (headline_elements soup))
       (scrape_headlines e url (Inr (200, soup)))"
  using static_result [of e url response] headline_result [of e url response]
    static_result [of e url "Inr (200, soup)"] headline_result [of e url "Inr (200, soup)"]
  by simp

theorem strategies_keep_first_visited_witness:
  "list_all (first_kept headline_key
               (headline_built example_env (str ''https://example.com'') example_headings)
               (headline_elements example_headings))
     [\<lparr>art_title = example_title, art_link = str ''https://example.com/second'',
       art_summary = [], art_date = [], art_category = [],
       art_source = str ''https://example.com'', art_scraped_at = []\<rparr>]"
  using strategies_keep_first_visited
    [of example_env "str ''https://example.com''" "Inr (200, example_headings)"
        example_headings]
  by (simp add: example_headings_result)

end
